theory Spec2Isabelle
  imports Main
begin

section \<open>Values, property descriptors and the heap\<close>

text \<open>
  The two source files, \<^verbatim>\<open>src/Utility.js\<close> and \<^verbatim>\<open>src/PublicClassBuilder.js\<close>, are
  JavaScript. Objects live in a heap and are named by references; a property is either a
  data property or an accessor property, as \<^verbatim>\<open>Reflect.getOwnPropertyDescriptor\<close>
  reports it. The functions that the library synthesizes (the \<^verbatim>\<open>function () {...}\<close>
  expressions of steps 2.4 and 3.4, and the static \<^verbatim>\<open>_get\<close>) are closures: a value
  \<open>VFun c\<close> records which function expression it is and what it captured.

  \<open>Shared\<close> is the closure of \<^verbatim>\<open>Utility.js\<close> (one set of WeakMaps for the process);
  \<open>Builder b\<close> is the \<^verbatim>\<open>_private\<close> object of the builder \<open>b\<close> in
  \<^verbatim>\<open>PublicClassBuilder.js\<close>.
\<close>

type_synonym ref = nat

datatype scope = Shared | Builder ref

datatype key = KStr string | KSym nat

datatype val =
    VUndefined
  | VNull
  | VBool bool
  | VNum int
  | VStr string
  | VRef ref
  | VFun closure
and closure =
    StaticGet scope property val
  | StaticSet scope property val
  | StaticCall scope property val
  | StaticRead scope property
  | ProtoGet scope property
  | ProtoSet scope property
  | ProtoCall scope property
  | ProtoRead scope property
  | LookupGet scope val
  | Callback translator
and property =
    DataProp val bool bool bool
  | AccessorProp val val bool bool
and translator =
    FilterPublicInstance
  | FilterPrivateInstance
  | FilterPublic val
  | FilterPrivate val

text \<open>
  \<open>DataProp v w e c\<close> is \<^verbatim>\<open>{value: v, writable: w, enumerable: e, configurable: c}\<close>,
  \<open>AccessorProp g s e c\<close> is \<^verbatim>\<open>{get: g, set: s, enumerable: e, configurable: c}\<close>.
  Reading a field that a descriptor object does not have gives \<^verbatim>\<open>undefined\<close>.

  A translator is one of the four functions that rewrite a value, by name; the two of
  \<^verbatim>\<open>PublicClassBuilder.js\<close> are called with a receiver. \<open>Callback t\<close> is the function
  that a translator passes to \<^verbatim>\<open>obj.map\<close>: the translator itself in \<^verbatim>\<open>Utility.js\<close>, an
  arrow function that calls it with the same receiver in \<^verbatim>\<open>PublicClassBuilder.js\<close>.
\<close>

fun prop_configurable :: "property \<Rightarrow> bool" where
  "prop_configurable (DataProp v w e c) = c"
| "prop_configurable (AccessorProp g st e c) = c"

fun prop_enumerable :: "property \<Rightarrow> bool" where
  "prop_enumerable (DataProp v w e c) = e"
| "prop_enumerable (AccessorProp g st e c) = e"

fun prop_writable :: "property \<Rightarrow> bool" where
  "prop_writable (DataProp v w e c) = w"
| "prop_writable (AccessorProp g st e c) = False"

fun prop_get :: "property \<Rightarrow> val" where
  "prop_get (DataProp v w e c) = VUndefined"
| "prop_get (AccessorProp g st e c) = g"

fun prop_set :: "property \<Rightarrow> val" where
  "prop_set (DataProp v w e c) = VUndefined"
| "prop_set (AccessorProp g st e c) = st"

fun prop_value :: "property \<Rightarrow> val" where
  "prop_value (DataProp v w e c) = v"
| "prop_value (AccessorProp g st e c) = VUndefined"

text \<open>Errors. The three \<^verbatim>\<open>throw new Error(...)\<close> of the library are told apart by
  their message; \<open>TypeError\<close> and \<open>ReferenceError\<close> are raised by the language itself;
  \<open>Thrown v\<close> is whatever code of the implementation class throws.\<close>

datatype error =
    NotAClass
  | AlreadyBound
  | UnrelatedInstance
  | TypeError
  | ReferenceError
  | Thrown val

datatype 'a result = Return 'a | Throw error

datatype pstate = Pending | Fulfilled val | Rejected val

datatype okind =
    Ordinary
  | ArrayObj "val option list"
  | PromiseObj pstate
  | ChainedPromise translator val
  | Callable
  | FacadeClass scope val

record obj =
  okind :: okind
  oproto :: val
  oprops :: "(key \<times> property) list"

record registry =
  publicClassesMap :: "val \<rightharpoonup> val"
  privateClassesMap :: "val \<rightharpoonup> val"
  publicInstancesMap :: "val \<rightharpoonup> val"
  privateInstancesMap :: "val \<rightharpoonup> val"

text \<open>
  The state: the heap (a reference is an index, allocation appends), the four WeakMaps of
  the closure of \<^verbatim>\<open>Utility.js\<close>, and the module-level WeakMap \<^verbatim>\<open>_privateMap\<close> of
  \<^verbatim>\<open>PublicClassBuilder.js\<close>, which sends a builder to its \<^verbatim>\<open>_private\<close> object (the
  four Maps of that builder).
\<close>

record state =
  heap :: "obj list"
  shared :: registry
  privateMap :: "ref \<rightharpoonup> registry"

definition lookup :: "state \<Rightarrow> ref \<Rightarrow> obj option" where
  "lookup s r = (if r < length (heap s) then Some (heap s ! r) else None)"

definition alloc :: "state \<Rightarrow> obj \<Rightarrow> ref \<times> state" where
  "alloc s ob = (length (heap s), s\<lparr>heap := heap s @ [ob]\<rparr>)"

definition is_object :: "val \<Rightarrow> bool" where
  "is_object v = (case v of VRef r \<Rightarrow> True | VFun c \<Rightarrow> True | _ \<Rightarrow> False)"

text \<open>\<^verbatim>\<open>WeakMap\<close> accepts only objects as keys; \<^verbatim>\<open>Map\<close> accepts every value.\<close>

definition WeakMap_has :: "(val \<rightharpoonup> val) \<Rightarrow> val \<Rightarrow> bool" where
  "WeakMap_has m k = (is_object k \<and> m k \<noteq> None)"

definition WeakMap_get :: "(val \<rightharpoonup> val) \<Rightarrow> val \<Rightarrow> val" where
  "WeakMap_get m k = (if is_object k then (case m k of Some v \<Rightarrow> v | None \<Rightarrow> VUndefined) else VUndefined)"

definition WeakMap_set :: "(val \<rightharpoonup> val) \<Rightarrow> val \<Rightarrow> val \<Rightarrow> (val \<rightharpoonup> val) result" where
  "WeakMap_set m k v = (if is_object k then Return (m(k \<mapsto> v)) else Throw TypeError)"

definition Map_has :: "(val \<rightharpoonup> val) \<Rightarrow> val \<Rightarrow> bool" where
  "Map_has m k = (m k \<noteq> None)"

definition Map_get :: "(val \<rightharpoonup> val) \<Rightarrow> val \<Rightarrow> val" where
  "Map_get m k = (case m k of Some v \<Rightarrow> v | None \<Rightarrow> VUndefined)"

definition Map_set :: "(val \<rightharpoonup> val) \<Rightarrow> val \<Rightarrow> val \<Rightarrow> (val \<rightharpoonup> val)" where
  "Map_set m k v = m(k \<mapsto> v)"

text \<open>The \<^verbatim>\<open>typeof\<close> operator: its results are these six strings (symbols and big integers
  are not values of the model).\<close>

definition typeof :: "state \<Rightarrow> val \<Rightarrow> string" where
  "typeof s v =
    (case v of
       VUndefined \<Rightarrow> ''undefined''
     | VNull \<Rightarrow> ''object''
     | VBool b \<Rightarrow> ''boolean''
     | VNum n \<Rightarrow> ''number''
     | VStr x \<Rightarrow> ''string''
     | VFun c \<Rightarrow> ''function''
     | VRef r \<Rightarrow>
        (case lookup s r of
           Some ob \<Rightarrow>
             (case okind ob of
                Callable \<Rightarrow> ''function''
              | FacadeClass sc t \<Rightarrow> ''function''
              | _ \<Rightarrow> ''object'')
         | None \<Rightarrow> ''object''))"

definition truthy :: "val \<Rightarrow> bool" where
  "truthy v =
    (case v of
       VUndefined \<Rightarrow> False
     | VNull \<Rightarrow> False
     | VBool b \<Rightarrow> b
     | VNum n \<Rightarrow> n \<noteq> 0
     | VStr x \<Rightarrow> x \<noteq> []
     | VRef r \<Rightarrow> True
     | VFun c \<Rightarrow> True)"

text \<open>
  \<^verbatim>\<open>Array.isArray(obj)\<close> and the elements of an array: the list has the length of the
  array, \<open>Some v\<close> at an index that holds \<open>v\<close> and \<open>None\<close> at a hole.
\<close>

definition elements :: "state \<Rightarrow> val \<Rightarrow> val option list option" where
  "elements s v =
    (case v of
       VRef r \<Rightarrow>
        (case lookup s r of
           Some ob \<Rightarrow> (case okind ob of ArrayObj xs \<Rightarrow> Some xs | _ \<Rightarrow> None)
         | None \<Rightarrow> None)
     | _ \<Rightarrow> None)"

definition isArray :: "state \<Rightarrow> val \<Rightarrow> bool" where
  "isArray s v = (elements s v \<noteq> None)"

definition array_length :: "state \<Rightarrow> val \<Rightarrow> nat" where
  "array_length s v = (case elements s v of Some xs \<Rightarrow> length xs | None \<Rightarrow> 0)"

definition array_element :: "state \<Rightarrow> val \<Rightarrow> nat \<Rightarrow> val option" where
  "array_element s v k =
    (case elements s v of
       Some xs \<Rightarrow> (if k < length xs then xs ! k else None)
     | None \<Rightarrow> None)"

text \<open>
  \<^verbatim>\<open>new Promise((resolve, reject) => obj.then(result => resolve(f(result))).catch(reject))\<close>:
  a new promise, settled as \<open>obj\<close> is, a result passing through the translator \<open>f\<close>.
\<close>

definition new_promise :: "state \<Rightarrow> translator \<Rightarrow> val \<Rightarrow> val \<times> state" where
  "new_promise s f v =
    (case alloc s \<lparr>okind = ChainedPromise f v, oproto = VNull, oprops = []\<rparr> of
       (r, s') \<Rightarrow> (VRef r, s'))"

section \<open>The environment of the library\<close>

text \<open>
  What the library calls but does not define is a parameter of the model: \<open>hcall H f t args\<close>
  is \<^verbatim>\<open>f.apply(t, args)\<close> for a function \<open>f\<close> of the environment (a method, a getter
  or a setter of the implementation class, or a function that a read of a property of an
  array runs or gives), \<open>hconstruct H C args\<close> is \<^verbatim>\<open>new C(...args)\<close>. Both may change the
  state in any way and may throw. \<open>hfunproto\<close> and \<open>hobjproto\<close> are the built-in objects
  \<^verbatim>\<open>Function.prototype\<close> and \<^verbatim>\<open>Object.prototype\<close>, from which a class declared without
  \<^verbatim>\<open>extends\<close> and its prototype inherit; \<open>harrayproto\<close>, \<open>harray\<close> and \<open>harraymap\<close> are
  the built-in \<^verbatim>\<open>Array.prototype\<close>, \<^verbatim>\<open>Array\<close> and \<^verbatim>\<open>Array.prototype.map\<close>.
\<close>

record host =
  hcall :: "val \<Rightarrow> val \<Rightarrow> val list \<Rightarrow> state \<Rightarrow> val result \<times> state"
  hconstruct :: "val \<Rightarrow> val list \<Rightarrow> state \<Rightarrow> val result \<times> state"
  hfunproto :: val
  hobjproto :: val
  harrayproto :: val
  harray :: val
  harraymap :: val

definition bindR ::
  "('a result \<times> state) option \<Rightarrow> ('a \<Rightarrow> state \<Rightarrow> ('b result \<times> state) option)
    \<Rightarrow> ('b result \<times> state) option" where
  "bindR m f =
    (case m of
       None \<Rightarrow> None
     | Some (Throw e, s) \<Rightarrow> Some (Throw e, s)
     | Some (Return a, s) \<Rightarrow> f a s)"

text \<open>The first argument of a call, \<^verbatim>\<open>undefined\<close> when there is none.\<close>

definition arg0 :: "val list \<Rightarrow> val" where
  "arg0 args = (case args of [] \<Rightarrow> VUndefined | a # rest \<Rightarrow> a)"

definition startsWith :: "string \<Rightarrow> string \<Rightarrow> bool" where
  "startsWith name p = (take (length p) name = p)"

subsection \<open>Own properties, the prototype chain and instanceof\<close>

definition get_own_property :: "state \<Rightarrow> val \<Rightarrow> key \<Rightarrow> property option" where
  "get_own_property s v k =
    (case v of
       VRef r \<Rightarrow> (case lookup s r of Some ob \<Rightarrow> map_of (oprops ob) k | None \<Rightarrow> None)
     | _ \<Rightarrow> None)"

text \<open>\<^verbatim>\<open>Reflect.ownKeys(v)\<close> throws a TypeError when \<open>v\<close> is not an object.\<close>

definition ownKeys :: "state \<Rightarrow> val \<Rightarrow> key list result" where
  "ownKeys s v =
    (case v of
       VRef r \<Rightarrow> (case lookup s r of Some ob \<Rightarrow> Return (map fst (oprops ob)) | None \<Rightarrow> Throw TypeError)
     | _ \<Rightarrow> Throw TypeError)"

text \<open>\<^verbatim>\<open>C.prototype\<close>: the value of the own data property, \<^verbatim>\<open>undefined\<close> without one.\<close>

definition prototype_of :: "state \<Rightarrow> val \<Rightarrow> val" where
  "prototype_of s C =
    (case get_own_property s C (KStr ''prototype'') of
       Some (DataProp v w e c) \<Rightarrow> v
     | _ \<Rightarrow> VUndefined)"

fun proto_chain_has :: "nat \<Rightarrow> state \<Rightarrow> val \<Rightarrow> val \<Rightarrow> bool" where
  "proto_chain_has 0 s v p = False"
| "proto_chain_has (Suc n) s v p =
    (case v of
       VRef r \<Rightarrow>
        (case lookup s r of
           None \<Rightarrow> False
         | Some ob \<Rightarrow>
            (if oproto ob = VNull then False
             else if oproto ob = p then True
             else proto_chain_has n s (oproto ob) p))
     | _ \<Rightarrow> False)"

text \<open>
  \<^verbatim>\<open>v instanceof C\<close> with the default \<^verbatim>\<open>Symbol.hasInstance\<close>: a TypeError when \<open>C\<close> is not
  callable, false when \<open>v\<close> is not an object, a TypeError when \<^verbatim>\<open>C.prototype\<close> is not an
  object, otherwise a walk up the prototype chain of \<open>v\<close>, which has no more links than the
  heap has objects.
\<close>

definition instanceof :: "state \<Rightarrow> val \<Rightarrow> val \<Rightarrow> bool result" where
  "instanceof s v C =
    (if typeof s C \<noteq> ''function'' then Throw TypeError
     else if \<not> is_object v then Return False
     else if \<not> is_object (prototype_of s C) then Throw TypeError
     else Return (proto_chain_has (length (heap s)) s v (prototype_of s C)))"

text \<open>\<^verbatim>\<open>name in v\<close>: an own property, or one found up the prototype chain.\<close>

fun has_property :: "nat \<Rightarrow> state \<Rightarrow> val \<Rightarrow> key \<Rightarrow> bool" where
  "has_property 0 s v k = False"
| "has_property (Suc n) s v k =
    (case v of
       VRef r \<Rightarrow>
        (case lookup s r of
           None \<Rightarrow> False
         | Some ob \<Rightarrow> (map_of (oprops ob) k \<noteq> None \<or> has_property n s (oproto ob) k))
     | _ \<Rightarrow> False)"

subsection \<open>Object.defineProperty\<close>

text \<open>The object literal \<^verbatim>\<open>publicProperty\<close>: a field is \<open>None\<close> until it is assigned.\<close>

record pdesc =
  p_configurable :: "bool option"
  p_enumerable :: "bool option"
  p_writable :: "bool option"
  p_get :: "val option"
  p_set :: "val option"
  p_value :: "val option"

definition empty_pdesc :: pdesc where
  "empty_pdesc =
    \<lparr>p_configurable = None, p_enumerable = None, p_writable = None,
     p_get = None, p_set = None, p_value = None\<rparr>"

definition is_accessor_pdesc :: "pdesc \<Rightarrow> bool" where
  "is_accessor_pdesc d = (p_get d \<noteq> None \<or> p_set d \<noteq> None)"

definition is_data_pdesc :: "pdesc \<Rightarrow> bool" where
  "is_data_pdesc d = (p_value d \<noteq> None \<or> p_writable d \<noteq> None)"

definition opt :: "'a option \<Rightarrow> 'a \<Rightarrow> 'a" where
  "opt x d = (case x of Some y \<Rightarrow> y | None \<Rightarrow> d)"

text \<open>
  ValidateAndApplyPropertyDescriptor of the language, on an extensible object: the new
  property, or \<open>None\<close> when the change is rejected. A property that is not configurable
  accepts only a descriptor that changes nothing (or, for a writable data property, its
  value and \<^verbatim>\<open>writable: false\<close>).
\<close>

definition rejected :: "property \<Rightarrow> pdesc \<Rightarrow> bool" where
  "rejected cur d =
    (\<not> prop_configurable cur \<and>
      (p_configurable d = Some True
       \<or> (p_enumerable d \<noteq> None \<and> p_enumerable d \<noteq> Some (prop_enumerable cur))
       \<or> (case cur of
            DataProp v w e c \<Rightarrow>
              is_accessor_pdesc d
              \<or> (\<not> w \<and> (p_writable d = Some True \<or> (p_value d \<noteq> None \<and> p_value d \<noteq> Some v)))
          | AccessorProp g st e c \<Rightarrow>
              is_data_pdesc d
              \<or> (p_get d \<noteq> None \<and> p_get d \<noteq> Some g)
              \<or> (p_set d \<noteq> None \<and> p_set d \<noteq> Some st))))"

definition apply_descriptor :: "property option \<Rightarrow> pdesc \<Rightarrow> property option" where
  "apply_descriptor current d =
    (case current of
       None \<Rightarrow>
        Some (if is_accessor_pdesc d then
                AccessorProp (opt (p_get d) VUndefined) (opt (p_set d) VUndefined)
                  (opt (p_enumerable d) False) (opt (p_configurable d) False)
              else
                DataProp (opt (p_value d) VUndefined) (opt (p_writable d) False)
                  (opt (p_enumerable d) False) (opt (p_configurable d) False))
     | Some cur \<Rightarrow>
        (if rejected cur d then None
         else
           (let e' = opt (p_enumerable d) (prop_enumerable cur);
                c' = opt (p_configurable d) (prop_configurable cur)
            in Some
              (case cur of
                 DataProp v w e c \<Rightarrow>
                   (if is_accessor_pdesc d then
                      AccessorProp (opt (p_get d) VUndefined) (opt (p_set d) VUndefined) e' c'
                    else DataProp (opt (p_value d) v) (opt (p_writable d) w) e' c')
               | AccessorProp g st e c \<Rightarrow>
                   (if is_data_pdesc d then
                      DataProp (opt (p_value d) VUndefined) (opt (p_writable d) False) e' c'
                    else AccessorProp (opt (p_get d) g) (opt (p_set d) st) e' c')))))"

fun upsert :: "key \<Rightarrow> property \<Rightarrow> (key \<times> property) list \<Rightarrow> (key \<times> property) list" where
  "upsert k p [] = [(k, p)]"
| "upsert k p ((k', p') # kps) =
    (if k = k' then (k, p) # kps else (k', p') # upsert k p kps)"

definition callable_or_undefined :: "state \<Rightarrow> val option \<Rightarrow> bool" where
  "callable_or_undefined s x =
    (case x of None \<Rightarrow> True | Some g \<Rightarrow> g = VUndefined \<or> typeof s g = ''function'')"

text \<open>
  \<^verbatim>\<open>Object.defineProperty(target, key, d)\<close>. A TypeError when \<open>target\<close> is not an object, when a getter
  or setter is neither a function nor \<^verbatim>\<open>undefined\<close>, when \<open>d\<close> has \<^verbatim>\<open>get\<close> or \<^verbatim>\<open>set\<close>
  together with \<^verbatim>\<open>value\<close> or \<^verbatim>\<open>writable\<close>, and when the change is rejected.
\<close>

definition defineProperty :: "state \<Rightarrow> val \<Rightarrow> key \<Rightarrow> pdesc \<Rightarrow> unit result \<times> state" where
  "defineProperty s target k d =
    (case target of
       VRef r \<Rightarrow>
        (case lookup s r of
           None \<Rightarrow> (Throw TypeError, s)
         | Some ob \<Rightarrow>
            (if \<not> callable_or_undefined s (p_get d) \<or> \<not> callable_or_undefined s (p_set d) then
               (Throw TypeError, s)
             else if is_accessor_pdesc d \<and> is_data_pdesc d then (Throw TypeError, s)
             else
               (case apply_descriptor (map_of (oprops ob) k) d of
                  None \<Rightarrow> (Throw TypeError, s)
                | Some p \<Rightarrow>
                   (Return (),
                    s\<lparr>heap := (heap s)[r := ob\<lparr>oprops := upsert k p (oprops ob)\<rparr>]\<rparr>))))
     | _ \<Rightarrow> (Throw TypeError, s))"

section \<open>Arrays and Array.prototype.map\<close>

text \<open>
  The translators call \<^verbatim>\<open>obj.map(f)\<close> on an array \<open>obj\<close>. That is a method call of the
  language: the property \<^verbatim>\<open>map\<close> is read from the array (its own properties, then its
  prototype chain), the value read is called if it is a function, and a TypeError is thrown
  if it is not. For an array that inherits from the built-in \<^verbatim>\<open>Array.prototype\<close> the function
  is the built-in \<^verbatim>\<open>Array.prototype.map\<close>, written out below as the language defines it;
  any other function is code of the environment.

  \<open>find_property\<close> is the property that a read finds, on the object or up its prototype
  chain (which has no more links than the heap has objects); \<open>Get\<close> is the read: the value
  of a data property, the result of calling the getter of an accessor property (code of
  the environment), \<^verbatim>\<open>undefined\<close> when there is no property or no getter.

  The elements of an array are the values at its indices, kept apart from its other
  properties; an index is never an accessor, and prototypes hold no index.
\<close>

fun find_property :: "nat \<Rightarrow> state \<Rightarrow> val \<Rightarrow> key \<Rightarrow> property option" where
  "find_property 0 s v k = None"
| "find_property (Suc n) s v k =
    (case v of
       VRef r \<Rightarrow>
        (case lookup s r of
           None \<Rightarrow> None
         | Some ob \<Rightarrow>
            (case map_of (oprops ob) k of
               Some p \<Rightarrow> Some p
             | None \<Rightarrow> find_property n s (oproto ob) k))
     | _ \<Rightarrow> None)"

definition Get :: "host \<Rightarrow> state \<Rightarrow> val \<Rightarrow> key \<Rightarrow> val result \<times> state" where
  "Get H s v k =
    (case find_property (length (heap s)) s v k of
       None \<Rightarrow> (Return VUndefined, s)
     | Some (DataProp x w e c) \<Rightarrow> (Return x, s)
     | Some (AccessorProp g st e c) \<Rightarrow>
        (if g = VUndefined then (Return VUndefined, s) else hcall H g v [] s))"

text \<open>The well-known symbol \<^verbatim>\<open>Symbol.species\<close>.\<close>

definition species :: key where
  "species = KSym 0"

text \<open>
  ArrayCreate of the language: a new array of the given length, all of whose indices are
  holes, that inherits from the built-in \<^verbatim>\<open>Array.prototype\<close>.
\<close>

definition ArrayCreate :: "host \<Rightarrow> state \<Rightarrow> nat \<Rightarrow> val \<times> state" where
  "ArrayCreate H s len =
    (case alloc s \<lparr>okind = ArrayObj (replicate len None), oproto = harrayproto H, oprops = []\<rparr> of
       (r, s') \<Rightarrow> (VRef r, s'))"

text \<open>
  ArraySpeciesCreate of the language, for an array \<open>obj\<close>: the result of \<^verbatim>\<open>map\<close> is built by
  the constructor that \<^verbatim>\<open>obj.constructor[Symbol.species]\<close> names. Without one
  (\<^verbatim>\<open>undefined\<close>, or \<^verbatim>\<open>null\<close> as the species) it is a new array; a value that is not a
  function is a TypeError; the built-in \<^verbatim>\<open>Array\<close> gives a new array of the given length;
  any other function is called with \<^verbatim>\<open>new\<close> by the environment (which is where a function
  that is no constructor is refused).
\<close>

definition ArraySpeciesCreate :: "host \<Rightarrow> state \<Rightarrow> val \<Rightarrow> nat \<Rightarrow> val result \<times> state" where
  "ArraySpeciesCreate H s obj len =
    (case Get H s obj (KStr ''constructor'') of
       (Throw e, s1) \<Rightarrow> (Throw e, s1)
     | (Return C, s1) \<Rightarrow>
        (case (if is_object C then Get H s1 C species else (Return C, s1)) of
           (Throw e, s2) \<Rightarrow> (Throw e, s2)
         | (Return S, s2) \<Rightarrow>
            (if S = VUndefined \<or> (is_object C \<and> S = VNull) then
               (case ArrayCreate H s2 len of (A, s3) \<Rightarrow> (Return A, s3))
             else if typeof s2 S \<noteq> ''function'' then (Throw TypeError, s2)
             else if S = harray H then
               (case ArrayCreate H s2 len of (A, s3) \<Rightarrow> (Return A, s3))
             else hconstruct H S [VNum (int len)] s2)))"

text \<open>The decimal digits of a number: the name of the property at an index.\<close>

fun decimal :: "nat \<Rightarrow> string" where
  "decimal n =
    (if n < 10 then [char_of (48 + n)]
     else decimal (n div 10) @ [char_of (48 + n mod 10)])"

declare decimal.simps [simp del]

text \<open>
  CreateDataPropertyOrThrow of the language, at an index: on an array the element at the
  index is set, and the array grows to hold it; on another object the property named by
  the index is defined as a writable, enumerable and configurable value, and a rejected
  definition is a TypeError.
\<close>

definition set_index :: "val option list \<Rightarrow> nat \<Rightarrow> val \<Rightarrow> val option list" where
  "set_index ys k v =
    (if k < length ys then ys[k := Some v]
     else ys @ replicate (k - length ys) None @ [Some v])"

definition CreateDataProperty :: "state \<Rightarrow> val \<Rightarrow> nat \<Rightarrow> val \<Rightarrow> unit result \<times> state" where
  "CreateDataProperty s A k v =
    (case A of
       VRef r \<Rightarrow>
        (case lookup s r of
           None \<Rightarrow> (Throw TypeError, s)
         | Some ob \<Rightarrow>
            (case okind ob of
               ArrayObj ys \<Rightarrow>
                (Return (), s\<lparr>heap := (heap s)[r := ob\<lparr>okind := ArrayObj (set_index ys k v)\<rparr>]\<rparr>)
             | _ \<Rightarrow>
                defineProperty s A (KStr (decimal k))
                  \<lparr>p_configurable = Some True, p_enumerable = Some True, p_writable = Some True,
                   p_get = None, p_set = None, p_value = Some v\<rparr>))
     | _ \<Rightarrow> (Throw TypeError, s))"

text \<open>
  The loop of \<^verbatim>\<open>Array.prototype.map\<close> over the indices \<open>ks\<close>: an index at which the array
  \<open>obj\<close> has an element in the current state is passed to the callback \<open>f\<close>, and the result
  is stored in \<open>A\<close> at the same index; a hole is skipped. The callback may return, throw,
  or reach its bound (\<open>None\<close>).
\<close>

fun map_elements ::
  "(state \<Rightarrow> val \<Rightarrow> (val result \<times> state) option) \<Rightarrow> val \<Rightarrow> val \<Rightarrow> nat list \<Rightarrow> state
     \<Rightarrow> (unit result \<times> state) option" where
  "map_elements f obj A [] s = Some (Return (), s)"
| "map_elements f obj A (k # ks) s =
    (case array_element s obj k of
       None \<Rightarrow> map_elements f obj A ks s
     | Some kValue \<Rightarrow>
        (case f s kValue of
           None \<Rightarrow> None
         | Some (Throw e, s1) \<Rightarrow> Some (Throw e, s1)
         | Some (Return mappedValue, s1) \<Rightarrow>
            (case CreateDataProperty s1 A k mappedValue of
               (Throw e, s2) \<Rightarrow> Some (Throw e, s2)
             | (Return u, s2) \<Rightarrow> map_elements f obj A ks s2)))"

text \<open>The built-in \<^verbatim>\<open>Array.prototype.map\<close>, called on the array \<open>obj\<close> with the callback \<open>f\<close>.\<close>

definition Array_prototype_map ::
  "host \<Rightarrow> (state \<Rightarrow> val \<Rightarrow> (val result \<times> state) option) \<Rightarrow> val \<Rightarrow> state
     \<Rightarrow> (val result \<times> state) option" where
  "Array_prototype_map H f obj s =
    (case ArraySpeciesCreate H s obj (array_length s obj) of
       (Throw e, s1) \<Rightarrow> Some (Throw e, s1)
     | (Return A, s1) \<Rightarrow>
        (case map_elements f obj A [0..<array_length s obj] s1 of
           None \<Rightarrow> None
         | Some (Throw e, s2) \<Rightarrow> Some (Throw e, s2)
         | Some (Return u, s2) \<Rightarrow> Some (Return A, s2)))"

text \<open>
  The method call \<^verbatim>\<open>obj.map(f)\<close>, where the function value of the callback is \<open>VFun c\<close>
  and \<open>f\<close> is what calling it does.
\<close>

definition call_map ::
  "host \<Rightarrow> (state \<Rightarrow> val \<Rightarrow> (val result \<times> state) option) \<Rightarrow> closure \<Rightarrow> val \<Rightarrow> state
     \<Rightarrow> (val result \<times> state) option" where
  "call_map H f c obj s =
    (case Get H s obj (KStr ''map'') of
       (Throw e, s1) \<Rightarrow> Some (Throw e, s1)
     | (Return m, s1) \<Rightarrow>
        (if typeof s1 m \<noteq> ''function'' then Some (Throw TypeError, s1)
         else if m = harraymap H then Array_prototype_map H f obj s1
         else Some (hcall H m obj [VFun c] s1)))"

text \<open>
  A translator applied to each value of a list in turn: the translation of the argument
  list of a call (see \<open>filterPublic_args\<close> below).
\<close>

fun translate_args ::
  "(state \<Rightarrow> val \<Rightarrow> (val result \<times> state) option) \<Rightarrow> state \<Rightarrow> val list
     \<Rightarrow> (val list result \<times> state) option" where
  "translate_args f s [] = Some (Return [], s)"
| "translate_args f s (x # xs) =
    (case f s x of
       None \<Rightarrow> None
     | Some (Throw e, s') \<Rightarrow> Some (Throw e, s')
     | Some (Return y, s') \<Rightarrow>
        (case translate_args f s' xs of
           None \<Rightarrow> None
         | Some (Throw e, s'') \<Rightarrow> Some (Throw e, s'')
         | Some (Return ys, s'') \<Rightarrow> Some (Return (y # ys), s'')))"

section \<open>The translators of Utility.js\<close>

text \<open>
  \<^verbatim>\<open>filterPublicInstance\<close> (lines 19-28) sends a public instance to its private one,
  \<^verbatim>\<open>filterPrivateInstance\<close> (lines 30-39) a private instance to its public one. Both
  pass themselves to \<^verbatim>\<open>obj.map\<close> for an array, and arrays may be nested to any depth and,
  in a heap, cyclic; the second argument bounds the depth of the recursion and \<open>None\<close>
  says the bound was reached.
\<close>

primrec filterPublicInstance :: "host \<Rightarrow> nat \<Rightarrow> state \<Rightarrow> val \<Rightarrow> (val result \<times> state) option" where
  "filterPublicInstance H 0 s obj = None"
| "filterPublicInstance H (Suc n) s obj =
    (if WeakMap_has (publicInstancesMap (shared s)) obj then
       Some (Return (WeakMap_get (publicInstancesMap (shared s)) obj), s)
     else if isArray s obj then
       call_map H (filterPublicInstance H n) (Callback FilterPublicInstance) obj s
     else if typeof s obj = ''promise'' then
       (case new_promise s FilterPublicInstance obj of (v, s') \<Rightarrow> Some (Return v, s'))
     else Some (Return obj, s))"

primrec filterPrivateInstance :: "host \<Rightarrow> nat \<Rightarrow> state \<Rightarrow> val \<Rightarrow> (val result \<times> state) option" where
  "filterPrivateInstance H 0 s obj = None"
| "filterPrivateInstance H (Suc n) s obj =
    (if WeakMap_has (privateInstancesMap (shared s)) obj then
       Some (Return (WeakMap_get (privateInstancesMap (shared s)) obj), s)
     else if isArray s obj then
       call_map H (filterPrivateInstance H n) (Callback FilterPrivateInstance) obj s
     else if typeof s obj = ''promise'' then
       (case new_promise s FilterPrivateInstance obj of (v, s') \<Rightarrow> Some (Return v, s'))
     else Some (Return obj, s))"

text \<open>
  The argument list of a call is a new array (the rest parameter \<^verbatim>\<open>...publicArgs\<close>), an
  instance of the built-in \<^verbatim>\<open>Array\<close> that is a key of no map, so the translator, applied
  to it, maps over its elements. For that array the model takes \<^verbatim>\<open>map\<close> to be the built-in
  one and the result to be a new array, and allocates neither:
  \<^verbatim>\<open>filterPublicInstance(publicArgs)\<close> is the translator applied to each argument in turn,
  and the translated list is then spread into the call.
\<close>

definition filterPublicInstance_map ::
  "host \<Rightarrow> nat \<Rightarrow> state \<Rightarrow> val list \<Rightarrow> (val list result \<times> state) option" where
  "filterPublicInstance_map H n s publicArgs = translate_args (filterPublicInstance H n) s publicArgs"

section \<open>Building the public class\<close>

text \<open>
  Steps 1 to 3 are the same text in \<^verbatim>\<open>getPublicClass\<close> of \<^verbatim>\<open>Utility.js\<close> (lines 49-200)
  and in \<^verbatim>\<open>buildPublicClass\<close> of \<^verbatim>\<open>PublicClassBuilder.js\<close> (lines 42-193), but for the
  translators that the synthesized functions call and the maps they read; the scope says
  which file a synthesized function comes from.

  Step 1, the class declaration, creates the class object with its own properties
  \<^verbatim>\<open>length\<close>, \<^verbatim>\<open>name\<close>, \<^verbatim>\<open>prototype\<close> and the static method \<^verbatim>\<open>_get\<close>, and the prototype
  object with its \<^verbatim>\<open>constructor\<close>.
\<close>

definition declare_PublicClass :: "host \<Rightarrow> scope \<Rightarrow> val \<Rightarrow> state \<Rightarrow> val \<times> state" where
  "declare_PublicClass H sc PrivateClass s =
    (let f = length (heap s) in
     (VRef f,
      s\<lparr>heap := heap s @
        [\<lparr>okind = FacadeClass sc PrivateClass, oproto = hfunproto H,
          oprops =
            [(KStr ''length'', DataProp (VNum 0) False False True),
             (KStr ''name'', DataProp (VStr ''PublicClass'') False False True),
             (KStr ''prototype'', DataProp (VRef (Suc f)) False False False),
             (KStr ''_get'', DataProp (VFun (LookupGet sc (VRef f))) True False True)]\<rparr>,
         \<lparr>okind = Ordinary, oproto = hobjproto H,
          oprops = [(KStr ''constructor'', DataProp (VRef f) True False True)]\<rparr>]\<rparr>))"

text \<open>Steps 2.1 and 3.1: the keys that the loops skip.\<close>

definition skipped_static :: "key \<Rightarrow> bool" where
  "skipped_static k =
    (case k of KSym n \<Rightarrow> True | KStr name \<Rightarrow> startsWith name ''_'' \<or> name = ''prototype'')"

definition skipped_proto :: "key \<Rightarrow> bool" where
  "skipped_proto k =
    (case k of KSym n \<Rightarrow> True | KStr name \<Rightarrow> startsWith name ''_'' \<or> name = ''constructor'')"

text \<open>Steps 2.3 and 2.4: the descriptor of a static member of the public class.\<close>

definition static_publicProperty :: "scope \<Rightarrow> state \<Rightarrow> val \<Rightarrow> property \<Rightarrow> pdesc" where
  "static_publicProperty sc s PrivateClass privateProperty =
    (let publicProperty = empty_pdesc
           \<lparr>p_configurable := (if prop_configurable privateProperty then Some True else None),
            p_enumerable := (if prop_enumerable privateProperty then Some True else None)\<rparr>
     in
     if truthy (prop_get privateProperty) \<or> truthy (prop_set privateProperty) then
       publicProperty
         \<lparr>p_get := (if truthy (prop_get privateProperty)
                    then Some (VFun (StaticGet sc privateProperty PrivateClass)) else None),
          p_set := (if truthy (prop_set privateProperty)
                    then Some (VFun (StaticSet sc privateProperty PrivateClass)) else None)\<rparr>
     else
       (let publicProperty2 = publicProperty
              \<lparr>p_writable := (if prop_writable privateProperty then Some True else None)\<rparr>
        in
        if typeof s (prop_value privateProperty) = ''function'' then
          publicProperty2\<lparr>p_value := Some (VFun (StaticCall sc privateProperty PrivateClass))\<rparr>
        else
          publicProperty2\<lparr>p_get := Some (VFun (StaticRead sc privateProperty))\<rparr>))"

text \<open>Steps 3.3 and 3.4: the descriptor of a member of the public prototype.\<close>

definition proto_publicProperty :: "scope \<Rightarrow> state \<Rightarrow> property \<Rightarrow> pdesc" where
  "proto_publicProperty sc s privateProtoProperty =
    (let publicProtoProperty = empty_pdesc
           \<lparr>p_configurable := (if prop_configurable privateProtoProperty then Some True else None),
            p_enumerable := (if prop_enumerable privateProtoProperty then Some True else None)\<rparr>
     in
     if truthy (prop_get privateProtoProperty) \<or> truthy (prop_set privateProtoProperty) then
       publicProtoProperty
         \<lparr>p_get := (if truthy (prop_get privateProtoProperty)
                    then Some (VFun (ProtoGet sc privateProtoProperty)) else None),
          p_set := (if truthy (prop_set privateProtoProperty)
                    then Some (VFun (ProtoSet sc privateProtoProperty)) else None)\<rparr>
     else
       (let publicProtoProperty2 = publicProtoProperty
              \<lparr>p_writable := (if prop_writable privateProtoProperty then Some True else None)\<rparr>
        in
        if typeof s (prop_value privateProtoProperty) = ''function'' then
          publicProtoProperty2\<lparr>p_value := Some (VFun (ProtoCall sc privateProtoProperty))\<rparr>
        else
          publicProtoProperty2\<lparr>p_get := Some (VFun (ProtoRead sc privateProtoProperty))\<rparr>))"

text \<open>Step 2, the loop over \<^verbatim>\<open>Reflect.ownKeys(PrivateClass)\<close>.\<close>

fun transfer_static :: "scope \<Rightarrow> val \<Rightarrow> val \<Rightarrow> key list \<Rightarrow> state \<Rightarrow> unit result \<times> state" where
  "transfer_static sc PrivateClass PublicClass [] s = (Return (), s)"
| "transfer_static sc PrivateClass PublicClass (k # keys) s =
    (if skipped_static k then transfer_static sc PrivateClass PublicClass keys s
     else
       (case get_own_property s PrivateClass k of
          None \<Rightarrow> (Throw TypeError, s)
        | Some privateProperty \<Rightarrow>
           (case defineProperty s PublicClass k
                   (static_publicProperty sc s PrivateClass privateProperty) of
              (Throw e, s') \<Rightarrow> (Throw e, s')
            | (Return u, s') \<Rightarrow> transfer_static sc PrivateClass PublicClass keys s')))"

text \<open>Step 3, the loop over \<^verbatim>\<open>Reflect.ownKeys(PrivateClass.prototype)\<close>.\<close>

fun transfer_proto :: "scope \<Rightarrow> val \<Rightarrow> val \<Rightarrow> key list \<Rightarrow> state \<Rightarrow> unit result \<times> state" where
  "transfer_proto sc PrivateClass PublicClass [] s = (Return (), s)"
| "transfer_proto sc PrivateClass PublicClass (k # keys) s =
    (if skipped_proto k then transfer_proto sc PrivateClass PublicClass keys s
     else
       (case get_own_property s (prototype_of s PrivateClass) k of
          None \<Rightarrow> (Throw TypeError, s)
        | Some privateProtoProperty \<Rightarrow>
           (case defineProperty s (prototype_of s PublicClass) k
                   (proto_publicProperty sc s privateProtoProperty) of
              (Throw e, s') \<Rightarrow> (Throw e, s')
            | (Return u, s') \<Rightarrow> transfer_proto sc PrivateClass PublicClass keys s')))"

definition buildPublicClass :: "host \<Rightarrow> scope \<Rightarrow> val \<Rightarrow> state \<Rightarrow> val result \<times> state" where
  "buildPublicClass H sc PrivateClass s =
    (case declare_PublicClass H sc PrivateClass s of
       (PublicClass, s1) \<Rightarrow>
        (case ownKeys s1 PrivateClass of
           Throw e \<Rightarrow> (Throw e, s1)
         | Return keys \<Rightarrow>
            (case transfer_static sc PrivateClass PublicClass keys s1 of
               (Throw e, s2) \<Rightarrow> (Throw e, s2)
             | (Return u, s2) \<Rightarrow>
                (case ownKeys s2 (prototype_of s2 PrivateClass) of
                   Throw e \<Rightarrow> (Throw e, s2)
                 | Return pkeys \<Rightarrow>
                    (case transfer_proto sc PrivateClass PublicClass pkeys s2 of
                       (Throw e, s3) \<Rightarrow> (Throw e, s3)
                     | (Return u, s3) \<Rightarrow> (Return PublicClass, s3))))))"

text \<open>The test of line 43 of \<^verbatim>\<open>Utility.js\<close> and line 217 of \<^verbatim>\<open>PublicClassBuilder.js\<close>.\<close>

definition is_class :: "state \<Rightarrow> val \<Rightarrow> bool" where
  "is_class s PrivateClass =
    (\<not> (typeof s PrivateClass \<noteq> ''function'' \<or> \<not> truthy (prototype_of s PrivateClass)))"

text \<open>\<^verbatim>\<open>getPublicClass\<close> of \<^verbatim>\<open>Utility.js\<close> (lines 41-208).\<close>

definition getPublicClass :: "host \<Rightarrow> val \<Rightarrow> state \<Rightarrow> val result \<times> state" where
  "getPublicClass H PrivateClass s =
    (if \<not> is_class s PrivateClass then (Throw NotAClass, s)
     else if WeakMap_has (privateClassesMap (shared s)) PrivateClass then
       (Return (WeakMap_get (privateClassesMap (shared s)) PrivateClass), s)
     else
       (case buildPublicClass H Shared PrivateClass s of
          (Throw e, s1) \<Rightarrow> (Throw e, s1)
        | (Return PublicClass, s1) \<Rightarrow>
           (case WeakMap_set (privateClassesMap (shared s1)) PrivateClass PublicClass of
              Throw e \<Rightarrow> (Throw e, s1)
            | Return m1 \<Rightarrow>
               (let s2 = s1\<lparr>shared := (shared s1)\<lparr>privateClassesMap := m1\<rparr>\<rparr> in
                case WeakMap_set (publicClassesMap (shared s2)) PublicClass PrivateClass of
                  Throw e \<Rightarrow> (Throw e, s2)
                | Return m2 \<Rightarrow>
                   (Return PublicClass, s2\<lparr>shared := (shared s2)\<lparr>publicClassesMap := m2\<rparr>\<rparr>)))))"

text \<open>
  \<^verbatim>\<open>PublicClassBuilder\<close>: the constructor (lines 202-212) and the method
  \<^verbatim>\<open>getPublicClass\<close> (lines 214-231). \<open>private_of s t\<close> is \<^verbatim>\<open>_privateMap.get(t)\<close>; reading a
  field of the \<^verbatim>\<open>undefined\<close> it gives for a \<open>t\<close> that is no builder is a TypeError.
\<close>

definition empty_registry :: registry where
  "empty_registry =
    \<lparr>publicClassesMap = Map.empty, privateClassesMap = Map.empty,
     publicInstancesMap = Map.empty, privateInstancesMap = Map.empty\<rparr>"

definition new_PublicClassBuilder :: "host \<Rightarrow> state \<Rightarrow> val \<times> state" where
  "new_PublicClassBuilder H s =
    (case alloc s \<lparr>okind = Ordinary, oproto = VNull, oprops = []\<rparr> of
       (b, s') \<Rightarrow> (VRef b, s'\<lparr>privateMap := (privateMap s')(b \<mapsto> empty_registry)\<rparr>))"

definition private_of :: "state \<Rightarrow> val \<Rightarrow> registry option" where
  "private_of s t = (case t of VRef b \<Rightarrow> privateMap s b | _ \<Rightarrow> None)"

definition PublicClassBuilder_getPublicClass ::
  "host \<Rightarrow> val \<Rightarrow> val \<Rightarrow> state \<Rightarrow> val result \<times> state" where
  "PublicClassBuilder_getPublicClass H this PrivateClass s =
    (if \<not> is_class s PrivateClass then (Throw NotAClass, s)
     else
       (case this of
          VRef b \<Rightarrow>
           (case privateMap s b of
              None \<Rightarrow> (Throw TypeError, s)
            | Some pr \<Rightarrow>
               (if Map_has (privateClassesMap pr) PrivateClass then
                  (Return (Map_get (privateClassesMap pr) PrivateClass), s)
                else
                  (case buildPublicClass H (Builder b) PrivateClass s of
                     (Throw e, s1) \<Rightarrow> (Throw e, s1)
                   | (Return PublicClass, s1) \<Rightarrow>
                      (Return PublicClass,
                       s1\<lparr>privateMap := (privateMap s1)(b \<mapsto>
                            pr\<lparr>privateClassesMap :=
                                 Map_set (privateClassesMap pr) PrivateClass PublicClass,
                               publicClassesMap :=
                                 Map_set (publicClassesMap pr) PublicClass PrivateClass\<rparr>)\<rparr>))))
        | _ \<Rightarrow> (Throw TypeError, s)))"

section \<open>The translators of PublicClassBuilder.js\<close>

text \<open>
  \<^verbatim>\<open>filterPublic\<close> (lines 9-22) and \<^verbatim>\<open>filterPrivate\<close> (lines 24-37) are called as
  \<^verbatim>\<open>filterPublic.call(this, obj)\<close> and read the maps of \<^verbatim>\<open>_privateMap.get(this)\<close>. The
  callback that they pass to \<^verbatim>\<open>obj.map\<close> is an arrow function that calls them with the
  same receiver.
\<close>

primrec filterPublic :: "host \<Rightarrow> nat \<Rightarrow> val \<Rightarrow> state \<Rightarrow> val \<Rightarrow> (val result \<times> state) option" where
  "filterPublic H 0 this s obj = None"
| "filterPublic H (Suc n) this s obj =
    (case private_of s this of
       None \<Rightarrow> Some (Throw TypeError, s)
     | Some pr \<Rightarrow>
        (if Map_has (publicInstancesMap pr) obj then
           Some (Return (Map_get (publicInstancesMap pr) obj), s)
         else if Map_has (publicClassesMap pr) obj then
           Some (Return (Map_get (publicClassesMap pr) obj), s)
         else if isArray s obj then
           call_map H (filterPublic H n this) (Callback (FilterPublic this)) obj s
         else if typeof s obj = ''promise'' then
           (case new_promise s (FilterPublic this) obj of (v, s') \<Rightarrow> Some (Return v, s'))
         else Some (Return obj, s)))"

primrec filterPrivate :: "host \<Rightarrow> nat \<Rightarrow> val \<Rightarrow> state \<Rightarrow> val \<Rightarrow> (val result \<times> state) option" where
  "filterPrivate H 0 this s obj = None"
| "filterPrivate H (Suc n) this s obj =
    (case private_of s this of
       None \<Rightarrow> Some (Throw TypeError, s)
     | Some pr \<Rightarrow>
        (if Map_has (privateInstancesMap pr) obj then
           Some (Return (Map_get (privateInstancesMap pr) obj), s)
         else if Map_has (privateClassesMap pr) obj then
           Some (Return (Map_get (privateClassesMap pr) obj), s)
         else if isArray s obj then
           call_map H (filterPrivate H n this) (Callback (FilterPrivate this)) obj s
         else if typeof s obj = ''promise'' then
           (case new_promise s (FilterPrivate this) obj of (v, s') \<Rightarrow> Some (Return v, s'))
         else Some (Return obj, s)))"

text \<open>
  The argument list of a call, as in \<^verbatim>\<open>Utility.js\<close>: \<^verbatim>\<open>filterPublic.call(this, publicArgs)\<close>
  is, after the read of \<^verbatim>\<open>_privateMap.get(this)\<close>, the translator applied to each argument
  in turn.
\<close>

definition filterPublic_args ::
  "host \<Rightarrow> nat \<Rightarrow> val \<Rightarrow> state \<Rightarrow> val list \<Rightarrow> (val list result \<times> state) option" where
  "filterPublic_args H n this s publicArgs =
    (case private_of s this of
       None \<Rightarrow> Some (Throw TypeError, s)
     | Some pr \<Rightarrow> translate_args (filterPublic H n this) s publicArgs)"

section \<open>The synthesized members\<close>

text \<open>
  The bodies of the function expressions of steps 2.4 and 3.4, called with the receiver
  \<open>this\<close> and the arguments \<open>args\<close>. With the scope \<open>Shared\<close> they are those of
  \<^verbatim>\<open>Utility.js\<close> (lines 101-130 and 157-194), with \<open>Builder b\<close> those of
  \<^verbatim>\<open>PublicClassBuilder.js\<close> (lines 94-123 and 150-187), where \<^verbatim>\<open>_private\<close> is the object
  of the builder \<open>b\<close> and the translators are called with the receiver of the member.
\<close>

fun call_member ::
  "host \<Rightarrow> nat \<Rightarrow> closure \<Rightarrow> val \<Rightarrow> val list \<Rightarrow> state \<Rightarrow> (val result \<times> state) option" where
  "call_member H n (StaticGet Shared privateProperty PrivateClass) this args s =
    bindR (Some (hcall H (prop_get privateProperty) PrivateClass [] s))
      (\<lambda>privateResult s1. (filterPrivateInstance H n s1 privateResult))"
| "call_member H n (StaticSet Shared privateProperty PrivateClass) this args s =
    bindR ((filterPublicInstance H n s (arg0 args)))
      (\<lambda>privatValue s1.
        bindR (Some (hcall H (prop_set privateProperty) PrivateClass [privatValue] s1))
          (\<lambda>u s2. Some (Return VUndefined, s2)))"
| "call_member H n (StaticCall Shared privateProperty PrivateClass) this args s =
    bindR ((filterPublicInstance_map H n s args))
      (\<lambda>privatArgs s1.
        bindR (Some (hcall H (prop_value privateProperty) PrivateClass privatArgs s1))
          (\<lambda>privateResult s2. (filterPrivateInstance H n s2 privateResult)))"
| "call_member H n (StaticRead Shared privateProperty) this args s =
    (filterPrivateInstance H n s (prop_value privateProperty))"
| "call_member H n (ProtoGet Shared privateProtoProperty) this args s =
    (if \<not> WeakMap_has (publicInstancesMap (shared s)) this then Some (Return VUndefined, s)
     else
       bindR (Some (hcall H (prop_get privateProtoProperty)
                      (WeakMap_get (publicInstancesMap (shared s)) this) [] s))
         (\<lambda>privateResult s1. (filterPrivateInstance H n s1 privateResult)))"
| "call_member H n (ProtoSet Shared privateProtoProperty) this args s =
    (if \<not> WeakMap_has (publicInstancesMap (shared s)) this then Some (Return VUndefined, s)
     else
       bindR ((filterPublicInstance H n s (arg0 args)))
         (\<lambda>privatValue s1.
           bindR (Some (hcall H (prop_set privateProtoProperty)
                          (WeakMap_get (publicInstancesMap (shared s1)) this) [privatValue] s1))
             (\<lambda>u s2. Some (Return VUndefined, s2))))"
| "call_member H n (ProtoCall Shared privateProtoProperty) this args s =
    (if \<not> WeakMap_has (publicInstancesMap (shared s)) this then Some (Return VUndefined, s)
     else
       bindR ((filterPublicInstance_map H n s args))
         (\<lambda>privatArgs s1.
           bindR (Some (hcall H (prop_value privateProtoProperty)
                          (WeakMap_get (publicInstancesMap (shared s1)) this) privatArgs s1))
             (\<lambda>privateResult s2. (filterPrivateInstance H n s2 privateResult))))"
| "call_member H n (ProtoRead Shared privateProtoProperty) this args s =
    (if \<not> WeakMap_has (publicInstancesMap (shared s)) this then Some (Return VUndefined, s)
     else (filterPrivateInstance H n s (prop_value privateProtoProperty)))"
| "call_member H n (StaticGet (Builder b) privateProperty PrivateClass) this args s =
    bindR (Some (hcall H (prop_get privateProperty) PrivateClass [] s))
      (\<lambda>privateResult s1. filterPrivate H n this s1 privateResult)"
| "call_member H n (StaticSet (Builder b) privateProperty PrivateClass) this args s =
    bindR (filterPublic H n this s (arg0 args))
      (\<lambda>privatValue s1.
        bindR (Some (hcall H (prop_set privateProperty) PrivateClass [privatValue] s1))
          (\<lambda>u s2. Some (Return VUndefined, s2)))"
| "call_member H n (StaticCall (Builder b) privateProperty PrivateClass) this args s =
    bindR (filterPublic_args H n this s args)
      (\<lambda>privatArgs s1.
        bindR (Some (hcall H (prop_value privateProperty) PrivateClass privatArgs s1))
          (\<lambda>privateResult s2. filterPrivate H n this s2 privateResult))"
| "call_member H n (StaticRead (Builder b) privateProperty) this args s =
    filterPrivate H n this s (prop_value privateProperty)"
| "call_member H n (ProtoGet (Builder b) privateProtoProperty) this args s =
    (case privateMap s b of
       None \<Rightarrow> Some (Throw TypeError, s)
     | Some pr \<Rightarrow>
        (if \<not> Map_has (publicInstancesMap pr) this then Some (Return VUndefined, s)
         else
           bindR (Some (hcall H (prop_get privateProtoProperty)
                          (Map_get (publicInstancesMap pr) this) [] s))
             (\<lambda>privateResult s1. filterPrivate H n this s1 privateResult)))"
| "call_member H n (ProtoSet (Builder b) privateProtoProperty) this args s =
    (case privateMap s b of
       None \<Rightarrow> Some (Throw TypeError, s)
     | Some pr \<Rightarrow>
        (if \<not> Map_has (publicInstancesMap pr) this then Some (Return VUndefined, s)
         else
           bindR (filterPublic H n this s (arg0 args))
             (\<lambda>privatValue s1.
               (case privateMap s1 b of
                  None \<Rightarrow> Some (Throw TypeError, s1)
                | Some pr1 \<Rightarrow>
                   bindR (Some (hcall H (prop_set privateProtoProperty)
                                  (Map_get (publicInstancesMap pr1) this) [privatValue] s1))
                     (\<lambda>u s2. Some (Return VUndefined, s2))))))"
| "call_member H n (ProtoCall (Builder b) privateProtoProperty) this args s =
    (case privateMap s b of
       None \<Rightarrow> Some (Throw TypeError, s)
     | Some pr \<Rightarrow>
        (if \<not> Map_has (publicInstancesMap pr) this then Some (Return VUndefined, s)
         else
           bindR (filterPublic_args H n this s args)
             (\<lambda>privatArgs s1.
               (case privateMap s1 b of
                  None \<Rightarrow> Some (Throw TypeError, s1)
                | Some pr1 \<Rightarrow>
                   bindR (Some (hcall H (prop_value privateProtoProperty)
                                  (Map_get (publicInstancesMap pr1) this) privatArgs s1))
                     (\<lambda>privateResult s2. filterPrivate H n this s2 privateResult)))))"
| "call_member H n (ProtoRead (Builder b) privateProtoProperty) this args s =
    (case privateMap s b of
       None \<Rightarrow> Some (Throw TypeError, s)
     | Some pr \<Rightarrow>
        (if \<not> Map_has (publicInstancesMap pr) this then Some (Return VUndefined, s)
         else filterPrivate H n this s (prop_value privateProtoProperty)))"

text \<open>The static \<^verbatim>\<open>_get\<close> is not one of these members; it is \<open>PublicClass_get\<close> below.\<close>

section \<open>The constructor and the static lookup of the public class\<close>

text \<open>Calling a translator as a function, with its first argument.\<close>

definition call_translator ::
  "host \<Rightarrow> nat \<Rightarrow> translator \<Rightarrow> val list \<Rightarrow> state \<Rightarrow> (val result \<times> state) option" where
  "call_translator H n t args s =
    (case t of
       FilterPublicInstance \<Rightarrow> filterPublicInstance H n s (arg0 args)
     | FilterPrivateInstance \<Rightarrow> filterPrivateInstance H n s (arg0 args)
     | FilterPublic this \<Rightarrow> filterPublic H n this s (arg0 args)
     | FilterPrivate this \<Rightarrow> filterPrivate H n this s (arg0 args))"

text \<open>
  Both error messages start with \<^verbatim>\<open>${PublicClass.name}\<close>, which reads the property \<^verbatim>\<open>name\<close>
  of the public class: the string of the class declaration, unless step 2 has replaced it
  by a member synthesized from the \<^verbatim>\<open>name\<close> of the private class; then the read calls that
  getter with the public class as receiver. (A getter that is not a synthesized member is
  code of the environment, and so is here the call of \<^verbatim>\<open>_get\<close> as a getter. The conversion
  of the result to a string is not modelled.)
\<close>

definition call_getter :: "host \<Rightarrow> nat \<Rightarrow> val \<Rightarrow> val \<Rightarrow> state \<Rightarrow> (val result \<times> state) option" where
  "call_getter H n g this s =
    (case g of
       VFun (LookupGet sc P) \<Rightarrow> Some (hcall H g this [] s)
     | VFun (Callback t) \<Rightarrow> call_translator H n t [] s
     | VFun c \<Rightarrow> call_member H n c this [] s
     | _ \<Rightarrow> Some (hcall H g this [] s))"

definition PublicClass_name :: "host \<Rightarrow> nat \<Rightarrow> val \<Rightarrow> state \<Rightarrow> (val result \<times> state) option" where
  "PublicClass_name H n PublicClass s =
    (case get_own_property s PublicClass (KStr ''name'') of
       None \<Rightarrow> Some (Return (VStr []), s)
     | Some (DataProp v w e c) \<Rightarrow> Some (Return v, s)
     | Some (AccessorProp g st e c) \<Rightarrow>
        (if g = VUndefined then Some (Return VUndefined, s)
         else call_getter H n g PublicClass s))"

text \<open>Step 1.2 of the constructor: the two \<^verbatim>\<open>set\<close> calls, on WeakMaps in \<^verbatim>\<open>Utility.js\<close>
  (lines 67-68) and on Maps in \<^verbatim>\<open>PublicClassBuilder.js\<close> (lines 60-61).\<close>

definition bind_instances_shared :: "val \<Rightarrow> val \<Rightarrow> state \<Rightarrow> unit result \<times> state" where
  "bind_instances_shared this privateInstance s =
    (case WeakMap_set (publicInstancesMap (shared s)) this privateInstance of
       Throw e \<Rightarrow> (Throw e, s)
     | Return m1 \<Rightarrow>
        (let s1 = s\<lparr>shared := (shared s)\<lparr>publicInstancesMap := m1\<rparr>\<rparr> in
         case WeakMap_set (privateInstancesMap (shared s1)) privateInstance this of
           Throw e \<Rightarrow> (Throw e, s1)
         | Return m2 \<Rightarrow> (Return (), s1\<lparr>shared := (shared s1)\<lparr>privateInstancesMap := m2\<rparr>\<rparr>)))"

definition bind_instances_builder :: "ref \<Rightarrow> val \<Rightarrow> val \<Rightarrow> state \<Rightarrow> unit result \<times> state" where
  "bind_instances_builder b this privateInstance s =
    (case privateMap s b of
       None \<Rightarrow> (Throw TypeError, s)
     | Some pr \<Rightarrow>
        (Return (),
         s\<lparr>privateMap := (privateMap s)(b \<mapsto>
              pr\<lparr>publicInstancesMap := Map_set (publicInstancesMap pr) this privateInstance,
                 privateInstancesMap := Map_set (privateInstancesMap pr) privateInstance this\<rparr>)\<rparr>))"

text \<open>
  The constructor of \<^verbatim>\<open>PublicClass\<close>: lines 51-69 of \<^verbatim>\<open>Utility.js\<close> for \<open>Shared\<close>, lines
  44-62 of \<^verbatim>\<open>PublicClassBuilder.js\<close> for \<open>Builder b\<close>.
\<close>

definition PublicClass_constructor ::
  "host \<Rightarrow> nat \<Rightarrow> scope \<Rightarrow> val \<Rightarrow> val \<Rightarrow> val \<Rightarrow> val list \<Rightarrow> state \<Rightarrow> (unit result \<times> state) option" where
  "PublicClass_constructor H n sc PrivateClass PublicClass this publicArgs s =
    (case sc of
       Shared \<Rightarrow>
        (case instanceof s (arg0 publicArgs) PrivateClass of
           Throw e \<Rightarrow> Some (Throw e, s)
         | Return True \<Rightarrow>
            (if WeakMap_has (privateInstancesMap (shared s)) (arg0 publicArgs) then
               bindR (PublicClass_name H n PublicClass s) (\<lambda>nm s1. Some (Throw AlreadyBound, s1))
             else Some (bind_instances_shared this (arg0 publicArgs) s))
         | Return False \<Rightarrow>
            bindR ((filterPublicInstance_map H n s publicArgs))
              (\<lambda>privatArgs s1.
                bindR (Some (hconstruct H PrivateClass privatArgs s1))
                  (\<lambda>privateInstance s2. Some (bind_instances_shared this privateInstance s2))))
     | Builder b \<Rightarrow>
        (case instanceof s (arg0 publicArgs) PrivateClass of
           Throw e \<Rightarrow> Some (Throw e, s)
         | Return True \<Rightarrow>
            (case privateMap s b of
               None \<Rightarrow> Some (Throw TypeError, s)
             | Some pr \<Rightarrow>
                (if Map_has (privateInstancesMap pr) (arg0 publicArgs) then
                   bindR (PublicClass_name H n PublicClass s)
                     (\<lambda>nm s1. Some (Throw AlreadyBound, s1))
                 else Some (bind_instances_builder b this (arg0 publicArgs) s)))
         | Return False \<Rightarrow>
            bindR (filterPublic_args H n this s publicArgs)
              (\<lambda>privatArgs s1.
                bindR (Some (hconstruct H PrivateClass privatArgs s1))
                  (\<lambda>privateInstance s2.
                    Some (bind_instances_builder b this privateInstance s2)))))"

text \<open>
  \<^verbatim>\<open>new PublicClass(...publicArgs)\<close>: a new object whose prototype is
  \<^verbatim>\<open>PublicClass.prototype\<close> is the receiver of the constructor, and the result when the
  constructor returns.
\<close>

definition new_PublicClass ::
  "host \<Rightarrow> nat \<Rightarrow> val \<Rightarrow> val list \<Rightarrow> state \<Rightarrow> (val result \<times> state) option" where
  "new_PublicClass H n PublicClass publicArgs s =
    (case PublicClass of
       VRef f \<Rightarrow>
        (case lookup s f of
           Some ob \<Rightarrow>
            (case okind ob of
               FacadeClass sc PrivateClass \<Rightarrow>
                (case alloc s \<lparr>okind = Ordinary, oproto = prototype_of s PublicClass, oprops = []\<rparr> of
                   (t, s0) \<Rightarrow>
                    bindR (PublicClass_constructor H n sc PrivateClass PublicClass (VRef t) publicArgs s0)
                      (\<lambda>u s1. Some (Return (VRef t), s1)))
             | _ \<Rightarrow> Some (Throw TypeError, s))
         | None \<Rightarrow> Some (Throw TypeError, s))
     | _ \<Rightarrow> Some (Throw TypeError, s))"

text \<open>
  The static \<^verbatim>\<open>_get\<close>: lines 71-78 of \<^verbatim>\<open>Utility.js\<close> for \<open>Shared\<close>, lines 64-71 of
  \<^verbatim>\<open>PublicClassBuilder.js\<close> for \<open>Builder b\<close>. In the second file the identifier
  \<^verbatim>\<open>publicClassesMap\<close> of line 67 is bound nowhere: the module declares \<open>builder_bindings\<close>
  and the enclosing functions \<open>buildPublicClass_bindings\<close>, so evaluating it is a
  ReferenceError (no global of that name is defined by the repository).
\<close>

definition builder_bindings :: "string list" where
  "builder_bindings =
    [''_privateMap'', ''filterPublic'', ''filterPrivate'', ''buildPublicClass'', ''PublicClassBuilder'']"

definition buildPublicClass_bindings :: "string list" where
  "buildPublicClass_bindings = [''PrivateClass'', ''_private'', ''PublicClass'', ''privateInstance'']"

definition resolve_binding :: "string list \<Rightarrow> string \<Rightarrow> unit result" where
  "resolve_binding bindings name = (if name \<in> set bindings then Return () else Throw ReferenceError)"

definition PublicClass_get ::
  "host \<Rightarrow> nat \<Rightarrow> scope \<Rightarrow> val \<Rightarrow> val list \<Rightarrow> state \<Rightarrow> (val result \<times> state) option" where
  "PublicClass_get H n sc PublicClass args s =
    (case sc of
       Shared \<Rightarrow>
        (if WeakMap_has (privateInstancesMap (shared s)) (arg0 args) then
           Some (Return (WeakMap_get (privateInstancesMap (shared s)) (arg0 args)), s)
         else
           (case instanceof s (arg0 args) (WeakMap_get (publicClassesMap (shared s)) PublicClass) of
              Throw e \<Rightarrow> Some (Throw e, s)
            | Return True \<Rightarrow> new_PublicClass H n PublicClass [arg0 args] s
            | Return False \<Rightarrow>
               bindR (PublicClass_name H n PublicClass s)
                 (\<lambda>nm s1. Some (Throw UnrelatedInstance, s1))))
     | Builder b \<Rightarrow>
        (case privateMap s b of
           None \<Rightarrow> Some (Throw TypeError, s)
         | Some pr \<Rightarrow>
            (if Map_has (privateInstancesMap pr) (arg0 args) then
               Some (Return (Map_get (privateInstancesMap pr) (arg0 args)), s)
             else
               (case resolve_binding (builder_bindings @ buildPublicClass_bindings)
                       ''publicClassesMap'' of
                  Throw e \<Rightarrow> Some (Throw e, s)
                | Return u \<Rightarrow>
                   (case instanceof s (arg0 args) (Map_get (publicClassesMap pr) PublicClass) of
                      Throw e \<Rightarrow> Some (Throw e, s)
                    | Return True \<Rightarrow> new_PublicClass H n PublicClass [arg0 args] s
                    | Return False \<Rightarrow>
                       bindR (PublicClass_name H n PublicClass s)
                         (\<lambda>nm s1. Some (Throw UnrelatedInstance, s1)))))))"

text \<open>Calling a synthesized function with a receiver and arguments.\<close>

definition call_closure ::
  "host \<Rightarrow> nat \<Rightarrow> closure \<Rightarrow> val \<Rightarrow> val list \<Rightarrow> state \<Rightarrow> (val result \<times> state) option" where
  "call_closure H n c this args s =
    (case c of
       LookupGet sc PublicClass \<Rightarrow> PublicClass_get H n sc PublicClass args s
     | Callback t \<Rightarrow> call_translator H n t args s
     | _ \<Rightarrow> call_member H n c this args s)"

section \<open>Vocabulary of the statements\<close>

text \<open>
  \<open>scope_exists\<close>: the \<^verbatim>\<open>_private\<close> object that the functions of a builder have captured
  exists. \<open>has_bound_instance\<close>: the receiver is a key of \<^verbatim>\<open>publicInstancesMap\<close>, that is,
  a public instance with its private instance. \<open>functions_of\<close>: the functions that a
  descriptor holds.
\<close>

definition scope_exists :: "scope \<Rightarrow> state \<Rightarrow> bool" where
  "scope_exists sc s = (case sc of Shared \<Rightarrow> True | Builder b \<Rightarrow> privateMap s b \<noteq> None)"

definition has_bound_instance :: "scope \<Rightarrow> state \<Rightarrow> val \<Rightarrow> bool" where
  "has_bound_instance sc s this =
    (case sc of
       Shared \<Rightarrow> WeakMap_has (publicInstancesMap (shared s)) this
     | Builder b \<Rightarrow>
        (case privateMap s b of
           Some pr \<Rightarrow> Map_has (publicInstancesMap pr) this
         | None \<Rightarrow> False))"

definition functions_of :: "pdesc \<Rightarrow> val list" where
  "functions_of d =
    (case p_get d of Some g \<Rightarrow> [g] | None \<Rightarrow> []) @
    (case p_set d of Some g \<Rightarrow> [g] | None \<Rightarrow> []) @
    (case p_value d of Some g \<Rightarrow> [g] | None \<Rightarrow> [])"

text \<open>A value of a state: its reference, if it is one, names an object of the heap.\<close>

definition valid :: "state \<Rightarrow> val \<Rightarrow> bool" where
  "valid s v = (case v of VRef r \<Rightarrow> r < length (heap s) | _ \<Rightarrow> True)"

text \<open>A writable data property whose value is not a function.\<close>

definition writable_plain :: "state \<Rightarrow> property \<Rightarrow> bool" where
  "writable_plain s p =
    (case p of
       DataProp v w e c \<Rightarrow> w \<and> valid s v \<and> typeof s v \<noteq> ''function''
     | AccessorProp g st e c \<Rightarrow> False)"

definition own_keys :: "state \<Rightarrow> val \<Rightarrow> key list" where
  "own_keys s v = (case ownKeys s v of Return ks \<Rightarrow> ks | Throw e \<Rightarrow> [])"

definition is_writable_plain_at :: "state \<Rightarrow> val \<Rightarrow> key \<Rightarrow> bool" where
  "is_writable_plain_at s v k =
    (case get_own_property s v k of Some p \<Rightarrow> writable_plain s p | None \<Rightarrow> False)"

definition exposed_writable_plain :: "state \<Rightarrow> val \<Rightarrow> bool" where
  "exposed_writable_plain s PrivateClass =
    ((\<exists>k \<in> set (own_keys s PrivateClass).
        \<not> skipped_static k \<and> is_writable_plain_at s PrivateClass k)
     \<or> (\<exists>k \<in> set (own_keys s (prototype_of s PrivateClass)).
        \<not> skipped_proto k \<and> is_writable_plain_at s (prototype_of s PrivateClass) k))"





text \<open>
  Two readings that the specification gives and the code does not follow, each written as
  the specification words it, to be compared with the functions above: a static method
  that calls the original with its own receiver, the public class; and a getter of a plain
  value that reads the property of the private class at the time of the access.
\<close>

definition claimed_static_call ::
  "host \<Rightarrow> nat \<Rightarrow> property \<Rightarrow> val \<Rightarrow> val list \<Rightarrow> state \<Rightarrow> (val result \<times> state) option" where
  "claimed_static_call H n privateProperty this args s =
    bindR ((filterPublicInstance_map H n s args))
      (\<lambda>privatArgs s1.
        bindR (Some (hcall H (prop_value privateProperty) this privatArgs s1))
          (\<lambda>privateResult s2. (filterPrivateInstance H n s2 privateResult)))"

definition claimed_static_read ::
  "host \<Rightarrow> nat \<Rightarrow> val \<Rightarrow> key \<Rightarrow> state \<Rightarrow> (val result \<times> state) option" where
  "claimed_static_read H n PrivateClass k s =
    (case get_own_property s PrivateClass k of
       Some p \<Rightarrow> filterPrivateInstance H n s (prop_value p)
     | None \<Rightarrow> Some (Return VUndefined, s))"

text \<open>\<open>same_but_props a b\<close>: the two states differ at most in the own properties of their objects.\<close>

definition same_but_props :: "state \<Rightarrow> state \<Rightarrow> bool" where
  "same_but_props a b =
    (length (heap b) = length (heap a) \<and> shared b = shared a \<and> privateMap b = privateMap a \<and>
     (\<forall>q. map_option okind (lookup b q) = map_option okind (lookup a q)) \<and>
     (\<forall>q. map_option oproto (lookup b q) = map_option oproto (lookup a q)))"


section \<open>An example program\<close>

text \<open>
  A heap with a class \<^verbatim>\<open>A\<close> (object 0) and its prototype (object 1): a static method
  \<^verbatim>\<open>create\<close>, a static value \<^verbatim>\<open>version\<close> that is not writable, an internal static
  \<^verbatim>\<open>_secret\<close>, a method \<^verbatim>\<open>increment\<close>, a prototype value \<^verbatim>\<open>kind\<close> that is not writable and an internal
  \<^verbatim>\<open>_count\<close>; a function (object 2);
  two instances of \<^verbatim>\<open>A\<close>, an ordinary object (3) and an array (4), as of a class that
  extends \<^verbatim>\<open>Array\<close>, which holds a number and the instance 3; a class \<^verbatim>\<open>B\<close> (5) with a writable static value \<^verbatim>\<open>count\<close>, and its
  prototype (6); a promise fulfilled with the instance 3 (object 7).
  In the environment \<open>H0\<close> every function returns its receiver, and \<^verbatim>\<open>new C(...)\<close> returns
  a new ordinary object that inherits from \<^verbatim>\<open>C.prototype\<close>. The heap holds none of the
  built-in objects: the prototype chains end after \<^verbatim>\<open>A.prototype\<close>, so the array (4)
  inherits no \<^verbatim>\<open>map\<close>.
\<close>

definition heap0 :: "obj list" where
  "heap0 =
    [\<lparr>okind = Callable, oproto = VNull,
      oprops = [(KStr ''length'', DataProp (VNum 0) False False True),
                (KStr ''name'', DataProp (VStr ''A'') False False True),
                (KStr ''prototype'', DataProp (VRef 1) False False False),
                (KStr ''create'', DataProp (VRef 2) True False True),
                (KStr ''version'', DataProp (VNum 1) False True True),
                (KStr ''_secret'', DataProp (VNum 7) True True True)]\<rparr>,
     \<lparr>okind = Ordinary, oproto = VNull,
      oprops = [(KStr ''constructor'', DataProp (VRef 0) True False True),
                (KStr ''increment'', DataProp (VRef 2) True False True),
                (KStr ''kind'', DataProp (VStr ''counter'') False True True),
                (KStr ''_count'', DataProp (VNum 0) True True True)]\<rparr>,
     \<lparr>okind = Callable, oproto = VNull, oprops = []\<rparr>,
     \<lparr>okind = Ordinary, oproto = VRef 1, oprops = []\<rparr>,
     \<lparr>okind = ArrayObj [Some (VNum 1), Some (VRef 3)], oproto = VRef 1, oprops = []\<rparr>,
     \<lparr>okind = Callable, oproto = VNull,
      oprops = [(KStr ''length'', DataProp (VNum 0) False False True),
                (KStr ''name'', DataProp (VStr ''B'') False False True),
                (KStr ''prototype'', DataProp (VRef 6) False False False),
                (KStr ''count'', DataProp (VNum 0) True True True)]\<rparr>,
     \<lparr>okind = Ordinary, oproto = VNull,
      oprops = [(KStr ''constructor'', DataProp (VRef 5) True False True)]\<rparr>,
     \<lparr>okind = PromiseObj (Fulfilled (VRef 3)), oproto = VNull, oprops = []\<rparr>]"

definition s0 :: state where
  "s0 = \<lparr>heap = heap0, shared = empty_registry, privateMap = Map.empty\<rparr>"

definition H0 :: host where
  "H0 =
    \<lparr>hcall = (\<lambda>f t args s. (Return t, s)),
     hconstruct = (\<lambda>C args s.
       (case alloc s \<lparr>okind = Ordinary, oproto = prototype_of s C, oprops = []\<rparr> of
          (r, s') \<Rightarrow> (Return (VRef r), s'))),
     hfunproto = VNull, hobjproto = VNull,
     harrayproto = VNull, harray = VUndefined, harraymap = VUndefined\<rparr>"

text \<open>
  With \<^verbatim>\<open>Utility.js\<close>: \<open>sU1\<close> after \<^verbatim>\<open>Facade = getPublicClass(A)\<close> (the public class is
  object 8, its prototype object 9); \<open>sU2\<close> after
  \<^verbatim>\<open>Object.defineProperty(A, 'version', {value: 2})\<close> in \<open>sU1\<close>; \<open>sU3\<close> after
  \<^verbatim>\<open>new Facade(a)\<close> in \<open>sU1\<close> for the array \<open>a\<close> (object 4); \<open>sU4\<close> after
  \<^verbatim>\<open>new Facade(p)\<close> in \<open>sU1\<close> for the instance \<open>p\<close> (object 3). The new public instance is
  object 10.
\<close>

definition sU1 :: state where
  "sU1 = snd (getPublicClass H0 (VRef 0) s0)"

definition sU2 :: state where
  "sU2 = snd (defineProperty sU1 (VRef 0) (KStr ''version'') (empty_pdesc\<lparr>p_value := Some (VNum 2)\<rparr>))"


definition sU4 :: state where
  "sU4 = snd (the (new_PublicClass H0 1 (VRef 8) [VRef 3] sU1))"

text \<open>
  With \<^verbatim>\<open>PublicClassBuilder.js\<close>: \<open>sB0\<close> after \<^verbatim>\<open>builder = new PublicClassBuilder()\<close> (object
  8); \<open>sB1\<close> after \<^verbatim>\<open>Facade = builder.getPublicClass(A)\<close> (the public class is object 9,
  its prototype object 10); \<open>sB2\<close> after \<^verbatim>\<open>new Facade(p)\<close> for the instance \<open>p\<close> (object 3);
  the new public instance is object 11.
\<close>

definition sB0 :: state where
  "sB0 = snd (new_PublicClassBuilder H0 s0)"

definition sB1 :: state where
  "sB1 = snd (PublicClassBuilder_getPublicClass H0 (VRef 8) (VRef 0) sB0)"

definition sB2 :: state where
  "sB2 = snd (the (new_PublicClass H0 1 (VRef 9) [VRef 3] sB1))"




section \<open>Lemmas about the language primitives and the loops\<close>

subsection \<open>typeof\<close>

lemma typeof_cases:
  "typeof s v \<in> {''undefined'', ''object'', ''boolean'', ''number'', ''string'', ''function''}"
  by (simp add: typeof_def split: val.splits option.splits okind.splits)

lemma typeof_not_promise: "typeof s v \<noteq> ''promise''"
  using typeof_cases[of s v] by auto

lemma typeof_kind:
  assumes "\<And>q. map_option okind (lookup s' q) = map_option okind (lookup s q)"
  shows "typeof s' v = typeof s v"
proof (cases v)
  case (VRef r)
  from assms[of r] show ?thesis unfolding VRef typeof_def
    by (cases "lookup s r"; cases "lookup s' r") auto
qed (simp_all add: typeof_def)

subsection \<open>Object.defineProperty changes one property of one object\<close>

lemma map_of_upsert: "map_of (upsert k p kps) k' = (if k' = k then Some p else map_of kps k')"
  by (induction kps) auto

lemma defineProperty_Throw:
  "defineProperty s t k d = (Throw e, s') \<Longrightarrow> e = TypeError \<and> s' = s"
  by (auto simp: defineProperty_def split: val.splits option.splits if_splits)

lemma defineProperty_frame:
  "defineProperty s t k d = (r, s') \<Longrightarrow>
     length (heap s') = length (heap s) \<and> shared s' = shared s \<and> privateMap s' = privateMap s"
  by (auto simp: defineProperty_def split: val.splits option.splits if_splits)

lemma defineProperty_other:
  "defineProperty s (VRef f) k d = (r, s') \<Longrightarrow> q \<noteq> f \<Longrightarrow> lookup s' q = lookup s q"
  by (auto simp: defineProperty_def lookup_def split: option.splits if_splits)

lemma defineProperty_kind:
  "defineProperty s t k d = (r, s') \<Longrightarrow>
     map_option okind (lookup s' q) = map_option okind (lookup s q) \<and>
     map_option oproto (lookup s' q) = map_option oproto (lookup s q)"
  by (auto simp: defineProperty_def lookup_def nth_list_update split: val.splits option.splits if_splits)

lemma defineProperty_props_other:
  "defineProperty s t k d = (r, s') \<Longrightarrow> k' \<noteq> k \<Longrightarrow>
     get_own_property s' v k' = get_own_property s v k'"
  by (auto simp: defineProperty_def get_own_property_def lookup_def nth_list_update map_of_upsert
      split: val.splits option.splits if_splits)

lemma defineProperty_bad:
  "is_accessor_pdesc d \<Longrightarrow> is_data_pdesc d \<Longrightarrow> fst (defineProperty s t k d) = Throw TypeError"
  by (auto simp: defineProperty_def split: val.splits option.splits if_splits)

subsection \<open>What the two loops preserve\<close>

text \<open>A relation between states that holds across every \<^verbatim>\<open>Object.defineProperty\<close> of a loop
  holds across the loop.\<close>

lemma transfer_static_rule:
  assumes run: "transfer_static sc T F keys s = (r, s')"
    and refl: "\<And>a. R a a"
    and trans: "\<And>a b c. R a b \<Longrightarrow> R b c \<Longrightarrow> R a c"
    and step: "\<And>a k d r1 b. defineProperty a F k d = (r1, b) \<Longrightarrow> \<not> skipped_static k \<Longrightarrow> R a b"
  shows "R s s'"
  using run
proof (induction keys arbitrary: s)
  case Nil
  then show ?case by (simp add: refl)
next
  case (Cons k keys)
  show ?case
  proof (cases "skipped_static k")
    case True
    with Cons show ?thesis by simp
  next
    case False
    show ?thesis
    proof (cases "get_own_property s T k")
      case None
      with False Cons.prems show ?thesis by (simp add: refl)
    next
      case (Some p)
      obtain r1 s1 where d: "defineProperty s F k (static_publicProperty sc s T p) = (r1, s1)"
        by (cases "defineProperty s F k (static_publicProperty sc s T p)")
      have R1: "R s s1" using step[OF d False] .
      show ?thesis
      proof (cases r1)
        case (Return u)
        with Cons.prems False Some d have "transfer_static sc T F keys s1 = (r, s')" by simp
        from Cons.IH[OF this] R1 show ?thesis by (rule trans[rotated])
      next
        case (Throw e)
        with Cons.prems False Some d have "s' = s1" by simp
        with R1 show ?thesis by simp
      qed
    qed
  qed
qed

lemma transfer_proto_rule:
  assumes run: "transfer_proto sc T F keys s = (r, s')"
    and refl: "\<And>a. R a a"
    and trans: "\<And>a b c. R a b \<Longrightarrow> R b c \<Longrightarrow> R a c"
    and step: "\<And>a k d r1 b. defineProperty a (prototype_of a F) k d = (r1, b) \<Longrightarrow> \<not> skipped_proto k \<Longrightarrow> R a b"
  shows "R s s'"
  using run
proof (induction keys arbitrary: s)
  case Nil
  then show ?case by (simp add: refl)
next
  case (Cons k keys)
  show ?case
  proof (cases "skipped_proto k")
    case True
    with Cons show ?thesis by simp
  next
    case False
    show ?thesis
    proof (cases "get_own_property s (prototype_of s T) k")
      case None
      with False Cons.prems show ?thesis by (simp add: refl)
    next
      case (Some p)
      obtain r1 s1 where d: "defineProperty s (prototype_of s F) k (proto_publicProperty sc s p) = (r1, s1)"
        by (cases "defineProperty s (prototype_of s F) k (proto_publicProperty sc s p)")
      have R1: "R s s1" using step[OF d False] .
      show ?thesis
      proof (cases r1)
        case (Return u)
        with Cons.prems False Some d have "transfer_proto sc T F keys s1 = (r, s')" by simp
        from Cons.IH[OF this] R1 show ?thesis by (rule trans[rotated])
      next
        case (Throw e)
        with Cons.prems False Some d have "s' = s1" by simp
        with R1 show ?thesis by simp
      qed
    qed
  qed
qed

text \<open>The loops change nothing but own properties, and no property under a skipped key.\<close>

lemma same_but_props_refl: "same_but_props a a"
  by (simp add: same_but_props_def)

lemma same_but_props_trans: "same_but_props a b \<Longrightarrow> same_but_props b c \<Longrightarrow> same_but_props a c"
  by (simp add: same_but_props_def)

lemma defineProperty_same_but_props: "defineProperty a t k d = (r, b) \<Longrightarrow> same_but_props a b"
  unfolding same_but_props_def using defineProperty_frame defineProperty_kind by blast

lemma transfer_static_same:
  "transfer_static sc T F keys s = (r, s') \<Longrightarrow> same_but_props s s'"
  by (erule transfer_static_rule[where R = same_but_props])
     (auto intro: same_but_props_refl same_but_props_trans defineProperty_same_but_props)

lemma transfer_proto_same:
  "transfer_proto sc T F keys s = (r, s') \<Longrightarrow> same_but_props s s'"
  by (erule transfer_proto_rule[where R = same_but_props])
     (auto intro: same_but_props_refl same_but_props_trans defineProperty_same_but_props)

lemma same_but_props_typeof: "same_but_props a b \<Longrightarrow> typeof b v = typeof a v"
  by (rule typeof_kind) (simp add: same_but_props_def)

lemma transfer_static_skipped:
  assumes "transfer_static sc T F keys s = (r, s')" and "skipped_static k"
  shows "get_own_property s' v k = get_own_property s v k"
proof -
  have "(\<lambda>a b. get_own_property b v k = get_own_property a v k) s s'"
    using assms(1)
  proof (rule transfer_static_rule)
    fix a k' d r1 b
    assume "defineProperty a F k' d = (r1, b)" and "\<not> skipped_static k'"
    with assms(2) show "get_own_property b v k = get_own_property a v k"
      by (metis defineProperty_props_other)
  qed simp_all
  then show ?thesis .
qed

lemma transfer_proto_skipped:
  assumes "transfer_proto sc T F keys s = (r, s')" and "skipped_proto k"
  shows "get_own_property s' v k = get_own_property s v k"
proof -
  have "(\<lambda>a b. get_own_property b v k = get_own_property a v k) s s'"
    using assms(1)
  proof (rule transfer_proto_rule)
    fix a k' d r1 b
    assume "defineProperty a (prototype_of a F) k' d = (r1, b)" and "\<not> skipped_proto k'"
    with assms(2) show "get_own_property b v k = get_own_property a v k"
      by (metis defineProperty_props_other)
  qed simp_all
  then show ?thesis .
qed

lemma transfer_static_error:
  "transfer_static sc T F keys s = (Throw e, s') \<Longrightarrow> e = TypeError"
proof (induction keys arbitrary: s)
  case Nil
  then show ?case by simp
next
  case (Cons k keys)
  then show ?case
    by (auto split: if_splits option.splits prod.splits result.splits dest: defineProperty_Throw)
qed

lemma transfer_proto_error:
  "transfer_proto sc T F keys s = (Throw e, s') \<Longrightarrow> e = TypeError"
proof (induction keys arbitrary: s)
  case Nil
  then show ?case by simp
next
  case (Cons k keys)
  then show ?case
    by (auto split: if_splits option.splits prod.splits result.splits dest: defineProperty_Throw)
qed

lemma defineProperty_props_other_obj:
  "defineProperty s (VRef f) k d = (r, s') \<Longrightarrow> v \<noteq> VRef f \<Longrightarrow>
     get_own_property s' v k' = get_own_property s v k'"
  by (auto simp: defineProperty_def get_own_property_def lookup_def nth_list_update
      split: val.splits option.splits if_splits)

lemma defineProperty_no_object:
  "\<not> is_object t \<Longrightarrow> defineProperty s t k d = (Throw TypeError, s)"
  by (auto simp: defineProperty_def is_object_def split: val.splits)

text \<open>The loop of step 3 writes to one object, the prototype of the public class.\<close>

lemma transfer_proto_rule_at:
  assumes run: "transfer_proto sc T F keys s = (r, s')"
    and fp: "prototype_of s F = VRef fp" and ne: "F \<noteq> VRef fp"
    and refl: "\<And>a. R a a"
    and trans: "\<And>a b c. R a b \<Longrightarrow> R b c \<Longrightarrow> R a c"
    and step: "\<And>a k d r1 b. defineProperty a (VRef fp) k d = (r1, b) \<Longrightarrow> \<not> skipped_proto k \<Longrightarrow> R a b"
  shows "R s s' \<and> prototype_of s' F = VRef fp"
proof -
  let ?R = "\<lambda>a b. prototype_of a F = VRef fp \<longrightarrow> R a b \<and> prototype_of b F = VRef fp"
  have "?R s s'"
    using run
  proof (rule transfer_proto_rule)
    show "?R a a" for a by (simp add: refl)
    show "?R a b \<Longrightarrow> ?R b c \<Longrightarrow> ?R a c" for a b c using trans by blast
    show "?R a b" if d: "defineProperty a (prototype_of a F) k d = (r1, b)" and k: "\<not> skipped_proto k"
      for a k d r1 b
    proof
      assume a: "prototype_of a F = VRef fp"
      with d have d': "defineProperty a (VRef fp) k d = (r1, b)" by simp
      have "get_own_property b F (KStr ''prototype'') = get_own_property a F (KStr ''prototype'')"
        using defineProperty_props_other_obj[OF d' ne] .
      then have "prototype_of b F = prototype_of a F" by (simp add: prototype_of_def)
      with a step[OF d' k] show "R a b \<and> prototype_of b F = VRef fp" by simp
    qed
  qed
  with fp show ?thesis by simp
qed

text \<open>The class declaration of step 1.\<close>

lemma declare_PublicClass_facts:
  assumes "declare_PublicClass H sc T s = (F, s1)"
  shows "F = VRef (length (heap s))"
    and "heap s1 = heap s @
        [\<lparr>okind = FacadeClass sc T, oproto = hfunproto H,
          oprops =
            [(KStr ''length'', DataProp (VNum 0) False False True),
             (KStr ''name'', DataProp (VStr ''PublicClass'') False False True),
             (KStr ''prototype'', DataProp (VRef (Suc (length (heap s)))) False False False),
             (KStr ''_get'', DataProp (VFun (LookupGet sc (VRef (length (heap s))))) True False True)]\<rparr>,
         \<lparr>okind = Ordinary, oproto = hobjproto H,
          oprops = [(KStr ''constructor'', DataProp (VRef (length (heap s))) True False True)]\<rparr>]"
    and "shared s1 = shared s" and "privateMap s1 = privateMap s"
  using assms by (auto simp: declare_PublicClass_def Let_def)

lemma declare_PublicClass_prototype:
  assumes "declare_PublicClass H sc T s = (F, s1)"
  shows "prototype_of s1 F = VRef (Suc (length (heap s)))"
  using assms
  by (auto simp: declare_PublicClass_def Let_def prototype_of_def get_own_property_def lookup_def)

lemma declare_PublicClass_old:
  assumes "declare_PublicClass H sc T s = (F, s1)" and "q < length (heap s)"
  shows "lookup s1 q = lookup s q"
  using assms by (auto simp: declare_PublicClass_def Let_def lookup_def nth_append)

text \<open>Steps 1 to 3: a relation that holds across every write to the public class under a
  key that step 2 does not skip, and across every write to its prototype under a key that
  step 3 does not skip, holds from the class declaration to the end.\<close>

lemma buildPublicClass_rule:
  assumes run: "buildPublicClass H sc T s = (r, s')"
    and refl: "\<And>a. R a a"
    and trans: "\<And>a b c. R a b \<Longrightarrow> R b c \<Longrightarrow> R a c"
    and stepF: "\<And>a k d r1 b. defineProperty a (VRef (length (heap s))) k d = (r1, b)
                  \<Longrightarrow> \<not> skipped_static k \<Longrightarrow> R a b"
    and stepP: "\<And>a k d r1 b. defineProperty a (VRef (Suc (length (heap s)))) k d = (r1, b)
                  \<Longrightarrow> \<not> skipped_proto k \<Longrightarrow> R a b"
  shows "R (snd (declare_PublicClass H sc T s)) s'"
proof -
  obtain F s1 where decl: "declare_PublicClass H sc T s = (F, s1)"
    by (cases "declare_PublicClass H sc T s")
  have F: "F = VRef (length (heap s))" using declare_PublicClass_facts(1)[OF decl] .
  have fp1: "prototype_of s1 F = VRef (Suc (length (heap s)))"
    using declare_PublicClass_prototype[OF decl] .
  have ne: "F \<noteq> VRef (Suc (length (heap s)))" using F by simp
  show ?thesis
  proof (cases "ownKeys s1 T")
    case (Throw e)
    with run decl show ?thesis by (simp add: buildPublicClass_def refl)
  next
    case (Return keys)
    obtain r2 s2 where ts: "transfer_static sc T F keys s1 = (r2, s2)"
      by (cases "transfer_static sc T F keys s1")
    have R12: "R s1 s2"
      using ts refl trans
    proof (rule transfer_static_rule)
      show "R a b" if "defineProperty a F k d = (r1, b)" "\<not> skipped_static k" for a k d r1 b
        using that stepF F by simp
    qed
    have fp2: "prototype_of s2 F = VRef (Suc (length (heap s)))"
      using transfer_static_skipped[OF ts, of "KStr ''prototype''" F] fp1
      by (simp add: prototype_of_def skipped_static_def)
    show ?thesis
    proof (cases r2)
      case (Throw e)
      with run decl Return ts R12 show ?thesis by (simp add: buildPublicClass_def)
    next
      case r2: (Return u)
      show ?thesis
      proof (cases "ownKeys s2 (prototype_of s2 T)")
        case (Throw e)
        with run decl Return ts r2 R12 show ?thesis by (simp add: buildPublicClass_def)
      next
        case pk: (Return pkeys)
        obtain r3 s3 where tp: "transfer_proto sc T F pkeys s2 = (r3, s3)"
          by (cases "transfer_proto sc T F pkeys s2")
        have "R s2 s3 \<and> prototype_of s3 F = VRef (Suc (length (heap s)))"
          using tp fp2 ne refl trans
        proof (rule transfer_proto_rule_at)
          show "R a b"
            if "defineProperty a (VRef (Suc (length (heap s)))) k d = (r1, b)" "\<not> skipped_proto k"
            for a k d r1 b
            using that stepP by simp
        qed
        with R12 have R13: "R s1 s3" using trans by blast
        have "s' = s3"
          using run decl Return ts r2 pk tp by (cases r3) (simp_all add: buildPublicClass_def)
        with R13 decl show ?thesis by simp
      qed
    qed
  qed
qed

lemma buildPublicClass_result:
  assumes "buildPublicClass H sc T s = (r, s')"
  shows "(\<forall>F. r = Return F \<longrightarrow> F = VRef (length (heap s))) \<and> (\<forall>e. r = Throw e \<longrightarrow> e = TypeError)"
  using assms
  by (auto simp: buildPublicClass_def declare_PublicClass_def Let_def ownKeys_def
      split: prod.splits result.splits val.splits option.splits
      dest: transfer_static_error transfer_proto_error)

lemma buildPublicClass_same:
  assumes "buildPublicClass H sc T s = (r, s')"
  shows "same_but_props (snd (declare_PublicClass H sc T s)) s'"
  using assms
  by (rule buildPublicClass_rule)
     (auto intro: same_but_props_refl same_but_props_trans defineProperty_same_but_props)

lemma buildPublicClass_others:
  assumes "buildPublicClass H sc T s = (r, s')"
    and "q \<noteq> length (heap s)" and "q \<noteq> Suc (length (heap s))"
  shows "lookup s' q = lookup (snd (declare_PublicClass H sc T s)) q"
proof -
  have "(\<lambda>a b. lookup b q = lookup a q) (snd (declare_PublicClass H sc T s)) s'"
    using assms(1)
  proof (rule buildPublicClass_rule)
    show "lookup b q = lookup a q"
      if "defineProperty a (VRef (length (heap s))) k d = (r1, b)" for a k d r1 b
      using defineProperty_other[OF that assms(2)] .
    show "lookup b q = lookup a q"
      if "defineProperty a (VRef (Suc (length (heap s)))) k d = (r1, b)" for a k d r1 b
      using defineProperty_other[OF that assms(3)] .
  qed simp_all
  then show ?thesis .
qed

lemma buildPublicClass_old:
  assumes "buildPublicClass H sc T s = (r, s')" and "q < length (heap s)"
  shows "lookup s' q = lookup s q"
proof -
  obtain F s1 where decl: "declare_PublicClass H sc T s = (F, s1)"
    by (cases "declare_PublicClass H sc T s")
  have "lookup s' q = lookup s1 q"
    using buildPublicClass_others[OF assms(1), of q] assms(2) decl by simp
  with declare_PublicClass_old[OF decl assms(2)] show ?thesis by simp
qed

lemma buildPublicClass_maps:
  assumes "buildPublicClass H sc T s = (r, s')"
  shows "shared s' = shared s \<and> privateMap s' = privateMap s \<and>
         length (heap s') = Suc (Suc (length (heap s)))"
proof -
  obtain F s1 where decl: "declare_PublicClass H sc T s = (F, s1)"
    by (cases "declare_PublicClass H sc T s")
  from buildPublicClass_same[OF assms] decl have "same_but_props s1 s'" by simp
  with declare_PublicClass_facts[OF decl] show ?thesis
    by (simp add: same_but_props_def)
qed

lemma buildPublicClass_static_skipped:
  assumes "buildPublicClass H sc T s = (r, s')" and "skipped_static k"
  shows "get_own_property s' (VRef (length (heap s))) k =
         get_own_property (snd (declare_PublicClass H sc T s)) (VRef (length (heap s))) k"
proof -
  let ?F = "VRef (length (heap s))"
  have "(\<lambda>a b. get_own_property b ?F k = get_own_property a ?F k)
          (snd (declare_PublicClass H sc T s)) s'"
    using assms(1)
  proof (rule buildPublicClass_rule)
    show "get_own_property b ?F k = get_own_property a ?F k"
      if "defineProperty a ?F k' d = (r1, b)" "\<not> skipped_static k'" for a k' d r1 b
      using that assms(2) by (metis defineProperty_props_other)
    show "get_own_property b ?F k = get_own_property a ?F k"
      if "defineProperty a (VRef (Suc (length (heap s)))) k' d = (r1, b)" for a k' d r1 b
      using defineProperty_props_other_obj[OF that] by simp
  qed simp_all
  then show ?thesis .
qed

lemma buildPublicClass_proto_skipped:
  assumes "buildPublicClass H sc T s = (r, s')" and "skipped_proto k"
  shows "get_own_property s' (VRef (Suc (length (heap s)))) k =
         get_own_property (snd (declare_PublicClass H sc T s)) (VRef (Suc (length (heap s)))) k"
proof -
  let ?P = "VRef (Suc (length (heap s)))"
  have "(\<lambda>a b. get_own_property b ?P k = get_own_property a ?P k)
          (snd (declare_PublicClass H sc T s)) s'"
    using assms(1)
  proof (rule buildPublicClass_rule)
    show "get_own_property b ?P k = get_own_property a ?P k"
      if "defineProperty a ?P k' d = (r1, b)" "\<not> skipped_proto k'" for a k' d r1 b
      using that assms(2) by (metis defineProperty_props_other)
    show "get_own_property b ?P k = get_own_property a ?P k"
      if "defineProperty a (VRef (length (heap s))) k' d = (r1, b)" for a k' d r1 b
      using defineProperty_props_other_obj[OF that] by simp
  qed simp_all
  then show ?thesis .
qed

lemma startsWith_underscore_skipped:
  "startsWith name ''_'' \<Longrightarrow> skipped_static (KStr name) \<and> skipped_proto (KStr name)"
  by (simp add: skipped_static_def skipped_proto_def)

lemma startsWith_underscore: "startsWith name ''_'' \<Longrightarrow> \<exists>rest. name = CHR ''_'' # rest"
  by (cases name) (simp_all add: startsWith_def)

lemma declared_static_internal:
  assumes "startsWith name ''_''"
  shows "(get_own_property (snd (declare_PublicClass H sc T s)) (VRef (length (heap s))) (KStr name) \<noteq> None)
           = (name = ''_get'')"
proof -
  from startsWith_underscore[OF assms] obtain rest where n: "name = CHR ''_'' # rest" by blast
  show ?thesis
    by (simp add: n declare_PublicClass_def Let_def get_own_property_def lookup_def)
qed

lemma declared_proto_internal:
  assumes "startsWith name ''_''"
  shows "get_own_property (snd (declare_PublicClass H sc T s)) (VRef (Suc (length (heap s)))) (KStr name) = None"
proof -
  from startsWith_underscore[OF assms] obtain rest where n: "name = CHR ''_'' # rest" by blast
  show ?thesis
    by (simp add: n declare_PublicClass_def Let_def get_own_property_def lookup_def nth_append)
qed

lemma buildPublicClass_prototype:
  assumes "buildPublicClass H sc T s = (r, s')"
  shows "prototype_of s' (VRef (length (heap s))) = VRef (Suc (length (heap s)))"
proof -
  have "skipped_static (KStr ''prototype'')" by (simp add: skipped_static_def)
  from buildPublicClass_static_skipped[OF assms this]
  have "prototype_of s' (VRef (length (heap s))) =
        prototype_of (snd (declare_PublicClass H sc T s)) (VRef (length (heap s)))"
    by (simp add: prototype_of_def)
  also have "\<dots> = VRef (Suc (length (heap s)))"
    using declare_PublicClass_prototype[of H sc T s] declare_PublicClass_facts(1)[of H sc T s]
    by (cases "declare_PublicClass H sc T s") simp
  finally show ?thesis .
qed

lemma buildPublicClass_protos:
  assumes "buildPublicClass H sc T s = (r, s')"
  shows "map_option oproto (lookup s' (length (heap s))) = Some (hfunproto H)"
    and "map_option oproto (lookup s' (Suc (length (heap s)))) = Some (hobjproto H)"
proof -
  let ?s1 = "snd (declare_PublicClass H sc T s)"
  have same: "same_but_props ?s1 s'" using buildPublicClass_same[OF assms] .
  have "map_option oproto (lookup ?s1 (length (heap s))) = Some (hfunproto H)"
    by (simp add: declare_PublicClass_def Let_def lookup_def)
  with same show "map_option oproto (lookup s' (length (heap s))) = Some (hfunproto H)"
    by (simp add: same_but_props_def)
  have "map_option oproto (lookup ?s1 (Suc (length (heap s)))) = Some (hobjproto H)"
    by (simp add: declare_PublicClass_def Let_def lookup_def nth_append)
  with same show "map_option oproto (lookup s' (Suc (length (heap s)))) = Some (hobjproto H)"
    by (simp add: same_but_props_def)
qed

lemma has_property_Suc:
  assumes "map_option oproto (lookup s r) = Some p"
  shows "has_property (Suc n) s (VRef r) k = (get_own_property s (VRef r) k \<noteq> None \<or> has_property n s p k)"
  using assms by (auto simp: get_own_property_def split: option.splits)

subsection \<open>Evaluating the example\<close>

lemmas evals =
  s0_def heap0_def H0_def empty_registry_def getPublicClass_def is_class_def typeof_def lookup_def
  prototype_of_def get_own_property_def truthy_def WeakMap_has_def WeakMap_get_def WeakMap_set_def
  is_object_def buildPublicClass_def declare_PublicClass_def ownKeys_def skipped_static_def
  skipped_proto_def startsWith_def static_publicProperty_def proto_publicProperty_def empty_pdesc_def
  defineProperty_def callable_or_undefined_def is_accessor_pdesc_def is_data_pdesc_def
  apply_descriptor_def rejected_def opt_def Let_def new_PublicClassBuilder_def
  PublicClassBuilder_getPublicClass_def alloc_def Map_has_def Map_get_def Map_set_def
  new_PublicClass_def PublicClass_constructor_def instanceof_def bind_instances_builder_def
  bind_instances_shared_def bindR_def arg0_def PublicClass_name_def call_getter_def
  private_of_def call_closure_def PublicClass_get_def resolve_binding_def builder_bindings_def
  buildPublicClass_bindings_def filterPublic_args_def isArray_def elements_def
  new_promise_def filterPublicInstance_map_def call_translator_def eval_nat_numeral

lemma sU1_built: "buildPublicClass H0 Shared (VRef 0) s0 = (Return (VRef 8), snd (buildPublicClass H0 Shared (VRef 0) s0))"
  by (simp add: evals)

lemma sU1_class: "getPublicClass H0 (VRef 0) s0 = (Return (VRef 8), sU1)"
  by (simp add: sU1_def prod_eq_iff) (simp add: evals)

lemma sB1_class: "PublicClassBuilder_getPublicClass H0 (VRef 8) (VRef 0) sB0 = (Return (VRef 9), sB1)"
  by (simp add: sB1_def prod_eq_iff) (simp add: sB0_def evals)

subsection \<open>The forms of the synthesized prototype members\<close>

lemma proto_member_forms:
  "VFun c \<in> set (functions_of (proto_publicProperty sc sd p)) \<Longrightarrow>
     c = ProtoGet sc p \<or> c = ProtoSet sc p \<or> c = ProtoCall sc p \<or> c = ProtoRead sc p"
  by (auto simp: functions_of_def proto_publicProperty_def empty_pdesc_def Let_def split: if_splits)

lemma is_class_ref: "is_class s T \<Longrightarrow> \<exists>t. T = VRef t \<and> t < length (heap s)"
  by (cases T)
     (auto simp: is_class_def typeof_def prototype_of_def get_own_property_def truthy_def lookup_def
       split: option.splits if_splits)

lemma lookup_agree:
  assumes "lookup s' t = lookup s t"
  shows "typeof s' (VRef t) = typeof s (VRef t)"
    and "get_own_property s' (VRef t) k = get_own_property s (VRef t) k"
    and "prototype_of s' (VRef t) = prototype_of s (VRef t)"
    and "is_class s' (VRef t) = is_class s (VRef t)"
    and "ownKeys s' (VRef t) = ownKeys s (VRef t)"
    and "elements s' (VRef t) = elements s (VRef t)"
  using assms
  by (simp_all add: typeof_def get_own_property_def prototype_of_def is_class_def ownKeys_def elements_def)

lemma buildPublicClass_is_class:
  assumes "buildPublicClass H sc T s = (r, s')" and "is_class s T"
  shows "is_class s' T"
proof -
  from is_class_ref[OF assms(2)] obtain t where t: "T = VRef t" "t < length (heap s)" by blast
  from buildPublicClass_old[OF assms(1) t(2)] have "lookup s' t = lookup s t" .
  from lookup_agree(4)[OF this] assms(2) t(1) show ?thesis by simp
qed

lemma getPublicClass_again:
  assumes "getPublicClass H T s = (Return F, s')"
  shows "getPublicClass H T s' = (Return F, s')
       \<and> WeakMap_get (privateClassesMap (shared s')) T = F
       \<and> (WeakMap_has (privateClassesMap (shared s)) T
           \<or> WeakMap_get (publicClassesMap (shared s')) F = T)"
proof -
  from assms have cls: "is_class s T"
    by (auto simp: getPublicClass_def split: if_splits)
  from is_class_ref[OF cls] have objT: "is_object T" by (auto simp: is_object_def)
  show ?thesis
  proof (cases "WeakMap_has (privateClassesMap (shared s)) T")
    case True
    with assms cls show ?thesis by (auto simp: getPublicClass_def)
  next
    case False
    obtain r s1 where b: "buildPublicClass H Shared T s = (r, s1)"
      by (cases "buildPublicClass H Shared T s")
    from assms cls False b obtain F1 where r: "r = Return F1"
      by (cases r) (auto simp: getPublicClass_def)
    from buildPublicClass_result[OF b] r have F1: "F1 = VRef (length (heap s))" by simp
    then have objF: "is_object F1" by (simp add: is_object_def)
    let ?m1 = "(privateClassesMap (shared s1))(T \<mapsto> F1)"
    let ?s2 = "s1\<lparr>shared := (shared s1)\<lparr>privateClassesMap := ?m1\<rparr>\<rparr>"
    let ?m2 = "(publicClassesMap (shared ?s2))(F1 \<mapsto> T)"
    let ?s3 = "?s2\<lparr>shared := (shared ?s2)\<lparr>publicClassesMap := ?m2\<rparr>\<rparr>"
    from assms cls False b r objT objF have res: "F = F1" "s' = ?s3"
      by (auto simp: getPublicClass_def WeakMap_set_def Let_def)
    have cls1: "is_class s1 T" using buildPublicClass_is_class[OF b cls] .
    from is_class_ref[OF cls] obtain t where t: "T = VRef t" by blast
    have "lookup s' t = lookup s1 t" unfolding res by (simp add: lookup_def)
    from lookup_agree(4)[OF this] cls1 t have cls': "is_class s' T" by simp
    have has': "WeakMap_has (privateClassesMap (shared s')) T"
      unfolding res using objT by (simp add: WeakMap_has_def)
    have get': "WeakMap_get (privateClassesMap (shared s')) T = F"
      unfolding res using objT by (simp add: WeakMap_get_def)
    have pub': "WeakMap_get (publicClassesMap (shared s')) F = T"
      unfolding res using objF by (simp add: WeakMap_get_def)
    from cls' has' get' pub' show ?thesis by (simp add: getPublicClass_def)
  qed
qed

lemma PublicClassBuilder_getPublicClass_again:
  assumes "PublicClassBuilder_getPublicClass H B T s = (Return F, s')"
  shows "PublicClassBuilder_getPublicClass H B T s' = (Return F, s')
       \<and> (\<exists>pr pr'. private_of s B = Some pr \<and> private_of s' B = Some pr'
             \<and> Map_get (privateClassesMap pr') T = F
             \<and> (Map_has (privateClassesMap pr) T \<or> Map_get (publicClassesMap pr') F = T))"
proof -
  from assms have cls: "is_class s T"
    by (auto simp: PublicClassBuilder_getPublicClass_def split: if_splits)
  from assms cls obtain b pr where B: "B = VRef b" and pr: "privateMap s b = Some pr"
    by (auto simp: PublicClassBuilder_getPublicClass_def split: val.splits option.splits)
  show ?thesis
  proof (cases "Map_has (privateClassesMap pr) T")
    case True
    with assms cls B pr show ?thesis
      by (auto simp: PublicClassBuilder_getPublicClass_def private_of_def)
  next
    case False
    obtain r s1 where bd: "buildPublicClass H (Builder b) T s = (r, s1)"
      by (cases "buildPublicClass H (Builder b) T s")
    from assms cls False B pr bd obtain F1 where r: "r = Return F1"
      by (cases r) (auto simp: PublicClassBuilder_getPublicClass_def)
    let ?pr' = "pr\<lparr>privateClassesMap := Map_set (privateClassesMap pr) T F1,
                   publicClassesMap := Map_set (publicClassesMap pr) F1 T\<rparr>"
    let ?s2 = "s1\<lparr>privateMap := (privateMap s1)(b \<mapsto> ?pr')\<rparr>"
    from assms cls False B pr bd r have res: "F = F1" "s' = ?s2"
      by (auto simp: PublicClassBuilder_getPublicClass_def)
    have cls1: "is_class s1 T" using buildPublicClass_is_class[OF bd cls] .
    from is_class_ref[OF cls] obtain t where t: "T = VRef t" by blast
    have "lookup s' t = lookup s1 t" unfolding res by (simp add: lookup_def)
    from lookup_agree(4)[OF this] cls1 t have cls': "is_class s' T" by simp
    have pm: "privateMap s' b = Some ?pr'" unfolding res by simp
    have has': "Map_has (privateClassesMap ?pr') T" by (simp add: Map_has_def Map_set_def)
    have get': "Map_get (privateClassesMap ?pr') T = F" unfolding res by (simp add: Map_get_def Map_set_def)
    have pub': "Map_get (publicClassesMap ?pr') F = T" unfolding res by (simp add: Map_get_def Map_set_def)
    have again: "PublicClassBuilder_getPublicClass H B T s' = (Return F, s')"
      using cls' pm has' get' B by (simp add: PublicClassBuilder_getPublicClass_def)
    from again pm get' pub' pr B show ?thesis by (auto simp: private_of_def)
  qed
qed

lemma writable_plain_publicProperty:
  assumes "typeof s v \<noteq> ''function''"
  shows "is_accessor_pdesc (static_publicProperty sc s T (DataProp v True e c))
       \<and> is_data_pdesc (static_publicProperty sc s T (DataProp v True e c))"
    and "is_accessor_pdesc (proto_publicProperty sc s (DataProp v True e c))
       \<and> is_data_pdesc (proto_publicProperty sc s (DataProp v True e c))"
  using assms
  by (simp_all add: static_publicProperty_def proto_publicProperty_def empty_pdesc_def Let_def
      is_accessor_pdesc_def is_data_pdesc_def truthy_def)

lemma defineProperty_typeof: "defineProperty s t k d = (r, s') \<Longrightarrow> typeof s' v = typeof s v"
  by (rule same_but_props_typeof) (rule defineProperty_same_but_props)

text \<open>Step 2 does not get past a writable value that is not a function.\<close>

lemma transfer_static_writable_plain:
  assumes "k \<in> set keys" and "\<not> skipped_static k"
    and "get_own_property s T k = Some (DataProp v True e c)"
    and "typeof s v \<noteq> ''function''"
    and "T \<noteq> VRef f"
  shows "fst (transfer_static sc T (VRef f) keys s) = Throw TypeError"
  using assms
proof (induction keys arbitrary: s)
  case Nil
  then show ?case by simp
next
  case (Cons k' keys)
  show ?case
  proof (cases "skipped_static k'")
    case True
    with Cons.prems have "k \<in> set keys" by auto
    from Cons.IH[OF this Cons.prems(2-5)] True show ?thesis by simp
  next
    case False
    show ?thesis
    proof (cases "get_own_property s T k'")
      case None
      with False show ?thesis by simp
    next
      case (Some p)
      let ?d = "static_publicProperty sc s T p"
      obtain r1 s1 where d: "defineProperty s (VRef f) k' ?d = (r1, s1)"
        by (cases "defineProperty s (VRef f) k' ?d")
      show ?thesis
      proof (cases r1)
        case (Throw err)
        with defineProperty_Throw[of s "VRef f" k' ?d err s1] d have "err = TypeError" by simp
        with False Some d Throw show ?thesis by simp
      next
        case (Return u)
        have ne: "k' \<noteq> k"
        proof
          assume "k' = k"
          with Some Cons.prems(3) have "p = DataProp v True e c" by simp
          with writable_plain_publicProperty(1)[OF Cons.prems(4), of sc T e c]
          have "fst (defineProperty s (VRef f) k' ?d) = Throw TypeError"
            by (simp add: defineProperty_bad)
          with d Return show False by simp
        qed
        with Cons.prems(1) have in_keys: "k \<in> set keys" by auto
        have p1: "get_own_property s1 T k = Some (DataProp v True e c)"
          using defineProperty_props_other_obj[OF d Cons.prems(5)] Cons.prems(3) by simp
        have t1: "typeof s1 v \<noteq> ''function''"
          using defineProperty_typeof[OF d] Cons.prems(4) by simp
        from Cons.IH[OF in_keys Cons.prems(2) p1 t1 Cons.prems(5)] False Some d Return
        show ?thesis by simp
      qed
    qed
  qed
qed

text \<open>Nor does step 3.\<close>

lemma transfer_proto_writable_plain:
  assumes "k \<in> set keys" and "\<not> skipped_proto k"
    and "get_own_property s (prototype_of s T) k = Some (DataProp v True e c)"
    and "typeof s v \<noteq> ''function''"
    and "prototype_of s F = VRef fp"
    and "T \<noteq> VRef fp" and "F \<noteq> VRef fp" and "prototype_of s T \<noteq> VRef fp"
  shows "fst (transfer_proto sc T F keys s) = Throw TypeError"
  using assms
proof (induction keys arbitrary: s)
  case Nil
  then show ?case by simp
next
  case (Cons k' keys)
  show ?case
  proof (cases "skipped_proto k'")
    case True
    with Cons.prems have "k \<in> set keys" by auto
    from Cons.IH[OF this Cons.prems(2-8)] True show ?thesis by simp
  next
    case False
    show ?thesis
    proof (cases "get_own_property s (prototype_of s T) k'")
      case None
      with False show ?thesis by simp
    next
      case (Some p)
      let ?d = "proto_publicProperty sc s p"
      obtain r1 s1 where d0: "defineProperty s (prototype_of s F) k' ?d = (r1, s1)"
        by (cases "defineProperty s (prototype_of s F) k' ?d")
      with Cons.prems(5) have d: "defineProperty s (VRef fp) k' ?d = (r1, s1)" by simp
      show ?thesis
      proof (cases r1)
        case (Throw err)
        with defineProperty_Throw[of s "VRef fp" k' ?d err s1] d have "err = TypeError" by simp
        with False Some d0 Throw show ?thesis by simp
      next
        case (Return u)
        have ne: "k' \<noteq> k"
        proof
          assume "k' = k"
          with Some Cons.prems(3) have "p = DataProp v True e c" by simp
          with writable_plain_publicProperty(2)[OF Cons.prems(4), of sc e c]
          have "fst (defineProperty s (VRef fp) k' ?d) = Throw TypeError"
            by (simp add: defineProperty_bad)
          with d Return show False by simp
        qed
        with Cons.prems(1) have in_keys: "k \<in> set keys" by auto
        have pT: "prototype_of s1 T = prototype_of s T"
          using defineProperty_props_other_obj[OF d Cons.prems(6)] by (simp add: prototype_of_def)
        have pF: "prototype_of s1 F = VRef fp"
          using defineProperty_props_other_obj[OF d Cons.prems(7)] Cons.prems(5)
          by (simp add: prototype_of_def)
        have p1: "get_own_property s1 (prototype_of s1 T) k = Some (DataProp v True e c)"
          using defineProperty_props_other_obj[OF d Cons.prems(8)] Cons.prems(3) pT by simp
        have t1: "typeof s1 v \<noteq> ''function''"
          using defineProperty_typeof[OF d] Cons.prems(4) by simp
        have ne1: "prototype_of s1 T \<noteq> VRef fp" using pT Cons.prems(8) by simp
        from Cons.IH[OF in_keys Cons.prems(2) p1 t1 pF Cons.prems(6,7) ne1] False Some d0 Return
        show ?thesis by simp
      qed
    qed
  qed
qed

lemma transfer_static_others:
  assumes "transfer_static sc T (VRef f) keys s = (r, s')" and "q \<noteq> f"
  shows "lookup s' q = lookup s q"
proof -
  have "(\<lambda>a b. lookup b q = lookup a q) s s'"
    using assms(1)
  proof (rule transfer_static_rule)
    show "lookup b q = lookup a q" if "defineProperty a (VRef f) k d = (r1, b)" for a k d r1 b
      using defineProperty_other[OF that assms(2)] .
  qed simp_all
  then show ?thesis .
qed

lemma typeof_valid_agree:
  assumes "valid s v" and "\<And>q. q < length (heap s) \<Longrightarrow> lookup s1 q = lookup s q"
  shows "typeof s1 v = typeof s v"
proof (cases v)
  case (VRef r)
  with assms(1) have "r < length (heap s)" by (simp add: valid_def)
  from lookup_agree(1)[OF assms(2)[OF this]] VRef show ?thesis by simp
qed (simp_all add: typeof_def)

lemma is_writable_plain_atD:
  assumes "is_writable_plain_at s x k"
  shows "\<exists>v e c. get_own_property s x k = Some (DataProp v True e c) \<and> valid s v
           \<and> typeof s v \<noteq> ''function''"
  using assms
  by (auto simp: is_writable_plain_at_def writable_plain_def split: option.splits property.splits)

lemma own_keys_ref:
  assumes "k \<in> set (own_keys s x)"
  shows "\<exists>r. x = VRef r \<and> r < length (heap s) \<and> ownKeys s x = Return (own_keys s x)"
  using assms
  by (cases x) (auto simp: own_keys_def ownKeys_def lookup_def split: option.splits if_splits)

lemma buildPublicClass_unfold_Return:
  assumes "buildPublicClass H sc T s = (Return F, s')"
  shows "\<exists>s1 keys u s2 pkeys u'.
           declare_PublicClass H sc T s = (F, s1)
         \<and> ownKeys s1 T = Return keys
         \<and> transfer_static sc T F keys s1 = (Return u, s2)
         \<and> ownKeys s2 (prototype_of s2 T) = Return pkeys
         \<and> transfer_proto sc T F pkeys s2 = (Return u', s')"
  using assms
  by (auto simp: buildPublicClass_def split: prod.splits result.splits)

lemma buildPublicClass_writable_plain:
  assumes cls: "is_class s T" and bad: "exposed_writable_plain s T"
  shows "fst (buildPublicClass H sc T s) = Throw TypeError"
proof -
  obtain r s' where run: "buildPublicClass H sc T s = (r, s')"
    by (cases "buildPublicClass H sc T s")
  show ?thesis
  proof (cases r)
    case (Throw e)
    with buildPublicClass_result[OF run] run show ?thesis by simp
  next
    case (Return F)
    from buildPublicClass_unfold_Return[OF run[unfolded Return]]
    obtain s1 keys u s2 pkeys u' where
      decl: "declare_PublicClass H sc T s = (F, s1)" and
      ks: "ownKeys s1 T = Return keys" and
      ts: "transfer_static sc T F keys s1 = (Return u, s2)" and
      pks: "ownKeys s2 (prototype_of s2 T) = Return pkeys" and
      tp: "transfer_proto sc T F pkeys s2 = (Return u', s')"
      by blast
    let ?f = "length (heap s)"
    have F: "F = VRef ?f" using declare_PublicClass_facts(1)[OF decl] .
    from is_class_ref[OF cls] obtain t where t: "T = VRef t" "t < ?f" by blast
    have old1: "\<And>q. q < ?f \<Longrightarrow> lookup s1 q = lookup s q"
      using declare_PublicClass_old[OF decl] .
    have old2: "\<And>q. q < ?f \<Longrightarrow> lookup s2 q = lookup s q"
      using transfer_static_others[OF ts[unfolded F]] old1 by simp
    have TF: "T \<noteq> VRef ?f" using t by simp
    from bad show ?thesis unfolding exposed_writable_plain_def
    proof
      assume "\<exists>k\<in>set (own_keys s T). \<not> skipped_static k \<and> is_writable_plain_at s T k"
      then obtain k where k: "k \<in> set (own_keys s T)" "\<not> skipped_static k"
        and w: "is_writable_plain_at s T k" by blast
      from is_writable_plain_atD[OF w] obtain v e c where
        p: "get_own_property s T k = Some (DataProp v True e c)" and v: "valid s v"
        and ty: "typeof s v \<noteq> ''function''" by blast
      have "ownKeys s1 T = ownKeys s T" using lookup_agree(5)[OF old1[OF t(2)]] t(1) by simp
      with own_keys_ref[OF k(1)] ks have keys: "keys = own_keys s T" by auto
      have p1: "get_own_property s1 T k = Some (DataProp v True e c)"
        using lookup_agree(2)[OF old1[OF t(2)]] t(1) p by simp
      have ty1: "typeof s1 v \<noteq> ''function''"
        using typeof_valid_agree[OF v old1] ty by simp
      from transfer_static_writable_plain[OF k(1)[folded keys] k(2) p1 ty1 TF, of sc] ts F
      show ?thesis by simp
    next
      assume "\<exists>k\<in>set (own_keys s (prototype_of s T)).
                \<not> skipped_proto k \<and> is_writable_plain_at s (prototype_of s T) k"
      then obtain k where k: "k \<in> set (own_keys s (prototype_of s T))" "\<not> skipped_proto k"
        and w: "is_writable_plain_at s (prototype_of s T) k" by blast
      from is_writable_plain_atD[OF w] obtain v e c where
        p: "get_own_property s (prototype_of s T) k = Some (DataProp v True e c)" and v: "valid s v"
        and ty: "typeof s v \<noteq> ''function''" by blast
      from own_keys_ref[OF k(1)] obtain pp where
        pp: "prototype_of s T = VRef pp" "pp < ?f"
        and oks: "ownKeys s (VRef pp) = Return (own_keys s (VRef pp))" by auto
      have pT2: "prototype_of s2 T = VRef pp"
        using lookup_agree(3)[OF old2[OF t(2)]] t(1) pp(1) by simp
      have "ownKeys s2 (VRef pp) = ownKeys s (VRef pp)" using lookup_agree(5)[OF old2[OF pp(2)]] .
      with pks pT2 oks have pkeys: "pkeys = own_keys s (VRef pp)" by simp
      have p2: "get_own_property s2 (prototype_of s2 T) k = Some (DataProp v True e c)"
        using lookup_agree(2)[OF old2[OF pp(2)]] p pp(1) pT2 by simp
      have "typeof s2 v = typeof s1 v"
        using same_but_props_typeof[OF transfer_static_same[OF ts]] .
      with typeof_valid_agree[OF v old1] ty have ty2: "typeof s2 v \<noteq> ''function''" by simp
      have "prototype_of s2 F = prototype_of s1 F"
        using transfer_static_skipped[OF ts, of "KStr ''prototype''" F]
        by (simp add: prototype_of_def skipped_static_def)
      with declare_PublicClass_prototype[OF decl] have pF: "prototype_of s2 F = VRef (Suc ?f)" by simp
      have n1: "T \<noteq> VRef (Suc ?f)" using t by simp
      have n2: "F \<noteq> VRef (Suc ?f)" using F by simp
      have n3: "prototype_of s2 T \<noteq> VRef (Suc ?f)" using pT2 pp(2) by simp
      have kin: "k \<in> set pkeys" using k(1) pp(1) pkeys by simp
      from transfer_proto_writable_plain[OF kin k(2) p2 ty2 pF n1 n2 n3, of sc] tp
      show ?thesis by simp
    qed
  qed
qed

subsection \<open>Values that the translators pass through\<close>

lemma filterPublicInstance_passes:
  "\<not> WeakMap_has (publicInstancesMap (shared s)) obj \<Longrightarrow> \<not> isArray s obj \<Longrightarrow>
     filterPublicInstance H (Suc n) s obj = Some (Return obj, s)"
  by (simp add: typeof_not_promise)

lemma filterPrivateInstance_passes:
  "\<not> WeakMap_has (privateInstancesMap (shared s)) obj \<Longrightarrow> \<not> isArray s obj \<Longrightarrow>
     filterPrivateInstance H (Suc n) s obj = Some (Return obj, s)"
  by (simp add: typeof_not_promise)

lemma filterPublic_passes:
  "private_of s this = Some pr \<Longrightarrow> \<not> Map_has (publicInstancesMap pr) obj \<Longrightarrow>
   \<not> Map_has (publicClassesMap pr) obj \<Longrightarrow> \<not> isArray s obj \<Longrightarrow>
     filterPublic H (Suc n) this s obj = Some (Return obj, s)"
  by (simp add: typeof_not_promise)

lemma filterPrivate_passes:
  "private_of s this = Some pr \<Longrightarrow> \<not> Map_has (privateInstancesMap pr) obj \<Longrightarrow>
   \<not> Map_has (privateClassesMap pr) obj \<Longrightarrow> \<not> isArray s obj \<Longrightarrow>
     filterPrivate H (Suc n) this s obj = Some (Return obj, s)"
  by (simp add: typeof_not_promise)



subsection \<open>The states of the example\<close>

lemma sU4_wrap: "new_PublicClass H0 1 (VRef 8) [VRef 3] sU1 = Some (Return (VRef 10), sU4)"
  by (simp add: sU4_def) (simp add: sU1_def evals)

lemma sU4_maps:
  "privateInstancesMap (shared sU4) (VRef 3) = Some (VRef 10)"
  "publicInstancesMap (shared sU4) (VRef 10) = Some (VRef 3)"
  "privateInstancesMap (shared sU4) (VRef 7) = None"
  "publicInstancesMap (shared sU4) (VRef 7) = None"
  by (simp_all add: sU4_def sU1_def evals)

lemma sU4_promise: "elements sU4 (VRef 7) = None" "elements sU4 (VRef 3) = None"
  "map_option okind (lookup sU4 7) = Some (PromiseObj (Fulfilled (VRef 3)))"
  by (simp_all add: sU4_def sU1_def evals)

lemma sB2_wrap: "new_PublicClass H0 1 (VRef 9) [VRef 3] sB1 = Some (Return (VRef 11), sB2)"
  by (simp add: sB2_def) (simp add: sB1_def sB0_def evals)

lemma sB2_maps:
  "\<exists>pr. privateMap sB2 8 = Some pr
     \<and> privateInstancesMap pr (VRef 3) = Some (VRef 11)
     \<and> publicInstancesMap pr (VRef 11) = Some (VRef 3)
     \<and> privateInstancesMap pr (VRef 7) = None \<and> publicInstancesMap pr (VRef 7) = None
     \<and> privateClassesMap pr (VRef 7) = None \<and> publicClassesMap pr (VRef 7) = None"
  by (simp add: sB2_def sB1_def sB0_def evals)

lemma sB2_promise: "elements sB2 (VRef 7) = None"
  "map_option okind (lookup sB2 7) = Some (PromiseObj (Fulfilled (VRef 3)))"
  by (simp_all add: sB2_def sB1_def sB0_def evals)

lemma sB1_facts:
  "get_own_property sB1 (VRef 9) (KStr ''_get'')
     = Some (DataProp (VFun (LookupGet (Builder 8) (VRef 9))) True False True)"
  "instanceof sB1 (VRef 3) (VRef 0) = Return True"
  "instanceof sB1 (VNum 5) (VRef 0) = Return False"
  "\<exists>pr. privateMap sB1 8 = Some pr \<and> privateInstancesMap pr = Map.empty
     \<and> publicClassesMap pr (VRef 9) = Some (VRef 0)"
  by (simp_all add: sB1_def sB0_def evals)

lemma sU1_facts:
  "get_own_property sU1 (VRef 8) (KStr ''_get'')
     = Some (DataProp (VFun (LookupGet Shared (VRef 8))) True False True)"
  "instanceof sU1 (VRef 3) (VRef 0) = Return True"
  "instanceof sU1 (VNum 5) (VRef 0) = Return False"
  "privateInstancesMap (shared sU1) = Map.empty"
  "publicClassesMap (shared sU1) (VRef 8) = Some (VRef 0)"
  by (simp_all add: sU1_def evals)

lemma sU1_name:
  "PublicClass_name H0 (Suc 0) (VRef 8) sU1 = Some (Return (VStr ''A''), sU1)"
proof -
  have p: "get_own_property sU1 (VRef 8) (KStr ''name'')
      = Some (AccessorProp (VFun (StaticRead Shared (DataProp (VStr ''A'') False False True)))
                VUndefined False True)"
    by (simp add: sU1_def evals)
  have f: "filterPrivateInstance H0 (Suc 0) sU1 (VStr ''A'') = Some (Return (VStr ''A''), sU1)"
    by (rule filterPrivateInstance_passes)
       (simp_all add: WeakMap_has_def is_object_def isArray_def elements_def)
  show ?thesis
    by (simp add: PublicClass_name_def p call_getter_def f
        del: filterPrivateInstance.simps)
qed

lemma sB1_name:
  "PublicClass_name H0 (Suc 0) (VRef 9) sB1 = Some (Throw TypeError, sB1)"
proof -
  have p: "get_own_property sB1 (VRef 9) (KStr ''name'')
      = Some (AccessorProp (VFun (StaticRead (Builder 8) (DataProp (VStr ''A'') False False True)))
                VUndefined False True)"
    by (simp add: sB1_def sB0_def evals)
  have n: "private_of sB1 (VRef 9) = None"
    by (simp add: sB1_def sB0_def evals)
  show ?thesis
    by (simp add: PublicClass_name_def p call_getter_def n)
qed

subsection \<open>States that only grow\<close>











lemma sU4_facts:
  "elements sU4 (VRef 4) = Some [Some (VNum 1), Some (VRef 3)]"
  "privateInstancesMap (shared sU4) (VRef 4) = None"
  "length (heap sU4) = 11"
  "elements sU4 (VNum 1) = None"
  by (simp_all add: sU4_def sU1_def evals)

subsection \<open>What the loops define\<close>

lemma defineProperty_Return:
  assumes "defineProperty s (VRef f) k d = (Return u, s')"
  shows "\<exists>q. apply_descriptor (get_own_property s (VRef f) k) d = Some q
           \<and> get_own_property s' (VRef f) k = Some q"
  using assms
  by (auto simp: defineProperty_def get_own_property_def lookup_def map_of_upsert
      split: option.splits if_splits)

lemma static_publicProperty_typeof:
  assumes "typeof s' (prop_value p) = typeof s (prop_value p)"
  shows "static_publicProperty sc s' T p = static_publicProperty sc s T p"
  using assms by (simp add: static_publicProperty_def)

lemma proto_publicProperty_typeof:
  assumes "typeof s' (prop_value p) = typeof s (prop_value p)"
  shows "proto_publicProperty sc s' p = proto_publicProperty sc s p"
  using assms by (simp add: proto_publicProperty_def)

lemma transfer_static_untouched:
  assumes "transfer_static sc T F keys s = (r, s')" and "k \<notin> set keys"
  shows "get_own_property s' v k = get_own_property s v k"
  using assms
proof (induction keys arbitrary: s)
  case Nil
  then show ?case by simp
next
  case (Cons k' keys)
  from Cons.prems(2) have ne: "k \<noteq> k'" and notin: "k \<notin> set keys" by auto
  show ?case
  proof (cases "skipped_static k'")
    case True
    with Cons.prems(1) Cons.IH[OF _ notin] show ?thesis by simp
  next
    case False
    show ?thesis
    proof (cases "get_own_property s T k'")
      case None
      with False Cons.prems(1) show ?thesis by simp
    next
      case (Some p)
      obtain r1 s1 where d: "defineProperty s F k' (static_publicProperty sc s T p) = (r1, s1)"
        by (cases "defineProperty s F k' (static_publicProperty sc s T p)")
      have s1: "get_own_property s1 v k = get_own_property s v k"
        using defineProperty_props_other[OF d ne] .
      show ?thesis
      proof (cases r1)
        case (Return u)
        with Cons.prems(1) False Some d have "transfer_static sc T F keys s1 = (r, s')" by simp
        from Cons.IH[OF this notin] s1 show ?thesis by simp
      next
        case (Throw e)
        with Cons.prems(1) False Some d have "s' = s1" by simp
        with s1 show ?thesis by simp
      qed
    qed
  qed
qed

lemma transfer_proto_untouched:
  assumes "transfer_proto sc T F keys s = (r, s')" and "k \<notin> set keys"
  shows "get_own_property s' v k = get_own_property s v k"
  using assms
proof (induction keys arbitrary: s)
  case Nil
  then show ?case by simp
next
  case (Cons k' keys)
  from Cons.prems(2) have ne: "k \<noteq> k'" and notin: "k \<notin> set keys" by auto
  show ?case
  proof (cases "skipped_proto k'")
    case True
    with Cons.prems(1) Cons.IH[OF _ notin] show ?thesis by simp
  next
    case False
    show ?thesis
    proof (cases "get_own_property s (prototype_of s T) k'")
      case None
      with False Cons.prems(1) show ?thesis by simp
    next
      case (Some p)
      obtain r1 s1 where
        d: "defineProperty s (prototype_of s F) k' (proto_publicProperty sc s p) = (r1, s1)"
        by (cases "defineProperty s (prototype_of s F) k' (proto_publicProperty sc s p)")
      have s1: "get_own_property s1 v k = get_own_property s v k"
        using defineProperty_props_other[OF d ne] .
      show ?thesis
      proof (cases r1)
        case (Return u)
        with Cons.prems(1) False Some d have "transfer_proto sc T F keys s1 = (r, s')" by simp
        from Cons.IH[OF this notin] s1 show ?thesis by simp
      next
        case (Throw e)
        with Cons.prems(1) False Some d have "s' = s1" by simp
        with s1 show ?thesis by simp
      qed
    qed
  qed
qed

text \<open>When step 2 ends, the public class has, under each key that was not skipped, the
  property that \<^verbatim>\<open>Object.defineProperty\<close> made of the synthesized descriptor.\<close>

lemma transfer_static_defines:
  assumes "transfer_static sc T (VRef f) keys s = (Return u, s')"
    and "k \<in> set keys" and "distinct keys" and "\<not> skipped_static k"
    and "get_own_property s T k = Some p" and "T \<noteq> VRef f"
  shows "\<exists>q. apply_descriptor (get_own_property s (VRef f) k) (static_publicProperty sc s T p) = Some q
           \<and> get_own_property s' (VRef f) k = Some q"
  using assms
proof (induction keys arbitrary: s)
  case Nil
  then show ?case by simp
next
  case (Cons k' keys)
  from Cons.prems(3) have dist: "distinct keys" and k'notin: "k' \<notin> set keys" by auto
  show ?case
  proof (cases "skipped_static k'")
    case True
    with Cons.prems(2,4) have "k \<in> set keys" by auto
    from Cons.IH[OF _ this dist Cons.prems(4,5,6)] True Cons.prems(1) show ?thesis by simp
  next
    case False
    from Cons.prems(1) False obtain p' where p': "get_own_property s T k' = Some p'"
      by (cases "get_own_property s T k'") auto
    let ?d = "static_publicProperty sc s T p'"
    obtain r1 s1 where d: "defineProperty s (VRef f) k' ?d = (r1, s1)"
      by (cases "defineProperty s (VRef f) k' ?d")
    from Cons.prems(1) False p' d obtain u1 where r1: "r1 = Return u1"
      and rest: "transfer_static sc T (VRef f) keys s1 = (Return u, s')"
      by (cases r1) auto
    show ?thesis
    proof (cases "k' = k")
      case True
      with p' Cons.prems(5) have pp: "p' = p" by simp
      from defineProperty_Return[OF d[unfolded r1]] obtain q where
        q: "apply_descriptor (get_own_property s (VRef f) k') ?d = Some q"
        "get_own_property s1 (VRef f) k' = Some q" by blast
      from transfer_static_untouched[OF rest k'notin, of "VRef f"] q(2)
      have "get_own_property s' (VRef f) k' = Some q" by simp
      with q(1) True pp show ?thesis by simp
    next
      case ne: False
      with Cons.prems(2) have kin: "k \<in> set keys" by auto
      have pT: "get_own_property s1 T k = Some p"
        using defineProperty_props_other_obj[OF d Cons.prems(6)] Cons.prems(5) by simp
      have cur: "get_own_property s1 (VRef f) k = get_own_property s (VRef f) k"
        using defineProperty_props_other[OF d] ne by simp
      have sp: "static_publicProperty sc s1 T p = static_publicProperty sc s T p"
        by (rule static_publicProperty_typeof) (rule defineProperty_typeof[OF d])
      from Cons.IH[OF rest kin dist Cons.prems(4) pT Cons.prems(6)] cur sp
      show ?thesis by simp
    qed
  qed
qed

lemma transfer_proto_defines:
  assumes "transfer_proto sc T F keys s = (Return u, s')"
    and "k \<in> set keys" and "distinct keys" and "\<not> skipped_proto k"
    and "get_own_property s (prototype_of s T) k = Some p"
    and "prototype_of s F = VRef fp"
    and "T \<noteq> VRef fp" and "F \<noteq> VRef fp" and "prototype_of s T \<noteq> VRef fp"
  shows "\<exists>q. apply_descriptor (get_own_property s (VRef fp) k) (proto_publicProperty sc s p) = Some q
           \<and> get_own_property s' (VRef fp) k = Some q"
  using assms
proof (induction keys arbitrary: s)
  case Nil
  then show ?case by simp
next
  case (Cons k' keys)
  from Cons.prems(3) have dist: "distinct keys" and k'notin: "k' \<notin> set keys" by auto
  show ?case
  proof (cases "skipped_proto k'")
    case True
    with Cons.prems(2,4) have "k \<in> set keys" by auto
    from Cons.IH[OF _ this dist Cons.prems(4-9)] True Cons.prems(1) show ?thesis by simp
  next
    case False
    from Cons.prems(1) False obtain p' where
      p': "get_own_property s (prototype_of s T) k' = Some p'"
      by (cases "get_own_property s (prototype_of s T) k'") auto
    let ?d = "proto_publicProperty sc s p'"
    obtain r1 s1 where d0: "defineProperty s (prototype_of s F) k' ?d = (r1, s1)"
      by (cases "defineProperty s (prototype_of s F) k' ?d")
    with Cons.prems(6) have d: "defineProperty s (VRef fp) k' ?d = (r1, s1)" by simp
    from Cons.prems(1) False p' d0 obtain u1 where r1: "r1 = Return u1"
      and rest: "transfer_proto sc T F keys s1 = (Return u, s')"
      by (cases r1) auto
    show ?thesis
    proof (cases "k' = k")
      case True
      with p' Cons.prems(5) have pp: "p' = p" by simp
      from defineProperty_Return[OF d[unfolded r1]] obtain q where
        q: "apply_descriptor (get_own_property s (VRef fp) k') ?d = Some q"
        "get_own_property s1 (VRef fp) k' = Some q" by blast
      from transfer_proto_untouched[OF rest k'notin, of "VRef fp"] q(2)
      have "get_own_property s' (VRef fp) k' = Some q" by simp
      with q(1) True pp show ?thesis by simp
    next
      case ne: False
      with Cons.prems(2) have kin: "k \<in> set keys" by auto
      have pT: "prototype_of s1 T = prototype_of s T"
        using defineProperty_props_other_obj[OF d Cons.prems(7)] by (simp add: prototype_of_def)
      have pF: "prototype_of s1 F = VRef fp"
        using defineProperty_props_other_obj[OF d Cons.prems(8)] Cons.prems(6)
        by (simp add: prototype_of_def)
      have p1: "get_own_property s1 (prototype_of s1 T) k = Some p"
        using defineProperty_props_other_obj[OF d Cons.prems(9)] Cons.prems(5) pT by simp
      have ne1: "prototype_of s1 T \<noteq> VRef fp" using pT Cons.prems(9) by simp
      have cur: "get_own_property s1 (VRef fp) k = get_own_property s (VRef fp) k"
        using defineProperty_props_other[OF d] ne by simp
      have sp: "proto_publicProperty sc s1 p = proto_publicProperty sc s p"
        by (rule proto_publicProperty_typeof) (rule defineProperty_typeof[OF d])
      from Cons.IH[OF rest kin dist Cons.prems(4) p1 pF Cons.prems(7,8) ne1] cur sp
      show ?thesis by simp
    qed
  qed
qed

lemma transfer_proto_keeps_class:
  assumes "transfer_proto sc T F keys s = (r, s')"
    and "prototype_of s F = VRef fp" and "F \<noteq> VRef fp"
  shows "get_own_property s' F k = get_own_property s F k"
proof -
  have "(\<lambda>a b. get_own_property b F k = get_own_property a F k) s s'
        \<and> prototype_of s' F = VRef fp"
    using assms
  proof (rule transfer_proto_rule_at)
    show "get_own_property b F k = get_own_property a F k"
      if "defineProperty a (VRef fp) k' d = (r1, b)" for a k' d r1 b
      using defineProperty_props_other_obj[OF that assms(3)] .
  qed simp_all
  then show ?thesis by simp
qed

lemma declared_static_data:
  "get_own_property (snd (declare_PublicClass H sc T s)) (VRef (length (heap s))) k
     \<noteq> Some (AccessorProp g st e c)"
  by (simp add: declare_PublicClass_def Let_def get_own_property_def lookup_def)

lemma declared_proto_none:
  assumes "\<not> skipped_proto k"
  shows "get_own_property (snd (declare_PublicClass H sc T s)) (VRef (Suc (length (heap s)))) k = None"
  using assms
  by (cases k)
     (simp_all add: declare_PublicClass_def Let_def get_own_property_def lookup_def nth_append
       skipped_proto_def)

text \<open>After steps 1 to 3, a static member of the private class that step 2 did not skip
  is, on the public class, what \<^verbatim>\<open>Object.defineProperty\<close> made of its synthesized descriptor;
  likewise for a member of the prototype.\<close>

lemma buildPublicClass_static_member:
  assumes run: "buildPublicClass H sc T s = (Return F, s')" and cls: "is_class s T"
    and k: "k \<in> set (own_keys s T)" "distinct (own_keys s T)" "\<not> skipped_static k"
    and p: "get_own_property s T k = Some p" and v: "valid s (prop_value p)"
  shows "\<exists>q. apply_descriptor (get_own_property (snd (declare_PublicClass H sc T s)) F k)
                (static_publicProperty sc s T p) = Some q
           \<and> get_own_property s' F k = Some q"
proof -
  from buildPublicClass_unfold_Return[OF run]
  obtain s1 keys u s2 pkeys u' where
    decl: "declare_PublicClass H sc T s = (F, s1)" and
    ks: "ownKeys s1 T = Return keys" and
    ts: "transfer_static sc T F keys s1 = (Return u, s2)" and
    pks: "ownKeys s2 (prototype_of s2 T) = Return pkeys" and
    tp: "transfer_proto sc T F pkeys s2 = (Return u', s')"
    by blast
  let ?f = "length (heap s)"
  have F: "F = VRef ?f" using declare_PublicClass_facts(1)[OF decl] .
  from is_class_ref[OF cls] obtain t where t: "T = VRef t" "t < ?f" by blast
  have old1: "\<And>q. q < ?f \<Longrightarrow> lookup s1 q = lookup s q"
    using declare_PublicClass_old[OF decl] .
  have TF: "T \<noteq> VRef ?f" using t by simp
  have "ownKeys s1 T = ownKeys s T" using lookup_agree(5)[OF old1[OF t(2)]] t(1) by simp
  with own_keys_ref[OF k(1)] ks have keys: "keys = own_keys s T" by auto
  have p1: "get_own_property s1 T k = Some p"
    using lookup_agree(2)[OF old1[OF t(2)]] t(1) p by simp
  have sp: "static_publicProperty sc s1 T p = static_publicProperty sc s T p"
    by (rule static_publicProperty_typeof) (rule typeof_valid_agree[OF v old1])
  from transfer_static_defines[OF ts[unfolded F] k(1)[folded keys] k(2)[folded keys] k(3) p1 TF]
  obtain q where q: "apply_descriptor (get_own_property s1 (VRef ?f) k)
                       (static_publicProperty sc s1 T p) = Some q"
    "get_own_property s2 (VRef ?f) k = Some q" by blast
  have "prototype_of s2 F = prototype_of s1 F"
    using transfer_static_skipped[OF ts, of "KStr ''prototype''" F]
    by (simp add: prototype_of_def skipped_static_def)
  with declare_PublicClass_prototype[OF decl] have pF: "prototype_of s2 F = VRef (Suc ?f)" by simp
  have "F \<noteq> VRef (Suc ?f)" using F by simp
  from transfer_proto_keeps_class[OF tp pF this, of k] q(2) F
  have "get_own_property s' F k = Some q" by simp
  with q(1) sp decl F show ?thesis by simp
qed

lemma buildPublicClass_proto_member:
  assumes run: "buildPublicClass H sc T s = (Return F, s')" and cls: "is_class s T"
    and k: "k \<in> set (own_keys s (prototype_of s T))" "distinct (own_keys s (prototype_of s T))"
      "\<not> skipped_proto k"
    and p: "get_own_property s (prototype_of s T) k = Some p" and v: "valid s (prop_value p)"
  shows "\<exists>q. apply_descriptor None (proto_publicProperty sc s p) = Some q
           \<and> get_own_property s' (prototype_of s' F) k = Some q"
proof -
  from buildPublicClass_unfold_Return[OF run]
  obtain s1 keys u s2 pkeys u' where
    decl: "declare_PublicClass H sc T s = (F, s1)" and
    ks: "ownKeys s1 T = Return keys" and
    ts: "transfer_static sc T F keys s1 = (Return u, s2)" and
    pks: "ownKeys s2 (prototype_of s2 T) = Return pkeys" and
    tp: "transfer_proto sc T F pkeys s2 = (Return u', s')"
    by blast
  let ?f = "length (heap s)"
  have F: "F = VRef ?f" using declare_PublicClass_facts(1)[OF decl] .
  from is_class_ref[OF cls] obtain t where t: "T = VRef t" "t < ?f" by blast
  have old1: "\<And>q. q < ?f \<Longrightarrow> lookup s1 q = lookup s q"
    using declare_PublicClass_old[OF decl] .
  have old2: "\<And>q. q < ?f \<Longrightarrow> lookup s2 q = lookup s q"
    using transfer_static_others[OF ts[unfolded F]] old1 by simp
  from own_keys_ref[OF k(1)] obtain pp where
    pp: "prototype_of s T = VRef pp" "pp < ?f"
    and oks: "ownKeys s (VRef pp) = Return (own_keys s (VRef pp))" by auto
  have pT2: "prototype_of s2 T = VRef pp"
    using lookup_agree(3)[OF old2[OF t(2)]] t(1) pp(1) by simp
  have "ownKeys s2 (VRef pp) = ownKeys s (VRef pp)" using lookup_agree(5)[OF old2[OF pp(2)]] .
  with pks pT2 oks have pkeys: "pkeys = own_keys s (VRef pp)" by simp
  have p2: "get_own_property s2 (prototype_of s2 T) k = Some p"
    using lookup_agree(2)[OF old2[OF pp(2)]] p pp(1) pT2 by simp
  have ty: "typeof s2 (prop_value p) = typeof s (prop_value p)"
    using same_but_props_typeof[OF transfer_static_same[OF ts]] typeof_valid_agree[OF v old1]
    by simp
  have sp: "proto_publicProperty sc s2 p = proto_publicProperty sc s p"
    using ty by (rule proto_publicProperty_typeof)
  have "prototype_of s2 F = prototype_of s1 F"
    using transfer_static_skipped[OF ts, of "KStr ''prototype''" F]
    by (simp add: prototype_of_def skipped_static_def)
  with declare_PublicClass_prototype[OF decl] have pF: "prototype_of s2 F = VRef (Suc ?f)" by simp
  have n1: "T \<noteq> VRef (Suc ?f)" using t by simp
  have n2: "F \<noteq> VRef (Suc ?f)" using F by simp
  have n3: "prototype_of s2 T \<noteq> VRef (Suc ?f)" using pT2 pp(2) by simp
  have kin: "k \<in> set pkeys" and dist: "distinct pkeys" using k(1,2) pp(1) pkeys by simp_all
  from transfer_proto_defines[OF tp kin dist k(3) p2 pF n1 n2 n3]
  obtain q where q: "apply_descriptor (get_own_property s2 (VRef (Suc ?f)) k)
                       (proto_publicProperty sc s2 p) = Some q"
    "get_own_property s' (VRef (Suc ?f)) k = Some q" by blast
  have "lookup s2 (Suc ?f) = lookup s1 (Suc ?f)"
    using transfer_static_others[OF ts[unfolded F], of "Suc ?f"] by simp
  from lookup_agree(2)[OF this]
  have "get_own_property s2 (VRef (Suc ?f)) k = get_own_property s1 (VRef (Suc ?f)) k" .
  also have "\<dots> = None" using declared_proto_none[OF k(3), of H sc T s] decl by simp
  finally have cur: "get_own_property s2 (VRef (Suc ?f)) k = None" .
  have "prototype_of s' F = VRef (Suc ?f)"
    using buildPublicClass_prototype[OF run] F by simp
  with q cur sp show ?thesis by simp
qed

subsection \<open>The descriptors of values and of methods\<close>

lemma apply_getter_descriptor:
  assumes "p_get d = Some g" and "p_set d = None" and "p_value d = None" and "p_writable d = None"
    and "\<And>g0 st0 e0 c0. cur \<noteq> Some (AccessorProp g0 st0 e0 c0)"
    and "apply_descriptor cur d = Some q"
  shows "\<exists>e' c'. q = AccessorProp g VUndefined e' c'"
proof (cases cur)
  case None
  with assms show ?thesis
    by (auto simp: apply_descriptor_def is_accessor_pdesc_def opt_def)
next
  case (Some p0)
  with assms(5) obtain v0 w0 e0 c0 where "p0 = DataProp v0 w0 e0 c0" by (cases p0) auto
  with Some assms show ?thesis
    by (auto simp: apply_descriptor_def is_accessor_pdesc_def opt_def Let_def split: if_splits)
qed

lemma apply_value_descriptor:
  assumes "p_value d = Some g" and "p_get d = None" and "p_set d = None"
    and "\<And>g0 st0 e0 c0. cur \<noteq> Some (AccessorProp g0 st0 e0 c0)"
    and "apply_descriptor cur d = Some q"
  shows "\<exists>w' e' c'. q = DataProp g w' e' c'"
proof (cases cur)
  case None
  with assms show ?thesis
    by (auto simp: apply_descriptor_def is_accessor_pdesc_def opt_def)
next
  case (Some p0)
  with assms(4) obtain v0 w0 e0 c0 where "p0 = DataProp v0 w0 e0 c0" by (cases p0) auto
  with Some assms show ?thesis
    by (auto simp: apply_descriptor_def is_accessor_pdesc_def opt_def Let_def split: if_splits)
qed

lemma plain_value_descriptor:
  assumes "typeof s v \<noteq> ''function''"
  shows "p_get (static_publicProperty sc s T (DataProp v False e c))
           = Some (VFun (StaticRead sc (DataProp v False e c)))"
    and "p_set (static_publicProperty sc s T (DataProp v False e c)) = None"
    and "p_value (static_publicProperty sc s T (DataProp v False e c)) = None"
    and "p_writable (static_publicProperty sc s T (DataProp v False e c)) = None"
    and "p_get (proto_publicProperty sc s (DataProp v False e c))
           = Some (VFun (ProtoRead sc (DataProp v False e c)))"
    and "p_set (proto_publicProperty sc s (DataProp v False e c)) = None"
    and "p_value (proto_publicProperty sc s (DataProp v False e c)) = None"
    and "p_writable (proto_publicProperty sc s (DataProp v False e c)) = None"
  using assms
  by (simp_all add: static_publicProperty_def proto_publicProperty_def empty_pdesc_def Let_def
      truthy_def)

lemma method_descriptor:
  assumes "typeof s v = ''function''"
  shows "p_value (static_publicProperty sc s T (DataProp v w e c))
           = Some (VFun (StaticCall sc (DataProp v w e c) T))"
    and "p_get (static_publicProperty sc s T (DataProp v w e c)) = None"
    and "p_set (static_publicProperty sc s T (DataProp v w e c)) = None"
    and "p_value (proto_publicProperty sc s (DataProp v w e c))
           = Some (VFun (ProtoCall sc (DataProp v w e c)))"
    and "p_get (proto_publicProperty sc s (DataProp v w e c)) = None"
    and "p_set (proto_publicProperty sc s (DataProp v w e c)) = None"
  using assms
  by (simp_all add: static_publicProperty_def proto_publicProperty_def empty_pdesc_def Let_def
      truthy_def)

lemma typeof_function_valid: "typeof s v = ''function'' \<Longrightarrow> valid s v"
  by (cases v) (auto simp: typeof_def valid_def lookup_def split: option.splits if_splits)

lemma static_plain_member:
  assumes run: "buildPublicClass H sc T s = (Return F, s')" and cls: "is_class s T"
    and v: "valid s v" and ty: "typeof s v \<noteq> ''function''"
    and k: "k \<in> set (own_keys s T)" "distinct (own_keys s T)" "\<not> skipped_static k"
    and p: "get_own_property s T k = Some (DataProp v False e c)"
  shows "\<exists>e' c'. get_own_property s' F k
           = Some (AccessorProp (VFun (StaticRead sc (DataProp v False e c))) VUndefined e' c')"
proof -
  from v have v': "valid s (prop_value (DataProp v False e c))" by simp
  from buildPublicClass_static_member[OF run cls k p v'] obtain q where
    q: "apply_descriptor (get_own_property (snd (declare_PublicClass H sc T s)) F k)
          (static_publicProperty sc s T (DataProp v False e c)) = Some q"
    "get_own_property s' F k = Some q" by blast
  from buildPublicClass_result[OF run] have F: "F = VRef (length (heap s))" by simp
  note d = plain_value_descriptor[OF ty]
  from apply_getter_descriptor[OF d(1-4) _ q(1)] declared_static_data[of H sc T s k] F q(2)
  show ?thesis by auto
qed

lemma proto_plain_member:
  assumes run: "buildPublicClass H sc T s = (Return F, s')" and cls: "is_class s T"
    and v: "valid s v" and ty: "typeof s v \<noteq> ''function''"
    and k: "k \<in> set (own_keys s (prototype_of s T))" "distinct (own_keys s (prototype_of s T))"
      "\<not> skipped_proto k"
    and p: "get_own_property s (prototype_of s T) k = Some (DataProp v False e c)"
  shows "\<exists>e' c'. get_own_property s' (prototype_of s' F) k
           = Some (AccessorProp (VFun (ProtoRead sc (DataProp v False e c))) VUndefined e' c')"
proof -
  from v have v': "valid s (prop_value (DataProp v False e c))" by simp
  from buildPublicClass_proto_member[OF run cls k p v'] obtain q where
    q: "apply_descriptor None (proto_publicProperty sc s (DataProp v False e c)) = Some q"
    "get_own_property s' (prototype_of s' F) k = Some q" by blast
  note d = plain_value_descriptor[OF ty]
  from apply_getter_descriptor[OF d(5-8) _ q(1)] q(2)
  show ?thesis by auto
qed

lemma static_method_member:
  assumes run: "buildPublicClass H sc T s = (Return F, s')" and cls: "is_class s T"
    and ty: "typeof s v = ''function''"
    and k: "k \<in> set (own_keys s T)" "distinct (own_keys s T)" "\<not> skipped_static k"
    and p: "get_own_property s T k = Some (DataProp v w e c)"
  shows "\<exists>w' e' c'. get_own_property s' F k
           = Some (DataProp (VFun (StaticCall sc (DataProp v w e c) T)) w' e' c')"
proof -
  from typeof_function_valid[OF ty] have v': "valid s (prop_value (DataProp v w e c))" by simp
  from buildPublicClass_static_member[OF run cls k p v'] obtain q where
    q: "apply_descriptor (get_own_property (snd (declare_PublicClass H sc T s)) F k)
          (static_publicProperty sc s T (DataProp v w e c)) = Some q"
    "get_own_property s' F k = Some q" by blast
  from buildPublicClass_result[OF run] have F: "F = VRef (length (heap s))" by simp
  note d = method_descriptor[OF ty]
  from apply_value_descriptor[OF d(1-3) _ q(1)] declared_static_data[of H sc T s k] F q(2)
  show ?thesis by auto
qed

lemma proto_method_member:
  assumes run: "buildPublicClass H sc T s = (Return F, s')" and cls: "is_class s T"
    and ty: "typeof s v = ''function''"
    and k: "k \<in> set (own_keys s (prototype_of s T))" "distinct (own_keys s (prototype_of s T))"
      "\<not> skipped_proto k"
    and p: "get_own_property s (prototype_of s T) k = Some (DataProp v w e c)"
  shows "\<exists>w' e' c'. get_own_property s' (prototype_of s' F) k
           = Some (DataProp (VFun (ProtoCall sc (DataProp v w e c))) w' e' c')"
proof -
  from typeof_function_valid[OF ty] have v': "valid s (prop_value (DataProp v w e c))" by simp
  from buildPublicClass_proto_member[OF run cls k p v'] obtain q where
    q: "apply_descriptor None (proto_publicProperty sc s (DataProp v w e c)) = Some q"
    "get_own_property s' (prototype_of s' F) k = Some q" by blast
  note d = method_descriptor[OF ty]
  from apply_value_descriptor[OF d(4-6) _ q(1)] q(2)
  show ?thesis by auto
qed

lemma static_call_shared:
  assumes "filterPublicInstance_map H n s args = Some (Return privatArgs, sa)"
    and "hcall H v T privatArgs sa = (Return r, sb)"
    and "filterPrivateInstance H n sb r = Some (Return res, sd)"
  shows "call_closure H n (StaticCall Shared (DataProp v w e c) T) this args s = Some (Return res, sd)"
  using assms by (simp add: call_closure_def bindR_def)

lemma proto_call_shared:
  assumes "has_bound_instance Shared s this"
    and "filterPublicInstance_map H n s args = Some (Return privatArgs, sa)"
    and "hcall H v (WeakMap_get (publicInstancesMap (shared sa)) this) privatArgs sa = (Return r, sb)"
    and "filterPrivateInstance H n sb r = Some (Return res, sd)"
  shows "call_closure H n (ProtoCall Shared (DataProp v w e c)) this args s = Some (Return res, sd)"
  using assms by (simp add: call_closure_def bindR_def has_bound_instance_def)

lemma s0_class_A:
  "is_class s0 (VRef 0)"
  "own_keys s0 (VRef 0) = [KStr ''length'', KStr ''name'', KStr ''prototype'', KStr ''create'',
      KStr ''version'', KStr ''_secret'']"
  "prototype_of s0 (VRef 0) = VRef 1"
  "own_keys s0 (VRef 1) = [KStr ''constructor'', KStr ''increment'', KStr ''kind'', KStr ''_count'']"
  "get_own_property s0 (VRef 0) (KStr ''version'') = Some (DataProp (VNum 1) False True True)"
  "get_own_property s0 (VRef 1) (KStr ''kind'') = Some (DataProp (VStr ''counter'') False True True)"
  "get_own_property s0 (VRef 0) (KStr ''create'') = Some (DataProp (VRef 2) True False True)"
  "get_own_property s0 (VRef 1) (KStr ''increment'') = Some (DataProp (VRef 2) True False True)"
  "typeof s0 (VRef 2) = ''function''"
  by (simp_all add: own_keys_def evals)

lemma sU1_members:
  "get_own_property sU1 (VRef 8) (KStr ''version'')
     = Some (AccessorProp (VFun (StaticRead Shared (DataProp (VNum 1) False True True)))
               VUndefined True True)"
  "get_own_property sU1 (VRef 8) (KStr ''create'')
     = Some (DataProp (VFun (StaticCall Shared (DataProp (VRef 2) True False True) (VRef 0)))
               True False True)"
  "prototype_of sU1 (VRef 8) = VRef 9"
  "get_own_property sU1 (VRef 9) (KStr ''kind'')
     = Some (AccessorProp (VFun (ProtoRead Shared (DataProp (VStr ''counter'') False True True)))
               VUndefined True True)"
  "get_own_property sU1 (VRef 9) (KStr ''increment'')
     = Some (DataProp (VFun (ProtoCall Shared (DataProp (VRef 2) True False True)))
               True False True)"
  "publicInstancesMap (shared sU1) = Map.empty"
  "elements sU1 (VRef 0) = None"
  by (simp_all add: sU1_def evals)

lemma sU2_facts:
  "get_own_property sU2 (VRef 0) (KStr ''version'') = Some (DataProp (VNum 2) False True True)"
  "get_own_property sU2 (VRef 8) (KStr ''version'')
     = Some (AccessorProp (VFun (StaticRead Shared (DataProp (VNum 1) False True True)))
               VUndefined True True)"
  "privateInstancesMap (shared sU2) = Map.empty"
  by (simp_all add: sU2_def sU1_def evals)

subsection \<open>The built-in objects of arrays in a state that has grown\<close>






subsection \<open>The reads of a plain array\<close>







subsection \<open>The loop of the built-in map\<close>



subsection \<open>The method call obj.map(f) on a plain array\<close>



subsection \<open>The translators of Utility.js on plain arrays\<close>







subsection \<open>The example with the built-in objects of arrays\<close>







section \<open>C1: names with the internal marker\<close>

text \<open>
  Claim C1. For every implementation type and every member name beginning with the
  internal marker \<^verbatim>\<open>_\<close>, the synthesized facade type has no own or inherited member of that
  name, at the type level or at the instance level.

  The class declaration of step 1 gives every public class the static method \<^verbatim>\<open>_get\<close>, so
  the claim fails for that name. Every other name with the marker is skipped by both loops:
  for a public class just built (by either file), the class has an own member of such a
  name exactly when the name is \<^verbatim>\<open>_get\<close>, its prototype has none, and whatever else is
  found by inheritance comes from the built-in \<^verbatim>\<open>Function.prototype\<close> and
  \<^verbatim>\<open>Object.prototype\<close> of the environment.
\<close>

theorem internal_names_of_the_public_class:
  assumes "buildPublicClass H sc PrivateClass s = (Return PublicClass, s')"
    and "startsWith name ''_''"
  shows "(get_own_property s' PublicClass (KStr name) \<noteq> None) = (name = ''_get'')
       \<and> get_own_property s' (prototype_of s' PublicClass) (KStr name) = None
       \<and> has_property (Suc n) s' PublicClass (KStr name)
           = (name = ''_get'' \<or> has_property n s' (hfunproto H) (KStr name))
       \<and> has_property (Suc n) s' (prototype_of s' PublicClass) (KStr name)
           = has_property n s' (hobjproto H) (KStr name)"
proof -
  from buildPublicClass_result[OF assms(1)] have F: "PublicClass = VRef (length (heap s))" by simp
  note sk = startsWith_underscore_skipped[OF assms(2)]
  have own: "(get_own_property s' PublicClass (KStr name) \<noteq> None) = (name = ''_get'')"
    using buildPublicClass_static_skipped[OF assms(1), of "KStr name"] sk
      declared_static_internal[OF assms(2), of H sc PrivateClass s] F by simp
  have P: "prototype_of s' PublicClass = VRef (Suc (length (heap s)))"
    using buildPublicClass_prototype[OF assms(1)] F by simp
  have pown: "get_own_property s' (prototype_of s' PublicClass) (KStr name) = None"
    using buildPublicClass_proto_skipped[OF assms(1), of "KStr name"] sk
      declared_proto_internal[OF assms(2), of H sc PrivateClass s] P by simp
  note protos = buildPublicClass_protos[OF assms(1)]
  have "has_property (Suc n) s' PublicClass (KStr name)
          = (name = ''_get'' \<or> has_property n s' (hfunproto H) (KStr name))"
    unfolding F using has_property_Suc[OF protos(1)] own F by simp
  moreover have "has_property (Suc n) s' (prototype_of s' PublicClass) (KStr name)
          = has_property n s' (hobjproto H) (KStr name)"
    unfolding P using has_property_Suc[OF protos(2)] pown P by simp
  ultimately show ?thesis using own pown by simp
qed

theorem internal_names_of_the_public_class_witness:
  "buildPublicClass H0 Shared (VRef 0) s0 = (Return (VRef 8), snd (buildPublicClass H0 Shared (VRef 0) s0))
   \<and> startsWith ''_secret'' ''_''
   \<and> get_own_property s0 (VRef 0) (KStr ''_secret'') \<noteq> None
   \<and> get_own_property (snd (buildPublicClass H0 Shared (VRef 0) s0)) (VRef 8) (KStr ''_secret'') = None
   \<and> \<not> has_property 1 (snd (buildPublicClass H0 Shared (VRef 0) s0)) (VRef 8) (KStr ''_secret'')"
proof -
  have sw: "startsWith ''_secret'' ''_''" by (simp add: startsWith_def)
  have src: "get_own_property s0 (VRef 0) (KStr ''_secret'') \<noteq> None" by (simp add: evals)
  have nofun: "\<not> has_property 0 (snd (buildPublicClass H0 Shared (VRef 0) s0)) (hfunproto H0) (KStr ''_secret'')"
    by simp
  from internal_names_of_the_public_class[OF sU1_built sw, of 0] nofun sU1_built sw src
  show ?thesis by simp
qed

theorem get_is_an_own_member_counterexample:
  "getPublicClass H0 (VRef 0) s0 = (Return (VRef 8), sU1)
   \<and> startsWith ''_get'' ''_''
   \<and> get_own_property sU1 (VRef 8) (KStr ''_get'')
        = Some (DataProp (VFun (LookupGet Shared (VRef 8))) True False True)
   \<and> has_property 1 sU1 (VRef 8) (KStr ''_get'')"
proof -
  have "get_own_property sU1 (VRef 8) (KStr ''_get'')
        = Some (DataProp (VFun (LookupGet Shared (VRef 8))) True False True)"
    by (simp add: sU1_def evals)
  moreover have "has_property 1 sU1 (VRef 8) (KStr ''_get'')"
    by (simp add: sU1_def evals)
  moreover have "startsWith ''_get'' ''_''" by (simp add: startsWith_def)
  ultimately show ?thesis using sU1_class by simp
qed

section \<open>C2: compiling twice\<close>

text \<open>
  Claim C2. For every value T accepted by compile (a function with a prototype) and every
  registry scope, calling compile(T) a second time in the same scope returns the identical
  facade type reference that the first call produced, and the class pair is registered in
  both class-level maps before the first call returns.

  For \<^verbatim>\<open>getPublicClass\<close> of \<^verbatim>\<open>Utility.js\<close> and for the method of a builder: when a call
  returns a public class, the same call in the state it leaves returns the same reference
  and changes nothing; the map from private to public classes sends the private class to
  that reference, and, when the first call had to build the class, the map from public to
  private classes sends it back.
\<close>

theorem compile_twice_same_class:
  "(getPublicClass H T s = (Return F, s') \<longrightarrow>
      getPublicClass H T s' = (Return F, s')
      \<and> WeakMap_get (privateClassesMap (shared s')) T = F
      \<and> (WeakMap_has (privateClassesMap (shared s)) T
          \<or> WeakMap_get (publicClassesMap (shared s')) F = T))
   \<and> (PublicClassBuilder_getPublicClass H B Tb sb = (Return Fb, sb') \<longrightarrow>
      PublicClassBuilder_getPublicClass H B Tb sb' = (Return Fb, sb')
      \<and> (\<exists>pr pr'. private_of sb B = Some pr \<and> private_of sb' B = Some pr'
            \<and> Map_get (privateClassesMap pr') Tb = Fb
            \<and> (Map_has (privateClassesMap pr) Tb \<or> Map_get (publicClassesMap pr') Fb = Tb)))"
  using getPublicClass_again PublicClassBuilder_getPublicClass_again by blast

theorem compile_twice_same_class_witness:
  "getPublicClass H0 (VRef 0) s0 = (Return (VRef 8), sU1)
   \<and> \<not> WeakMap_has (privateClassesMap (shared s0)) (VRef 0)
   \<and> getPublicClass H0 (VRef 0) sU1 = (Return (VRef 8), sU1)
   \<and> WeakMap_get (privateClassesMap (shared sU1)) (VRef 0) = VRef 8
   \<and> WeakMap_get (publicClassesMap (shared sU1)) (VRef 8) = VRef 0
   \<and> PublicClassBuilder_getPublicClass H0 (VRef 8) (VRef 0) sB0 = (Return (VRef 9), sB1)
   \<and> PublicClassBuilder_getPublicClass H0 (VRef 8) (VRef 0) sB1 = (Return (VRef 9), sB1)"
proof -
  have nc: "\<not> WeakMap_has (privateClassesMap (shared s0)) (VRef 0)"
    by (simp add: evals)
  from compile_twice_same_class[of H0 "VRef 0" s0 "VRef 8" sU1 "VRef 8" "VRef 0" sB0 "VRef 9" sB1]
    sU1_class sB1_class nc
  show ?thesis by simp
qed

section \<open>C4: the static lookup\<close>

text \<open>
  Claim C4. For every value x passed to the facade type's static lookup operation
  (\<^verbatim>\<open>_get\<close>), in both scope variants (process-wide and builder-scoped): if x is a registered
  implementation instance, the registered facade instance is returned; otherwise, if x is a
  genuine instance of the wrapped implementation type, a facade instance is created on
  demand via the wrap form and returned; otherwise the call fails with an UnrelatedInstance
  error.

  In \<^verbatim>\<open>PublicClassBuilder.js\<close> the second test of \<^verbatim>\<open>_get\<close> (line 67) names
  \<^verbatim>\<open>publicClassesMap\<close>, which that file declares nowhere (its maps are fields of
  \<^verbatim>\<open>_private\<close>). In the example, with the public class built by a builder, the instance
  \<open>p\<close> (object 3) of the class and the number 5 are not registered: for \<open>p\<close> the call throws
  a ReferenceError instead of returning a new public instance, for 5 it throws a
  ReferenceError instead of the error of the library. \<^verbatim>\<open>Utility.js\<close>, where the map is
  declared, returns a new public instance (object 10) for \<open>p\<close> and throws the error of the
  library for 5.
\<close>

theorem builder_lookup_throws_ReferenceError:
  "PublicClassBuilder_getPublicClass H0 (VRef 8) (VRef 0) sB0 = (Return (VRef 9), sB1)
   \<and> get_own_property sB1 (VRef 9) (KStr ''_get'')
        = Some (DataProp (VFun (LookupGet (Builder 8) (VRef 9))) True False True)
   \<and> instanceof sB1 (VRef 3) (VRef 0) = Return True
   \<and> call_closure H0 1 (LookupGet (Builder 8) (VRef 9)) (VRef 9) [VRef 3] sB1
        = Some (Throw ReferenceError, sB1)
   \<and> call_closure H0 1 (LookupGet (Builder 8) (VRef 9)) (VRef 9) [VNum 5] sB1
        = Some (Throw ReferenceError, sB1)
   \<and> call_closure H0 1 (LookupGet Shared (VRef 8)) (VRef 8) [VRef 3] sU1
        = Some (Return (VRef 10), sU4)
   \<and> call_closure H0 1 (LookupGet Shared (VRef 8)) (VRef 8) [VNum 5] sU1
        = Some (Throw UnrelatedInstance, sU1)"
proof -
  from sB1_facts(4) obtain pr where pr: "privateMap sB1 8 = Some pr"
    "privateInstancesMap pr = Map.empty" by blast
  have b1: "call_closure H0 1 (LookupGet (Builder 8) (VRef 9)) (VRef 9) [VRef 3] sB1
        = Some (Throw ReferenceError, sB1)"
    by (simp add: call_closure_def PublicClass_get_def pr Map_has_def arg0_def resolve_binding_def
        builder_bindings_def buildPublicClass_bindings_def)
  have b2: "call_closure H0 1 (LookupGet (Builder 8) (VRef 9)) (VRef 9) [VNum 5] sB1
        = Some (Throw ReferenceError, sB1)"
    by (simp add: call_closure_def PublicClass_get_def pr Map_has_def arg0_def resolve_binding_def
        builder_bindings_def buildPublicClass_bindings_def)
  have u1: "call_closure H0 1 (LookupGet Shared (VRef 8)) (VRef 8) [VRef 3] sU1
        = Some (Return (VRef 10), sU4)"
    by (simp add: call_closure_def PublicClass_get_def sU1_facts WeakMap_has_def WeakMap_get_def
        is_object_def arg0_def sU4_wrap[unfolded One_nat_def])
  have u2: "call_closure H0 1 (LookupGet Shared (VRef 8)) (VRef 8) [VNum 5] sU1
        = Some (Throw UnrelatedInstance, sU1)"
    by (simp add: call_closure_def PublicClass_get_def sU1_facts WeakMap_has_def WeakMap_get_def
        is_object_def arg0_def sU1_name bindR_def)
  from sB1_class sB1_facts(1,2) b1 b2 u1 u2 show ?thesis by simp
qed

section \<open>C3: wrapping an instance twice\<close>

text \<open>
  Claim C3. For every implementation instance p that already has a registered facade
  instance in the scope, invoking the wrap form (constructing the facade with p as the
  single argument) throws an AlreadyBound error; in particular, wrapping the same
  implementation instance twice fails on the second call, and on success the new bijective
  instance pair is registered in both instance maps before the constructor returns.

  The message of the error starts with \<^verbatim>\<open>${PublicClass.name}\<close>. Every class has an own
  property \<^verbatim>\<open>name\<close>, a value that is not writable, so step 2 has replaced the \<^verbatim>\<open>name\<close> of
  the public class by a synthesized getter. In \<^verbatim>\<open>PublicClassBuilder.js\<close> that getter calls
  \<^verbatim>\<open>filterPrivate.call(this, ...)\<close> with the public class as receiver, which is no key of
  \<^verbatim>\<open>_privateMap\<close>: building the message throws a TypeError, and the error of the library
  is never thrown. In the example the first \<^verbatim>\<open>new Facade(p)\<close> registers the pair in both
  maps of the builder, and the second throws a TypeError. \<^verbatim>\<open>Utility.js\<close>, whose getter
  needs no receiver, throws the error of the library.
\<close>

theorem builder_second_wrap_throws_TypeError:
  "new_PublicClass H0 1 (VRef 9) [VRef 3] sB1 = Some (Return (VRef 11), sB2)
   \<and> (\<exists>pr. privateMap sB2 8 = Some pr
         \<and> privateInstancesMap pr (VRef 3) = Some (VRef 11)
         \<and> publicInstancesMap pr (VRef 11) = Some (VRef 3))
   \<and> instanceof sB2 (VRef 3) (VRef 0) = Return True
   \<and> get_own_property sB2 (VRef 9) (KStr ''name'')
        = Some (AccessorProp (VFun (StaticRead (Builder 8) (DataProp (VStr ''A'') False False True)))
                  VUndefined False True)
   \<and> map_option fst (new_PublicClass H0 1 (VRef 9) [VRef 3] sB2) = Some (Throw TypeError)
   \<and> new_PublicClass H0 1 (VRef 8) [VRef 3] sU1 = Some (Return (VRef 10), sU4)
   \<and> map_option fst (new_PublicClass H0 1 (VRef 8) [VRef 3] sU4) = Some (Throw AlreadyBound)"
proof -
  have i: "instanceof sB2 (VRef 3) (VRef 0) = Return True"
    by (simp add: sB2_def sB1_def sB0_def evals)
  have p: "get_own_property sB2 (VRef 9) (KStr ''name'')
        = Some (AccessorProp (VFun (StaticRead (Builder 8) (DataProp (VStr ''A'') False False True)))
                  VUndefined False True)"
    by (simp add: sB2_def sB1_def sB0_def evals)
  have b: "map_option fst (new_PublicClass H0 1 (VRef 9) [VRef 3] sB2) = Some (Throw TypeError)"
    by (simp add: sB2_def sB1_def sB0_def evals)
  have u: "map_option fst (new_PublicClass H0 1 (VRef 8) [VRef 3] sU4) = Some (Throw AlreadyBound)"
    by (simp add: sU4_def sU1_def evals)
  from sB2_maps have m: "\<exists>pr. privateMap sB2 8 = Some pr
         \<and> privateInstancesMap pr (VRef 3) = Some (VRef 11)
         \<and> publicInstancesMap pr (VRef 11) = Some (VRef 3)" by blast
  from sB2_wrap m i p b sU4_wrap u show ?thesis by simp
qed

section \<open>C5: plain values\<close>

text \<open>
  Claim C5. For every exposed member whose descriptor is a plain non-function value, the
  synthesized facade exposes a read-only accessor whose getter re-reads the current private
  value at each access (it never returns a stale copy captured at compilation time) and
  rewrites that value private to public; no plain value is ever exposed as a mutable public
  field.

  The getter of steps 2.4b.2 and 3.4b.2 reads \<^verbatim>\<open>privateProperty.value\<close>, and
  \<^verbatim>\<open>privateProperty\<close> is the descriptor object that \<^verbatim>\<open>Reflect.getOwnPropertyDescriptor\<close>
  returned when the class was built: the value is the one of that time. For a member that
  is a value, not writable and not a function (a writable one is the matter of C10), the
  public class built by either file has under the same key an accessor with that getter
  and without a setter. What a call of the getter gives is stated for \<^verbatim>\<open>Utility.js\<close> only:
  called at any later time, the getter of \<^verbatim>\<open>Utility.js\<close> gives what the translator
  \<^verbatim>\<open>filterPrivateInstance\<close> gives for the captured value at that time (for a prototype
  member, when the receiver has a private instance).
\<close>

theorem plain_value_getter_returns_the_captured_value:
  assumes "buildPublicClass H sc PrivateClass s = (Return PublicClass, s')"
    and "is_class s PrivateClass" and "valid s v" and "typeof s v \<noteq> ''function''"
  shows "(k \<in> set (own_keys s PrivateClass) \<and> distinct (own_keys s PrivateClass)
          \<and> \<not> skipped_static k
          \<and> get_own_property s PrivateClass k = Some (DataProp v False e c)
        \<longrightarrow> (\<exists>e' c'. get_own_property s' PublicClass k
              = Some (AccessorProp (VFun (StaticRead sc (DataProp v False e c))) VUndefined e' c')))
       \<and> (k \<in> set (own_keys s (prototype_of s PrivateClass))
          \<and> distinct (own_keys s (prototype_of s PrivateClass))
          \<and> \<not> skipped_proto k
          \<and> get_own_property s (prototype_of s PrivateClass) k = Some (DataProp v False e c)
        \<longrightarrow> (\<exists>e' c'. get_own_property s' (prototype_of s' PublicClass) k
              = Some (AccessorProp (VFun (ProtoRead sc (DataProp v False e c))) VUndefined e' c')))
       \<and> call_closure H n (StaticRead Shared (DataProp v False e c)) this args later
            = filterPrivateInstance H n later v
       \<and> (has_bound_instance Shared later this
        \<longrightarrow> call_closure H n (ProtoRead Shared (DataProp v False e c)) this args later
              = filterPrivateInstance H n later v)"
proof -
  have "call_closure H n (StaticRead Shared (DataProp v False e c)) this args later
            = filterPrivateInstance H n later v"
    by (simp add: call_closure_def)
  moreover have "call_closure H n (ProtoRead Shared (DataProp v False e c)) this args later
            = filterPrivateInstance H n later v"
    if "has_bound_instance Shared later this"
    using that by (simp add: call_closure_def has_bound_instance_def)
  moreover have "\<exists>e' c'. get_own_property s' PublicClass k
              = Some (AccessorProp (VFun (StaticRead sc (DataProp v False e c))) VUndefined e' c')"
    if "k \<in> set (own_keys s PrivateClass)" "distinct (own_keys s PrivateClass)"
      "\<not> skipped_static k" "get_own_property s PrivateClass k = Some (DataProp v False e c)"
    using static_plain_member[OF assms that] .
  moreover have "\<exists>e' c'. get_own_property s' (prototype_of s' PublicClass) k
              = Some (AccessorProp (VFun (ProtoRead sc (DataProp v False e c))) VUndefined e' c')"
    if "k \<in> set (own_keys s (prototype_of s PrivateClass))"
      "distinct (own_keys s (prototype_of s PrivateClass))" "\<not> skipped_proto k"
      "get_own_property s (prototype_of s PrivateClass) k = Some (DataProp v False e c)"
    using proto_plain_member[OF assms that] .
  ultimately show ?thesis by blast
qed

theorem plain_value_getter_returns_the_captured_value_witness:
  "buildPublicClass H0 Shared (VRef 0) s0
     = (Return (VRef 8), snd (buildPublicClass H0 Shared (VRef 0) s0))
   \<and> is_class s0 (VRef 0)
   \<and> get_own_property s0 (VRef 0) (KStr ''version'') = Some (DataProp (VNum 1) False True True)
   \<and> (\<exists>e' c'. get_own_property (snd (buildPublicClass H0 Shared (VRef 0) s0)) (VRef 8)
                  (KStr ''version'')
         = Some (AccessorProp (VFun (StaticRead Shared (DataProp (VNum 1) False True True)))
                   VUndefined e' c'))
   \<and> get_own_property s0 (prototype_of s0 (VRef 0)) (KStr ''kind'')
        = Some (DataProp (VStr ''counter'') False True True)
   \<and> (\<exists>e' c'. get_own_property (snd (buildPublicClass H0 Shared (VRef 0) s0))
                  (prototype_of (snd (buildPublicClass H0 Shared (VRef 0) s0)) (VRef 8))
                  (KStr ''kind'')
         = Some (AccessorProp (VFun (ProtoRead Shared (DataProp (VStr ''counter'') False True True)))
                   VUndefined e' c'))
   \<and> call_closure H0 1 (StaticRead Shared (DataProp (VNum 1) False True True)) (VRef 8) [] sU2
        = Some (Return (VNum 1), sU2)
   \<and> has_bound_instance Shared sU4 (VRef 10)
   \<and> call_closure H0 1 (ProtoRead Shared (DataProp (VStr ''counter'') False True True))
        (VRef 10) [] sU4
        = Some (Return (VStr ''counter''), sU4)"
proof -
  let ?s' = "snd (buildPublicClass H0 Shared (VRef 0) s0)"
  have v1: "valid s0 (VNum 1)" "typeof s0 (VNum 1) \<noteq> ''function''"
    by (simp_all add: valid_def typeof_def)
  have v2: "valid s0 (VStr ''counter'')" "typeof s0 (VStr ''counter'') \<noteq> ''function''"
    by (simp_all add: valid_def typeof_def)
  have k1: "KStr ''version'' \<in> set (own_keys s0 (VRef 0))" "distinct (own_keys s0 (VRef 0))"
    "\<not> skipped_static (KStr ''version'')"
    by (simp_all add: s0_class_A skipped_static_def startsWith_def)
  have k2: "KStr ''kind'' \<in> set (own_keys s0 (prototype_of s0 (VRef 0)))"
    "distinct (own_keys s0 (prototype_of s0 (VRef 0)))" "\<not> skipped_proto (KStr ''kind'')"
    by (simp_all add: s0_class_A s0_class_A[unfolded One_nat_def] skipped_proto_def startsWith_def)
  have p2: "get_own_property s0 (prototype_of s0 (VRef 0)) (KStr ''kind'')
        = Some (DataProp (VStr ''counter'') False True True)"
    by (simp add: s0_class_A s0_class_A[unfolded One_nat_def])
  have hb: "has_bound_instance Shared sU4 (VRef 10)"
    by (simp add: has_bound_instance_def WeakMap_has_def is_object_def sU4_maps)
  have f1: "filterPrivateInstance H0 (Suc 0) sU2 (VNum 1) = Some (Return (VNum 1), sU2)"
    by (rule filterPrivateInstance_passes)
       (simp_all add: WeakMap_has_def is_object_def isArray_def elements_def)
  have f2: "filterPrivateInstance H0 (Suc 0) sU4 (VStr ''counter'') = Some (Return (VStr ''counter''), sU4)"
    by (rule filterPrivateInstance_passes)
       (simp_all add: WeakMap_has_def is_object_def isArray_def elements_def)
  note t1 = plain_value_getter_returns_the_captured_value[OF sU1_built s0_class_A(1) v1,
      where k = "KStr ''version''" and e = True and c = True and n = "Suc 0"
        and this = "VRef 8" and args = "[]" and later = sU2]
  note t2 = plain_value_getter_returns_the_captured_value[OF sU1_built s0_class_A(1) v2,
      where k = "KStr ''kind''" and e = True and c = True and n = "Suc 0"
        and this = "VRef 10" and args = "[]" and later = sU4]
  from t1 k1 s0_class_A(5)
  have a: "\<exists>e' c'. get_own_property ?s' (VRef 8) (KStr ''version'')
         = Some (AccessorProp (VFun (StaticRead Shared (DataProp (VNum 1) False True True)))
                   VUndefined e' c')" by blast
  from t1 f1
  have b: "call_closure H0 1 (StaticRead Shared (DataProp (VNum 1) False True True)) (VRef 8) [] sU2
        = Some (Return (VNum 1), sU2)"
    by (simp del: filterPrivateInstance.simps)
  from t2 k2 p2
  have c: "\<exists>e' c'. get_own_property ?s' (prototype_of ?s' (VRef 8)) (KStr ''kind'')
         = Some (AccessorProp (VFun (ProtoRead Shared (DataProp (VStr ''counter'') False True True)))
                   VUndefined e' c')" by blast
  from t2 hb f2
  have d: "call_closure H0 1 (ProtoRead Shared (DataProp (VStr ''counter'') False True True))
        (VRef 10) [] sU4 = Some (Return (VStr ''counter''), sU4)"
    by (simp del: filterPrivateInstance.simps)
  from sU1_built s0_class_A(1,5) a p2 c b hb d show ?thesis by blast
qed

theorem stale_value_counterexample:
  "getPublicClass H0 (VRef 0) s0 = (Return (VRef 8), sU1)
   \<and> get_own_property s0 (VRef 0) (KStr ''version'') = Some (DataProp (VNum 1) False True True)
   \<and> get_own_property sU2 (VRef 0) (KStr ''version'') = Some (DataProp (VNum 2) False True True)
   \<and> get_own_property sU2 (VRef 8) (KStr ''version'')
        = Some (AccessorProp (VFun (StaticRead Shared (DataProp (VNum 1) False True True)))
                  VUndefined True True)
   \<and> call_closure H0 1 (StaticRead Shared (DataProp (VNum 1) False True True)) (VRef 8) [] sU2
        = Some (Return (VNum 1), sU2)
   \<and> claimed_static_read H0 1 (VRef 0) (KStr ''version'') sU2 = Some (Return (VNum 2), sU2)"
proof -
  have f1: "filterPrivateInstance H0 (Suc 0) sU2 (VNum 1) = Some (Return (VNum 1), sU2)"
    by (rule filterPrivateInstance_passes)
       (simp_all add: WeakMap_has_def is_object_def isArray_def elements_def)
  have f2: "filterPrivateInstance H0 (Suc 0) sU2 (VNum 2) = Some (Return (VNum 2), sU2)"
    by (rule filterPrivateInstance_passes)
       (simp_all add: WeakMap_has_def is_object_def isArray_def elements_def)
  have a: "call_closure H0 1 (StaticRead Shared (DataProp (VNum 1) False True True)) (VRef 8) [] sU2
        = Some (Return (VNum 1), sU2)"
    using f1 by (simp add: call_closure_def del: filterPrivateInstance.simps)
  have b: "claimed_static_read H0 1 (VRef 0) (KStr ''version'') sU2 = Some (Return (VNum 2), sU2)"
    using f2 by (simp add: claimed_static_read_def sU2_facts del: filterPrivateInstance.simps)
  from sU1_class s0_class_A(5) sU2_facts(1,2) a b show ?thesis by blast
qed

section \<open>C7: methods\<close>

text \<open>
  Claim C7. For every exposed type-level (static) callable member, the synthesized facade
  method rewrites all arguments public to private, invokes the original callable bound to
  the facade class itself as receiver, and rewrites the result private to public; for every
  exposed instance-level callable member, the original callable is invoked bound to the
  receiver's bound implementation instance.

  The static method of step 2.4b.1 calls \<^verbatim>\<open>privateProperty.value.apply(PrivateClass, ...)\<close>:
  the receiver of the original is the private class, not the public one. For a member whose
  value is a function, the public class built by either file has under the same key a
  data property whose value is the synthesized method. What a call of the method does is
  stated for \<^verbatim>\<open>Utility.js\<close> only: when the translations and the original return, the
  static method of \<^verbatim>\<open>Utility.js\<close> translates the arguments from public to private, calls
  the original with the private class as receiver and translates the result from private
  to public; the prototype method of \<^verbatim>\<open>Utility.js\<close>, called on a receiver that has a
  private instance, does the same with that private instance as receiver of the original.
\<close>

theorem methods_call_the_original_on_the_private_side:
  assumes "buildPublicClass H sc PrivateClass s = (Return PublicClass, s')"
    and "is_class s PrivateClass" and "typeof s v = ''function''"
  shows "(k \<in> set (own_keys s PrivateClass) \<and> distinct (own_keys s PrivateClass)
          \<and> \<not> skipped_static k
          \<and> get_own_property s PrivateClass k = Some (DataProp v w e c)
        \<longrightarrow> (\<exists>w' e' c'. get_own_property s' PublicClass k
              = Some (DataProp (VFun (StaticCall sc (DataProp v w e c) PrivateClass)) w' e' c')))
       \<and> (k \<in> set (own_keys s (prototype_of s PrivateClass))
          \<and> distinct (own_keys s (prototype_of s PrivateClass))
          \<and> \<not> skipped_proto k
          \<and> get_own_property s (prototype_of s PrivateClass) k = Some (DataProp v w e c)
        \<longrightarrow> (\<exists>w' e' c'. get_own_property s' (prototype_of s' PublicClass) k
              = Some (DataProp (VFun (ProtoCall sc (DataProp v w e c))) w' e' c')))
       \<and> (filterPublicInstance_map H n later args = Some (Return privatArgs, sa)
          \<and> hcall H v PrivateClass privatArgs sa = (Return r, sb)
          \<and> filterPrivateInstance H n sb r = Some (Return res, sd)
        \<longrightarrow> call_closure H n (StaticCall Shared (DataProp v w e c) PrivateClass) this args later
              = Some (Return res, sd))
       \<and> (has_bound_instance Shared later this
          \<and> filterPublicInstance_map H n later args = Some (Return privatArgs, sa)
          \<and> hcall H v (WeakMap_get (publicInstancesMap (shared sa)) this) privatArgs sa
               = (Return r, sb)
          \<and> filterPrivateInstance H n sb r = Some (Return res, sd)
        \<longrightarrow> call_closure H n (ProtoCall Shared (DataProp v w e c)) this args later
              = Some (Return res, sd))"
proof -
  have "call_closure H n (StaticCall Shared (DataProp v w e c) PrivateClass) this args later
              = Some (Return res, sd)"
    if "filterPublicInstance_map H n later args = Some (Return privatArgs, sa)"
      "hcall H v PrivateClass privatArgs sa = (Return r, sb)"
      "filterPrivateInstance H n sb r = Some (Return res, sd)"
    using that by (rule static_call_shared)
  moreover have "call_closure H n (ProtoCall Shared (DataProp v w e c)) this args later
              = Some (Return res, sd)"
    if "has_bound_instance Shared later this"
      "filterPublicInstance_map H n later args = Some (Return privatArgs, sa)"
      "hcall H v (WeakMap_get (publicInstancesMap (shared sa)) this) privatArgs sa
         = (Return r, sb)"
      "filterPrivateInstance H n sb r = Some (Return res, sd)"
    using that by (rule proto_call_shared)
  moreover have "\<exists>w' e' c'. get_own_property s' PublicClass k
              = Some (DataProp (VFun (StaticCall sc (DataProp v w e c) PrivateClass)) w' e' c')"
    if "k \<in> set (own_keys s PrivateClass)" "distinct (own_keys s PrivateClass)"
      "\<not> skipped_static k" "get_own_property s PrivateClass k = Some (DataProp v w e c)"
    using static_method_member[OF assms that] .
  moreover have "\<exists>w' e' c'. get_own_property s' (prototype_of s' PublicClass) k
              = Some (DataProp (VFun (ProtoCall sc (DataProp v w e c))) w' e' c')"
    if "k \<in> set (own_keys s (prototype_of s PrivateClass))"
      "distinct (own_keys s (prototype_of s PrivateClass))" "\<not> skipped_proto k"
      "get_own_property s (prototype_of s PrivateClass) k = Some (DataProp v w e c)"
    using proto_method_member[OF assms that] .
  ultimately show ?thesis by blast
qed

theorem methods_call_the_original_on_the_private_side_witness:
  "buildPublicClass H0 Shared (VRef 0) s0
     = (Return (VRef 8), snd (buildPublicClass H0 Shared (VRef 0) s0))
   \<and> is_class s0 (VRef 0) \<and> typeof s0 (VRef 2) = ''function''
   \<and> get_own_property s0 (VRef 0) (KStr ''create'') = Some (DataProp (VRef 2) True False True)
   \<and> (\<exists>w' e' c'. get_own_property (snd (buildPublicClass H0 Shared (VRef 0) s0)) (VRef 8)
                    (KStr ''create'')
         = Some (DataProp (VFun (StaticCall Shared (DataProp (VRef 2) True False True) (VRef 0)))
                   w' e' c'))
   \<and> get_own_property s0 (prototype_of s0 (VRef 0)) (KStr ''increment'')
        = Some (DataProp (VRef 2) True False True)
   \<and> (\<exists>w' e' c'. get_own_property (snd (buildPublicClass H0 Shared (VRef 0) s0))
                    (prototype_of (snd (buildPublicClass H0 Shared (VRef 0) s0)) (VRef 8))
                    (KStr ''increment'')
         = Some (DataProp (VFun (ProtoCall Shared (DataProp (VRef 2) True False True))) w' e' c'))
   \<and> hcall H0 (VRef 2) (VRef 0) [VNum 5] sU1 = (Return (VRef 0), sU1)
   \<and> call_closure H0 1 (StaticCall Shared (DataProp (VRef 2) True False True) (VRef 0))
        (VRef 8) [VNum 5] sU1
        = Some (Return (VRef 0), sU1)
   \<and> has_bound_instance Shared sU4 (VRef 10)
   \<and> hcall H0 (VRef 2) (VRef 3) [VNum 5] sU4 = (Return (VRef 3), sU4)
   \<and> call_closure H0 1 (ProtoCall Shared (DataProp (VRef 2) True False True))
        (VRef 10) [VNum 5] sU4
        = Some (Return (VRef 10), sU4)"
proof -
  let ?s' = "snd (buildPublicClass H0 Shared (VRef 0) s0)"
  have k1: "KStr ''create'' \<in> set (own_keys s0 (VRef 0))" "distinct (own_keys s0 (VRef 0))"
    "\<not> skipped_static (KStr ''create'')"
    by (simp_all add: s0_class_A skipped_static_def startsWith_def)
  have k2: "KStr ''increment'' \<in> set (own_keys s0 (prototype_of s0 (VRef 0)))"
    "distinct (own_keys s0 (prototype_of s0 (VRef 0)))" "\<not> skipped_proto (KStr ''increment'')"
    by (simp_all add: s0_class_A s0_class_A[unfolded One_nat_def] skipped_proto_def startsWith_def)
  have p2: "get_own_property s0 (prototype_of s0 (VRef 0)) (KStr ''increment'')
        = Some (DataProp (VRef 2) True False True)"
    by (simp add: s0_class_A s0_class_A[unfolded One_nat_def])
  have hb: "has_bound_instance Shared sU4 (VRef 10)"
    by (simp add: has_bound_instance_def WeakMap_has_def is_object_def sU4_maps)
  have g: "WeakMap_get (publicInstancesMap (shared sU4)) (VRef 10) = VRef 3"
    by (simp add: WeakMap_get_def is_object_def sU4_maps)
  have h1: "hcall H0 (VRef 2) (VRef 0) [VNum 5] sU1 = (Return (VRef 0), sU1)"
    by (simp add: H0_def)
  have h2: "hcall H0 (VRef 2) (VRef 3) [VNum 5] sU4 = (Return (VRef 3), sU4)"
    by (simp add: H0_def)
  have a1: "filterPublicInstance_map H0 (Suc 0) sU1 [VNum 5] = Some (Return [VNum 5], sU1)"
    by (simp add: filterPublicInstance_map_def WeakMap_has_def is_object_def isArray_def
        elements_def typeof_not_promise)
  have a2: "filterPublicInstance_map H0 (Suc 0) sU4 [VNum 5] = Some (Return [VNum 5], sU4)"
    by (simp add: filterPublicInstance_map_def WeakMap_has_def is_object_def isArray_def
        elements_def typeof_not_promise)
  have r1: "filterPrivateInstance H0 (Suc 0) sU1 (VRef 0) = Some (Return (VRef 0), sU1)"
    by (rule filterPrivateInstance_passes)
       (simp_all add: WeakMap_has_def sU1_facts sU1_members isArray_def)
  have r2: "filterPrivateInstance H0 (Suc 0) sU4 (VRef 3) = Some (Return (VRef 10), sU4)"
    by (simp add: WeakMap_has_def WeakMap_get_def is_object_def sU4_maps)
  note t1 = methods_call_the_original_on_the_private_side[OF sU1_built s0_class_A(1,9),
      where k = "KStr ''create''" and w = True and e = False and c = True and n = "Suc 0"
        and later = sU1 and args = "[VNum 5]" and privatArgs = "[VNum 5]" and sa = sU1
        and r = "VRef 0" and sb = sU1 and res = "VRef 0" and sd = sU1 and this = "VRef 8"]
  note t2 = methods_call_the_original_on_the_private_side[OF sU1_built s0_class_A(1,9),
      where k = "KStr ''increment''" and w = True and e = False and c = True and n = "Suc 0"
        and later = sU4 and args = "[VNum 5]" and privatArgs = "[VNum 5]" and sa = sU4
        and r = "VRef 3" and sb = sU4 and res = "VRef 10" and sd = sU4 and this = "VRef 10"]
  from t1 k1 s0_class_A(7)
  have a: "\<exists>w' e' c'. get_own_property ?s' (VRef 8) (KStr ''create'')
         = Some (DataProp (VFun (StaticCall Shared (DataProp (VRef 2) True False True) (VRef 0)))
                   w' e' c')" by blast
  from t2 k2 p2
  have b: "\<exists>w' e' c'. get_own_property ?s' (prototype_of ?s' (VRef 8)) (KStr ''increment'')
         = Some (DataProp (VFun (ProtoCall Shared (DataProp (VRef 2) True False True))) w' e' c')"
    by blast
  from t1 a1 h1 r1
  have c: "call_closure H0 (Suc 0) (StaticCall Shared (DataProp (VRef 2) True False True) (VRef 0))
        (VRef 8) [VNum 5] sU1 = Some (Return (VRef 0), sU1)" by blast
  from t2 hb a2 h2 r2 g
  have d: "call_closure H0 (Suc 0) (ProtoCall Shared (DataProp (VRef 2) True False True))
        (VRef 10) [VNum 5] sU4 = Some (Return (VRef 10), sU4)" by simp
  from sU1_built s0_class_A(1,9,7) a p2 b h1 c hb h2 d show ?thesis by simp
qed

theorem static_receiver_counterexample:
  "getPublicClass H0 (VRef 0) s0 = (Return (VRef 8), sU1)
   \<and> get_own_property sU1 (VRef 8) (KStr ''create'')
        = Some (DataProp (VFun (StaticCall Shared (DataProp (VRef 2) True False True) (VRef 0)))
                  True False True)
   \<and> hcall H0 (VRef 2) (VRef 0) [] sU1 = (Return (VRef 0), sU1)
   \<and> hcall H0 (VRef 2) (VRef 8) [] sU1 = (Return (VRef 8), sU1)
   \<and> call_closure H0 1 (StaticCall Shared (DataProp (VRef 2) True False True) (VRef 0))
        (VRef 8) [] sU1
        = Some (Return (VRef 0), sU1)
   \<and> claimed_static_call H0 1 (DataProp (VRef 2) True False True) (VRef 8) [] sU1
        = Some (Return (VRef 8), sU1)"
proof -
  have r1: "filterPrivateInstance H0 (Suc 0) sU1 (VRef 0) = Some (Return (VRef 0), sU1)"
    by (rule filterPrivateInstance_passes)
       (simp_all add: WeakMap_has_def sU1_facts sU1_members isArray_def)
  have e8: "elements sU1 (VRef 8) = None" by (simp add: sU1_def evals)
  have r2: "filterPrivateInstance H0 (Suc 0) sU1 (VRef 8) = Some (Return (VRef 8), sU1)"
    by (rule filterPrivateInstance_passes)
       (simp_all add: WeakMap_has_def sU1_facts e8 isArray_def)
  have h1: "hcall H0 (VRef 2) (VRef 0) [] sU1 = (Return (VRef 0), sU1)" by (simp add: H0_def)
  have h2: "hcall H0 (VRef 2) (VRef 8) [] sU1 = (Return (VRef 8), sU1)" by (simp add: H0_def)
  have a: "call_closure H0 1 (StaticCall Shared (DataProp (VRef 2) True False True) (VRef 0))
        (VRef 8) [] sU1 = Some (Return (VRef 0), sU1)"
    using r1 h1
    by (simp add: call_closure_def bindR_def filterPublicInstance_map_def
        del: filterPrivateInstance.simps)
  have b: "claimed_static_call H0 1 (DataProp (VRef 2) True False True) (VRef 8) [] sU1
        = Some (Return (VRef 8), sU1)"
    using r2 h2
    by (simp add: claimed_static_call_def bindR_def filterPublicInstance_map_def
        del: filterPrivateInstance.simps)
  from sU1_class sU1_members(2) h1 h2 a b show ?thesis by blast
qed

section \<open>C6: promises\<close>

text \<open>
  Claim C6. For every pending asynchronous result (promise) passed to toPublic or toPrivate,
  the translator returns a new pending result that, upon the original's successful
  completion, yields the translated resolution value, and upon the original's failure
  propagates that failure untranslated.

  The four translators test \<^verbatim>\<open>typeof obj === 'promise'\<close>, and \<^verbatim>\<open>typeof\<close> never gives that
  string (for a promise it gives \<^verbatim>\<open>'object'\<close>), so the branch that would chain a new promise
  is never taken. In the example the promise (object 7) is fulfilled with the private
  instance 3, whose public instance is object 10 (object 11 with the builder): each
  translator returns the promise itself, in an unchanged state, and its value stays the
  private instance.
\<close>

theorem promise_is_returned_untranslated:
  "map_option okind (lookup sU4 7) = Some (PromiseObj (Fulfilled (VRef 3)))
   \<and> typeof sU4 (VRef 7) = ''object''
   \<and> filterPrivateInstance H0 1 sU4 (VRef 3) = Some (Return (VRef 10), sU4)
   \<and> filterPrivateInstance H0 1 sU4 (VRef 7) = Some (Return (VRef 7), sU4)
   \<and> filterPublicInstance H0 1 sU4 (VRef 7) = Some (Return (VRef 7), sU4)
   \<and> filterPrivate H0 1 (VRef 8) sB2 (VRef 3) = Some (Return (VRef 11), sB2)
   \<and> filterPrivate H0 1 (VRef 8) sB2 (VRef 7) = Some (Return (VRef 7), sB2)
   \<and> filterPublic H0 1 (VRef 8) sB2 (VRef 7) = Some (Return (VRef 7), sB2)"
proof -
  have ty: "typeof sU4 (VRef 7) = ''object''"
    using sU4_promise(3) by (auto simp: typeof_def split: option.splits)
  have a: "filterPrivateInstance H0 1 sU4 (VRef 3) = Some (Return (VRef 10), sU4)"
    by (simp add: sU4_maps WeakMap_has_def WeakMap_get_def is_object_def)
  have b: "filterPrivateInstance H0 1 sU4 (VRef 7) = Some (Return (VRef 7), sU4)"
    unfolding One_nat_def
    by (rule filterPrivateInstance_passes)
       (simp_all add: sU4_maps sU4_promise WeakMap_has_def isArray_def)
  have c: "filterPublicInstance H0 1 sU4 (VRef 7) = Some (Return (VRef 7), sU4)"
    unfolding One_nat_def
    by (rule filterPublicInstance_passes)
       (simp_all add: sU4_maps sU4_promise WeakMap_has_def isArray_def)
  from sB2_maps obtain pr where pr: "privateMap sB2 8 = Some pr"
    "privateInstancesMap pr (VRef 3) = Some (VRef 11)"
    "privateInstancesMap pr (VRef 7) = None" "publicInstancesMap pr (VRef 7) = None"
    "privateClassesMap pr (VRef 7) = None" "publicClassesMap pr (VRef 7) = None"
    by blast
  have d: "filterPrivate H0 1 (VRef 8) sB2 (VRef 3) = Some (Return (VRef 11), sB2)"
    by (simp add: pr private_of_def Map_has_def Map_get_def)
  have e: "filterPrivate H0 1 (VRef 8) sB2 (VRef 7) = Some (Return (VRef 7), sB2)"
    unfolding One_nat_def
    by (rule filterPrivate_passes[where pr = pr])
       (simp_all add: pr private_of_def Map_has_def sB2_promise isArray_def)
  have f: "filterPublic H0 1 (VRef 8) sB2 (VRef 7) = Some (Return (VRef 7), sB2)"
    unfolding One_nat_def
    by (rule filterPublic_passes[where pr = pr])
       (simp_all add: pr private_of_def Map_has_def sB2_promise isArray_def)
  from sU4_promise(3) ty a b c d e f show ?thesis by simp
qed

section \<open>C8: arrays\<close>




section \<open>C9: a receiver without a private instance\<close>

text \<open>
  Claim C9. For every synthesized instance-level member (getter, setter or method) invoked
  with a receiver that has no bound implementation instance, the call produces no value
  (\<^verbatim>\<open>undefined\<close>) and does not raise an error.

  Every function that step 3.4 puts into the descriptor of a prototype member, in either
  file, starts with the guard \<^verbatim>\<open>if (!publicInstancesMap.has(this)) return;\<close>. With a receiver
  that is no key of that map the call returns \<^verbatim>\<open>undefined\<close> and leaves the state as it was,
  whatever the arguments.
\<close>

theorem unbound_receiver_gives_undefined:
  assumes "VFun c \<in> set (functions_of (proto_publicProperty sc sd privateProtoProperty))"
    and "scope_exists sc s"
    and "\<not> has_bound_instance sc s this"
  shows "call_closure H n c this args s = Some (Return VUndefined, s)"
proof -
  from assms(1) have forms:
    "c = ProtoGet sc privateProtoProperty \<or> c = ProtoSet sc privateProtoProperty \<or>
     c = ProtoCall sc privateProtoProperty \<or> c = ProtoRead sc privateProtoProperty"
    by (rule proto_member_forms)
  show ?thesis
  proof (cases sc)
    case Shared
    with assms(3) have "\<not> WeakMap_has (publicInstancesMap (shared s)) this"
      by (simp add: has_bound_instance_def)
    with forms Shared show ?thesis
      by (auto simp: call_closure_def)
  next
    case (Builder b)
    with assms(2) obtain pr where pr: "privateMap s b = Some pr"
      by (auto simp: scope_exists_def)
    with assms(3) Builder have "\<not> Map_has (publicInstancesMap pr) this"
      by (simp add: has_bound_instance_def)
    with forms Builder pr show ?thesis
      by (auto simp: call_closure_def)
  qed
qed

theorem unbound_receiver_gives_undefined_witness:
  "VFun (ProtoCall Shared (DataProp (VRef 2) True False True))
     \<in> set (functions_of (proto_publicProperty Shared s0 (DataProp (VRef 2) True False True)))
   \<and> scope_exists Shared sU1
   \<and> \<not> has_bound_instance Shared sU1 (VRef 9)
   \<and> call_closure H0 0 (ProtoCall Shared (DataProp (VRef 2) True False True)) (VRef 9) [VNum 5] sU1
       = Some (Return VUndefined, sU1)"
proof -
  have a: "VFun (ProtoCall Shared (DataProp (VRef 2) True False True))
     \<in> set (functions_of (proto_publicProperty Shared s0 (DataProp (VRef 2) True False True)))"
    by (simp add: functions_of_def evals)
  have b: "scope_exists Shared sU1" by (simp add: scope_exists_def)
  have c: "\<not> has_bound_instance Shared sU1 (VRef 9)"
    by (simp add: has_bound_instance_def sU1_def evals)
  from unbound_receiver_gives_undefined[OF a b c, of H0 0 "[VNum 5]"] a b c
  show ?thesis by simp
qed

section \<open>C10: a writable value that is not a function\<close>

text \<open>
  Claim C10. For every implementation type that has an exposed (non-internal) own static or
  prototype data property which is writable and whose value is not a function, compilation
  throws a TypeError: the synthesized descriptor sets \<^verbatim>\<open>writable: true\<close> together with an
  accessor getter, a combination \<^verbatim>\<open>Object.defineProperty\<close> rejects, so such a type cannot be
  compiled at all.

  For a class with such a member, building the public class (steps 1 to 3, in either
  file) ends in a TypeError; so do \<^verbatim>\<open>getPublicClass\<close> of \<^verbatim>\<open>Utility.js\<close> and the method of
  a builder whenever they have to build, that is, when no public class of the class is in
  the map already.
\<close>

theorem writable_plain_member_rejected:
  assumes "is_class s PrivateClass" and "exposed_writable_plain s PrivateClass"
  shows "fst (buildPublicClass H sc PrivateClass s) = Throw TypeError
       \<and> (\<not> WeakMap_has (privateClassesMap (shared s)) PrivateClass \<longrightarrow>
            fst (getPublicClass H PrivateClass s) = Throw TypeError)
       \<and> (\<forall>b pr. privateMap s b = Some pr \<and> \<not> Map_has (privateClassesMap pr) PrivateClass \<longrightarrow>
            fst (PublicClassBuilder_getPublicClass H (VRef b) PrivateClass s) = Throw TypeError)"
proof -
  note b = buildPublicClass_writable_plain[OF assms]
  have "fst (getPublicClass H PrivateClass s) = Throw TypeError"
    if "\<not> WeakMap_has (privateClassesMap (shared s)) PrivateClass"
    using that assms(1) b[of H Shared]
    by (cases "buildPublicClass H Shared PrivateClass s") (simp add: getPublicClass_def)
  moreover have "fst (PublicClassBuilder_getPublicClass H (VRef b) PrivateClass s) = Throw TypeError"
    if "privateMap s b = Some pr" "\<not> Map_has (privateClassesMap pr) PrivateClass" for b pr
    using that assms(1) b[of H "Builder b"]
    by (cases "buildPublicClass H (Builder b) PrivateClass s")
       (simp add: PublicClassBuilder_getPublicClass_def)
  ultimately show ?thesis using b by blast
qed

theorem writable_plain_member_rejected_witness:
  "is_class s0 (VRef 5) \<and> exposed_writable_plain s0 (VRef 5)
   \<and> get_own_property s0 (VRef 5) (KStr ''count'') = Some (DataProp (VNum 0) True True True)
   \<and> \<not> WeakMap_has (privateClassesMap (shared s0)) (VRef 5)
   \<and> fst (getPublicClass H0 (VRef 5) s0) = Throw TypeError
   \<and> privateMap sB0 8 = Some empty_registry
   \<and> fst (PublicClassBuilder_getPublicClass H0 (VRef 8) (VRef 5) sB0) = Throw TypeError"
proof -
  have c: "is_class s0 (VRef 5)" by (simp add: evals)
  have w: "exposed_writable_plain s0 (VRef 5)"
    by (simp add: exposed_writable_plain_def own_keys_def is_writable_plain_at_def
        writable_plain_def valid_def evals)
  have p: "get_own_property s0 (VRef 5) (KStr ''count'') = Some (DataProp (VNum 0) True True True)"
    by (simp add: evals)
  have n: "\<not> WeakMap_has (privateClassesMap (shared s0)) (VRef 5)" by (simp add: evals)
  have cb: "is_class sB0 (VRef 5)" by (simp add: sB0_def evals)
  have wb: "exposed_writable_plain sB0 (VRef 5)"
    by (simp add: sB0_def exposed_writable_plain_def own_keys_def is_writable_plain_at_def
        writable_plain_def valid_def evals)
  have pm: "privateMap sB0 8 = Some empty_registry" by (simp add: sB0_def evals)
  have nb: "\<not> Map_has (privateClassesMap empty_registry) (VRef 5)" by (simp add: evals)
  from writable_plain_member_rejected[OF c w, of H0 Shared] n
  have 1: "fst (getPublicClass H0 (VRef 5) s0) = Throw TypeError" by simp
  from writable_plain_member_rejected[OF cb wb, of H0 Shared] pm nb
  have 2: "fst (PublicClassBuilder_getPublicClass H0 (VRef 8) (VRef 5) sB0) = Throw TypeError"
    by blast
  from c w p n 1 pm 2 show ?thesis by simp
qed

end
